(* ===== verification/Prelude.thy ===== *)
theory Prelude
  imports Complex_Main "HOL-Library.Multiset"
begin

text \<open>
  Shared vocabulary of the Bomberworld server model: the names of identities
  (socket ids, room ids, timestamps), the JavaScript idioms the handlers use
  (truthiness of a read array cell, \<open>Array.prototype.findIndex\<close>, the
  \<open>"Guest" + n\<close> name fallback), generic lemmas on lists used by every
  component, and the collections that carry the component proofs.
\<close>

named_theorems world_simps
  \<open>lookups of the world store through the update helpers\<close>

type_synonym conn_id = string
type_synonym room_id = nat
type_synonym timestamp = int

subsection \<open>JavaScript truthiness of an array read\<close>

text \<open>
  A read \<open>a[i]\<close> of a JavaScript array is \<open>undefined\<close> (here \<open>None\<close>) or a number.
  \<open>if (a[i])\<close> is taken when the number is non-zero.
\<close>

fun truthy :: "int option \<Rightarrow> bool" where
  "truthy None = False"
| "truthy (Some v) = (v \<noteq> 0)"

subsection \<open>First and last index satisfying a predicate\<close>

text \<open>
  \<open>find_idx P xs\<close> is \<open>xs.findIndex(P)\<close> with \<open>-1\<close> read as \<open>None\<close>; \<open>last_idx\<close>
  is the index a forward loop without \<open>break\<close> keeps overwriting, i.e. the last match.
\<close>

fun find_idx :: "('a \<Rightarrow> bool) \<Rightarrow> 'a list \<Rightarrow> nat option" where
  "find_idx P [] = None"
| "find_idx P (x # xs) = (if P x then Some 0 else map_option Suc (find_idx P xs))"

fun last_idx :: "('a \<Rightarrow> bool) \<Rightarrow> 'a list \<Rightarrow> nat option" where
  "last_idx P [] = None"
| "last_idx P (x # xs) =
     (case last_idx P xs of Some i \<Rightarrow> Some (Suc i) | None \<Rightarrow> if P x then Some 0 else None)"

lemma find_idx_None_iff: "find_idx P xs = None \<longleftrightarrow> (\<forall>x \<in> set xs. \<not> P x)"
  by (induction xs) auto

lemma find_idx_Some_iff:
  "find_idx P xs = Some i \<longleftrightarrow> i < length xs \<and> P (xs ! i) \<and> (\<forall>j < i. \<not> P (xs ! j))"
proof (induction xs arbitrary: i)
  case Nil
  then show ?case by simp
next
  case (Cons x xs)
  show ?case
  proof (cases i)
    case 0
    then show ?thesis by simp
  next
    case (Suc k)
    have "(\<forall>j < Suc k. \<not> P ((x # xs) ! j)) \<longleftrightarrow> \<not> P x \<and> (\<forall>j < k. \<not> P (xs ! j))"
      by (auto simp: less_Suc_eq_0_disj)
    with Suc Cons.IH[of k] show ?thesis by auto
  qed
qed

lemma find_idx_SomeD:
  "find_idx P xs = Some i \<Longrightarrow> i < length xs \<and> P (xs ! i) \<and> (\<forall>j < i. \<not> P (xs ! j))"
  by (simp add: find_idx_Some_iff)

lemma find_idx_map: "find_idx P (map f xs) = find_idx (\<lambda>x. P (f x)) xs"
  by (induction xs) auto

lemma last_idx_map: "last_idx P (map f xs) = last_idx (\<lambda>x. P (f x)) xs"
  by (induction xs) auto

lemma last_idx_SomeD: "last_idx P xs = Some i \<Longrightarrow> i < length xs \<and> P (xs ! i)"
  by (induction xs arbitrary: i) (auto split: option.splits if_splits)

text \<open>The indexes \<open>0 .. n-1\<close> of a loop, read as integer keys.\<close>

lemma int_image_upt: "i \<in> int ` {0..<n} \<longleftrightarrow> 0 \<le> i \<and> i < int n"
proof
  assume "i \<in> int ` {0..<n}"
  then show "0 \<le> i \<and> i < int n" by auto
next
  assume h: "0 \<le> i \<and> i < int n"
  then have "nat i \<in> {0..<n}" by (simp add: nat_less_iff)
  moreover from h have "i = int (nat i)" by simp
  ultimately show "i \<in> int ` {0..<n}" by blast
qed

subsection \<open>Decimal rendering of a number\<close>

text \<open>\<open>"Guest" + n\<close> concatenates the decimal digits of \<open>n\<close>.\<close>

fun dec_string :: "nat \<Rightarrow> string" where
  "dec_string n =
     (if n < 10 then [char_of (48 + n)] else dec_string (n div 10) @ [char_of (48 + n mod 10)])"

declare dec_string.simps [simp del]

lemma dec_string_nonempty: "dec_string n \<noteq> []"
  by (subst dec_string.simps) simp

subsection \<open>Counting the occupied entries of a slot list\<close>

definition count_some :: "'a option list \<Rightarrow> nat" where
  "count_some xs = length (filter (\<lambda>x. x \<noteq> None) xs)"

lemma count_some_le_length: "count_some xs \<le> length xs"
  by (simp add: count_some_def)

lemma count_some_zero_iff: "count_some xs = 0 \<longleftrightarrow> (\<forall>x \<in> set xs. x = None)"
  by (auto simp: count_some_def filter_empty_conv)

lemma count_some_eq_length_iff: "count_some xs = length xs \<longleftrightarrow> None \<notin> set xs"
proof
  assume "count_some xs = length xs"
  then show "None \<notin> set xs"
    using length_filter_less[of None xs "\<lambda>x. x \<noteq> None"] by (auto simp: count_some_def)
next
  assume "None \<notin> set xs"
  then have "filter (\<lambda>x. x \<noteq> None) xs = xs" by (induction xs) (auto simp: eq_commute[of None])
  then show "count_some xs = length xs" by (simp add: count_some_def)
qed

end
