(* ===== verification/MapState.thy ===== *)
theory MapState
  imports Prelude "HOL-Library.AList_Mapping"
begin

text \<open>
  The map state of a room (\<open>room.map\<close>): named tile layers of flat cell arrays
  (\<open>layers[l].name\<close>, \<open>layers[l].data\<close>), the map \<open>width\<close>, and the fixed spawn order.
  A layer's \<open>data\<close> is a JavaScript array written at client-supplied indexes
  \<open>row * width + col\<close>, so it is modelled with JavaScript's semantics for integer keys:
  a read of an absent key is \<open>undefined\<close> (\<open>None\<close>), a write at a key at or beyond
  \<open>length\<close> extends the array (leaving holes), and a write at a negative key creates a
  property that is no array element and does not change \<open>length\<close>.
  The loops of \<open>SocketEventHandler.js\<close> over the layers and the cells are modelled
  here in their source shape (first match with \<open>break\<close>, last match without, a loop over
  every match), with their closed forms as lemmas.
\<close>

subsection \<open>JavaScript arrays with integer keys\<close>

record js_array =
  cells :: "(int, int) mapping"
  alen :: nat

definition js_get :: "js_array \<Rightarrow> int \<Rightarrow> int option" where
  "js_get a i = Mapping.lookup (cells a) i"

definition js_set :: "js_array \<Rightarrow> int \<Rightarrow> int \<Rightarrow> js_array" where
  "js_set a i v =
     a\<lparr>cells := Mapping.update i v (cells a),
       alen := (if 0 \<le> i then max (alen a) (nat i + 1) else alen a)\<rparr>"

text \<open>A JSON array literal as loaded from the map file.\<close>

definition js_of_list :: "int list \<Rightarrow> js_array" where
  "js_of_list xs =
     \<lparr>cells = Mapping.tabulate (map int [0..<length xs]) (\<lambda>i. xs ! nat i), alen = length xs\<rparr>"

text \<open>Every present non-negative key is below \<open>length\<close>.\<close>

definition js_wf :: "js_array \<Rightarrow> bool" where
  "js_wf a \<longleftrightarrow> (\<forall>i. 0 \<le> i \<longrightarrow> js_get a i \<noteq> None \<longrightarrow> i < int (alen a))"

lemma js_get_set_same [simp]: "js_get (js_set a i v) i = Some v"
  by (simp add: js_get_def js_set_def)

lemma js_get_set_other [simp]: "j \<noteq> i \<Longrightarrow> js_get (js_set a i v) j = js_get a j"
  by (simp add: js_get_def js_set_def)

lemma js_get_set: "js_get (js_set a i v) j = (if j = i then Some v else js_get a j)"
  by simp

lemma alen_js_set_in_range [simp]:
  "0 \<le> i \<Longrightarrow> i < int (alen a) \<Longrightarrow> alen (js_set a i v) = alen a"
  by (simp add: js_set_def)

lemma js_wf_js_set: "js_wf a \<Longrightarrow> js_wf (js_set a i v)"
  by (auto simp: js_wf_def js_set_def js_get_def lookup_update')

lemma js_get_of_list:
  "js_get (js_of_list xs) i = (if 0 \<le> i \<and> i < int (length xs) then Some (xs ! nat i) else None)"
proof -
  have "i \<in> set (map int [0..<length xs]) \<longleftrightarrow> 0 \<le> i \<and> i < int (length xs)"
    using int_image_upt[of i "length xs"] by simp
  then show ?thesis
    by (simp add: js_get_def js_of_list_def lookup_tabulate distinct_map inj_on_def)
qed

lemma js_wf_js_of_list: "js_wf (js_of_list xs)"
proof -
  have "alen (js_of_list xs) = length xs" by (simp add: js_of_list_def)
  then show ?thesis by (simp add: js_wf_def js_get_of_list)
qed

subsection \<open>Tile layers and the map\<close>

record layer =
  lname :: string
  ldata :: js_array

record spawn_point =
  sp_col :: int
  sp_row :: int

record tilemap =
  width :: int
  layers :: "layer list"
  spawn_order :: "spawn_point list"

definition cell_index :: "tilemap \<Rightarrow> int \<Rightarrow> int \<Rightarrow> int" where
  "cell_index m col row = row * width m + col"

text \<open>Apply a change to the data of layer \<open>k\<close> (\<open>this.room.map.layers[k].data\<close>).\<close>

definition upd_layer :: "nat \<Rightarrow> (js_array \<Rightarrow> js_array) \<Rightarrow> tilemap \<Rightarrow> tilemap" where
  "upd_layer k f m =
     m\<lparr>layers := (layers m)[k := (layers m ! k)\<lparr>ldata := f (ldata (layers m ! k))\<rparr>]\<rparr>"

definition first_layer :: "string \<Rightarrow> tilemap \<Rightarrow> nat option" where
  "first_layer n m = find_idx (\<lambda>l. lname l = n) (layers m)"

definition last_layer :: "string \<Rightarrow> tilemap \<Rightarrow> nat option" where
  "last_layer n m = last_idx (\<lambda>l. lname l = n) (layers m)"

text \<open>
  \<open>for (l ...) if (layers[l].name == n) { layers[l].data[i] = v; break; }\<close>
  (\<open>onPlayerCollectPowerup\<close>).
\<close>

definition set_first_layer :: "string \<Rightarrow> int \<Rightarrow> int \<Rightarrow> tilemap \<Rightarrow> tilemap" where
  "set_first_layer n i v m =
     (case first_layer n m of None \<Rightarrow> m | Some k \<Rightarrow> upd_layer k (\<lambda>a. js_set a i v) m)"

text \<open>
  \<open>for (l ...) { if (layers[l].name != n) continue; layers[l].data[i] = v; }\<close>
  (\<open>onPowerupDisappear\<close>): every layer of that name.
\<close>

definition set_all_layers :: "string \<Rightarrow> int \<Rightarrow> int \<Rightarrow> tilemap \<Rightarrow> tilemap" where
  "set_all_layers n i v m =
     m\<lparr>layers := map (\<lambda>l. if lname l = n then l\<lparr>ldata := js_set (ldata l) i v\<rparr> else l) (layers m)\<rparr>"

subsection \<open>Removing one owner's bombs\<close>

text \<open>
  \<open>for (b = 0; b < data.length; b++) if (data[b] == v) data[b] = 0;\<close>
  The loop re-reads \<open>data.length\<close>, which its in-range writes do not change, so it is a
  fold over the indexes below the initial length.
\<close>

definition scrub_step :: "int \<Rightarrow> nat \<Rightarrow> js_array \<Rightarrow> js_array" where
  "scrub_step v b a = (if js_get a (int b) = Some v then js_set a (int b) 0 else a)"

definition scrub_cells :: "int \<Rightarrow> js_array \<Rightarrow> js_array" where
  "scrub_cells v a = fold (scrub_step v) [0..<alen a] a"

text \<open>The reference definition the loop computes: every array element equal to \<open>v\<close> becomes 0.\<close>

definition scrub_spec :: "int \<Rightarrow> js_array \<Rightarrow> js_array" where
  "scrub_spec v a =
     a\<lparr>cells := Mapping.map_values (\<lambda>i x. if 0 \<le> i \<and> i < int (alen a) \<and> x = v then 0 else x) (cells a)\<rparr>"

text \<open>\<open>onClientDisconnect\<close>: the first layer named \<open>"bombs"\<close> loses the owner's code.\<close>

definition scrub_bombs :: "int \<Rightarrow> tilemap \<Rightarrow> tilemap" where
  "scrub_bombs v m =
     (case first_layer ''bombs'' m of None \<Rightarrow> m | Some k \<Rightarrow> upd_layer k (scrub_cells v) m)"

subsection \<open>Clearing exploded cells\<close>

text \<open>
  \<open>onBombExplode\<close>: the loop over the layers has no \<open>break\<close> (the \<open>break\<close>s leave the
  \<open>switch\<close>), so the last \<open>"objects"\<close> and the last \<open>"bombs"\<close> layer are found; only
  when both exist is every reported \<open>[col,row]\<close> cleared in both.
\<close>

fun clear_cells :: "nat \<Rightarrow> nat \<Rightarrow> (int \<times> int) list \<Rightarrow> tilemap \<Rightarrow> tilemap" where
  "clear_cells bk ok [] m = m"
| "clear_cells bk ok ((col, row) # es) m =
     (let oi = cell_index m col row
      in clear_cells bk ok es (upd_layer ok (\<lambda>a. js_set a oi 0) (upd_layer bk (\<lambda>a. js_set a oi 0) m)))"

definition explode_cells :: "(int \<times> int) list \<Rightarrow> tilemap \<Rightarrow> tilemap" where
  "explode_cells es m =
     (case (last_layer ''objects'' m, last_layer ''bombs'' m) of
        (Some ok, Some bk) \<Rightarrow> clear_cells bk ok es m
      | _ \<Rightarrow> m)"

subsection \<open>Lemmas: the layer helpers\<close>

lemma length_upd_layer [simp]: "length (layers (upd_layer k f m)) = length (layers m)"
  by (simp add: upd_layer_def)

lemma width_upd_layer [simp]: "width (upd_layer k f m) = width m"
  and spawn_order_upd_layer [simp]: "spawn_order (upd_layer k f m) = spawn_order m"
  by (simp_all add: upd_layer_def)

lemma lname_upd_layer [simp]:
  "map lname (layers (upd_layer k f m)) = map lname (layers m)"
proof (cases "k < length (layers m)")
  case True
  then have "(map lname (layers m))[k := lname (layers m ! k)] = map lname (layers m)"
    by (metis list_update_id nth_map)
  then show ?thesis by (simp add: upd_layer_def map_update)
next
  case False
  then show ?thesis by (simp add: upd_layer_def list_update_beyond)
qed

lemma first_layer_upd_layer [simp]: "first_layer n (upd_layer k f m) = first_layer n m"
  by (simp add: first_layer_def find_idx_map[of "\<lambda>s. s = n" lname, symmetric])

lemma last_layer_upd_layer [simp]: "last_layer n (upd_layer k f m) = last_layer n m"
  by (simp add: last_layer_def last_idx_map[of "\<lambda>s. s = n" lname, symmetric])

lemma ldata_upd_layer:
  "j < length (layers m) \<Longrightarrow>
   ldata (layers (upd_layer k f m) ! j) = (if j = k then f (ldata (layers m ! k)) else ldata (layers m ! j))"
  by (simp add: upd_layer_def nth_list_update)

lemma first_layer_SomeD: "first_layer n m = Some k \<Longrightarrow> k < length (layers m) \<and> lname (layers m ! k) = n"
  by (auto simp: first_layer_def dest: find_idx_SomeD)

lemma last_layer_SomeD: "last_layer n m = Some k \<Longrightarrow> k < length (layers m) \<and> lname (layers m ! k) = n"
  by (auto simp: last_layer_def dest: last_idx_SomeD)

lemma clear_cells_frame [simp]:
  "length (layers (clear_cells bk ok es m)) = length (layers m)"
  "width (clear_cells bk ok es m) = width m"
  "spawn_order (clear_cells bk ok es m) = spawn_order m"
  by (induction bk ok es m rule: clear_cells.induct) (simp_all add: Let_def)

lemma upd_layer_keeps_zero:
  "j < length (layers m) \<Longrightarrow> js_get (ldata (layers m ! j)) i = Some 0 \<Longrightarrow>
   js_get (ldata (layers (upd_layer k (\<lambda>a. js_set a x 0) m) ! j)) i = Some 0"
  by (auto simp: ldata_upd_layer js_get_set)

lemma clear_cells_step:
  "clear_cells bk ok ((c, r) # es) m =
     clear_cells bk ok es (upd_layer ok (\<lambda>a. js_set a (cell_index m c r) 0)
       (upd_layer bk (\<lambda>a. js_set a (cell_index m c r) 0) m))"
  by (simp add: Let_def)

lemma clear_cells_keeps_zero:
  "j < length (layers m) \<Longrightarrow> js_get (ldata (layers m ! j)) i = Some 0 \<Longrightarrow>
   js_get (ldata (layers (clear_cells bk ok es m) ! j)) i = Some 0"
proof (induction bk ok es m rule: clear_cells.induct)
  case (1 bk ok m)
  then show ?case by simp
next
  case (2 bk ok col row es m)
  let ?m1 = "upd_layer bk (\<lambda>a. js_set a (cell_index m col row) 0) m"
  let ?m2 = "upd_layer ok (\<lambda>a. js_set a (cell_index m col row) 0) ?m1"
  have "js_get (ldata (layers ?m1 ! j)) i = Some 0"
    using "2.prems" by (rule upd_layer_keeps_zero)
  then have "js_get (ldata (layers ?m2 ! j)) i = Some 0"
    using "2.prems" by (intro upd_layer_keeps_zero) simp_all
  with "2.IH"[of "cell_index m col row"] "2.prems" show ?case
    by (simp only: clear_cells_step) simp
qed

lemma clear_cells_zero:
  "bk < length (layers m) \<Longrightarrow> ok < length (layers m) \<Longrightarrow> (col, row) \<in> set es \<Longrightarrow>
   js_get (ldata (layers (clear_cells bk ok es m) ! bk)) (cell_index m col row) = Some 0 \<and>
   js_get (ldata (layers (clear_cells bk ok es m) ! ok)) (cell_index m col row) = Some 0"
proof (induction bk ok es m rule: clear_cells.induct)
  case (1 bk ok m)
  then show ?case by simp
next
  case (2 bk ok c r es m)
  let ?m' = "upd_layer ok (\<lambda>a. js_set a (cell_index m c r) 0) (upd_layer bk (\<lambda>a. js_set a (cell_index m c r) 0) m)"
  have ci: "cell_index ?m' col row = cell_index m col row"
    by (simp add: cell_index_def)
  have len: "length (layers ?m') = length (layers m)" by simp
  show ?case
  proof (cases "(col, row) = (c, r)")
    case True
    then have "js_get (ldata (layers ?m' ! bk)) (cell_index m col row) = Some 0"
          and "js_get (ldata (layers ?m' ! ok)) (cell_index m col row) = Some 0"
      using "2.prems" by (auto simp: ldata_upd_layer js_get_set)
    then show ?thesis
      using "2.prems" len by (simp only: clear_cells_step) (simp add: clear_cells_keeps_zero)
  next
    case False
    with "2.prems" have "(col, row) \<in> set es" by auto
    with "2.IH"[of "cell_index m c r"] "2.prems" ci show ?thesis by (simp add: Let_def)
  qed
qed

subsection \<open>Lemmas: the scrub loop computes its closed form\<close>

lemma alen_scrub_step [simp]: "b < alen a \<Longrightarrow> alen (scrub_step v b a) = alen a"
  by (simp add: scrub_step_def)

lemma js_get_scrub_step:
  "js_get (scrub_step v b a) i = (if i = int b \<and> js_get a i = Some v then Some 0 else js_get a i)"
  by (auto simp: scrub_step_def)

lemma alen_fold_scrub_step:
  "\<forall>b \<in> set bs. b < alen a \<Longrightarrow> alen (fold (scrub_step v) bs a) = alen a"
  by (induction bs arbitrary: a) simp_all

lemma js_get_fold_scrub_step:
  "distinct bs \<Longrightarrow> \<forall>b \<in> set bs. b < alen a \<Longrightarrow>
   js_get (fold (scrub_step v) bs a) i =
     (if i \<in> int ` set bs \<and> js_get a i = Some v then Some 0 else js_get a i)"
proof (induction bs arbitrary: a)
  case Nil
  then show ?case by simp
next
  case (Cons b bs)
  then have "js_get (fold (scrub_step v) bs (scrub_step v b a)) i =
      (if i \<in> int ` set bs \<and> js_get (scrub_step v b a) i = Some v then Some 0
       else js_get (scrub_step v b a) i)"
    by simp
  with Cons.prems show ?case by (auto simp: js_get_scrub_step)
qed

lemma js_get_scrub_spec:
  "js_get (scrub_spec v a) i =
     (if 0 \<le> i \<and> i < int (alen a) \<and> js_get a i = Some v then Some 0 else js_get a i)"
  by (cases "Mapping.lookup (cells a) i") (auto simp: scrub_spec_def js_get_def lookup_map_values)

lemma scrub_cells_eq_spec: "scrub_cells v a = scrub_spec v a"
proof (rule js_array.equality)
  show "cells (scrub_cells v a) = cells (scrub_spec v a)"
  proof (rule mapping_eqI)
    fix i
    show "Mapping.lookup (cells (scrub_cells v a)) i = Mapping.lookup (cells (scrub_spec v a)) i"
      using js_get_fold_scrub_step[of "[0..<alen a]" a v i] js_get_scrub_spec[of v a i]
      by (simp add: scrub_cells_def js_get_def int_image_upt)
  qed
  show "alen (scrub_cells v a) = alen (scrub_spec v a)"
    by (simp add: scrub_cells_def scrub_spec_def alen_fold_scrub_step)
  show "js_array.more (scrub_cells v a) = js_array.more (scrub_spec v a)"
    by simp
qed

end
