(* ===== verification/Player.thy ===== *)
theory Player
  imports Prelude
begin

text \<open>
  The per-connection \<open>Player\<close> object (\<open>Player.js\<close>, which is not among the sources:
  modelled from the data model of the specification). A player is identified by the
  socket id it was created for; its \<open>serial\<close> is its slot in the room it joined last.
  Positions are JavaScript numbers, read here as reals.
\<close>

record player =
  pid :: conn_id
  serial :: nat
  name :: string
  px :: real
  py :: real
  animation_key :: string
  is_dead :: bool
  is_invincible :: bool
  i_timestamp :: timestamp
  is_active :: bool
  frags :: int
  last_message :: string
  nickname :: string

text \<open>
  \<open>new Player(id)\<close>: a fresh connection is alive, not invincible, has no frags and is
  focused (active), so that the first member of a room can take host authority.
\<close>

definition new_player :: "conn_id \<Rightarrow> player" where
  "new_player c =
     \<lparr>pid = c, serial = 0, name = [], px = 0, py = 0, animation_key = [],
      is_dead = False, is_invincible = False, i_timestamp = 0, is_active = True,
      frags = 0, last_message = [], nickname = []\<rparr>"

lemma new_player_simps [simp]:
  "pid (new_player c) = c" "is_active (new_player c)" "\<not> is_dead (new_player c)"
  "frags (new_player c) = 0" "serial (new_player c) = 0"
  by (simp_all add: new_player_def)

end
