(* ===== verification/Room.thy ===== *)
theory Room
  imports MapState Player
begin

text \<open>
  The \<open>Room\<close> object (\<open>Room.js\<close>, not among the sources: modelled from the
  specification). A room has a fixed roster of \<open>room_capacity\<close> slots indexed by
  serial, each empty or holding the socket id of a player (the player object itself is
  in the world's player store, so a change through \<open>room.players[s]\<close> and one through
  \<open>client.player\<close> change the same object), a host pointer, the host-change timestamp,
  its map, and the spawn cursor.
  Host selection takes, in serial order, the first member that is active and is not the
  outgoing host; the specification leaves the tie-break open and suggests this rule.
\<close>

definition room_capacity :: nat where
  "room_capacity = 8"

record room =
  room_id :: room_id
  slots :: "conn_id option list"
  host :: "conn_id option"
  rc_timestamp :: timestamp
  rmap :: tilemap
  next_spawn_index :: nat

text \<open>\<open>new Room()\<close>: empty roster, no host, the level's map, spawn cursor at 0.\<close>

definition new_room :: "room_id \<Rightarrow> tilemap \<Rightarrow> room" where
  "new_room rid lvl =
     \<lparr>room_id = rid, slots = replicate room_capacity None, host = None,
      rc_timestamp = 0, rmap = lvl, next_spawn_index = 0\<rparr>"

definition members :: "room \<Rightarrow> conn_id list" where
  "members r = concat (map (\<lambda>x. case x of None \<Rightarrow> [] | Some c \<Rightarrow> [c]) (slots r))"

definition is_full :: "room \<Rightarrow> bool" where
  "is_full r \<longleftrightarrow> count_some (slots r) = room_capacity"

definition is_empty :: "room \<Rightarrow> bool" where
  "is_empty r \<longleftrightarrow> count_some (slots r) = 0"

definition has_host :: "room \<Rightarrow> bool" where
  "has_host r \<longleftrightarrow> host r \<noteq> None"

definition is_host :: "conn_id \<Rightarrow> room \<Rightarrow> bool" where
  "is_host c r \<longleftrightarrow> host r = Some c"

text \<open>\<open>room.players[s]\<close> for a client-supplied serial: \<open>undefined\<close> outside the roster.\<close>

definition slot_at :: "room \<Rightarrow> int \<Rightarrow> conn_id option" where
  "slot_at r s = (if 0 \<le> s \<and> s < int (length (slots r)) then slots r ! nat s else None)"

text \<open>\<open>insertPlayer\<close>: the first free slot; the serial is returned for the caller to store.\<close>

definition insert_player :: "conn_id \<Rightarrow> room \<Rightarrow> (room \<times> nat) option" where
  "insert_player c r =
     (case find_idx (\<lambda>x. x = None) (slots r) of
        None \<Rightarrow> None
      | Some s \<Rightarrow> Some (r\<lparr>slots := (slots r)[s := Some c]\<rparr>, s))"

text \<open>\<open>excludePlayer\<close>: empties the player's slot.\<close>

definition exclude_player :: "nat \<Rightarrow> room \<Rightarrow> room" where
  "exclude_player s r = r\<lparr>slots := (slots r)[s := None]\<rparr>"

definition host_candidate :: "(conn_id \<rightharpoonup> player) \<Rightarrow> room \<Rightarrow> conn_id option" where
  "host_candidate ps r =
     find (\<lambda>c. host r \<noteq> Some c \<and> (case ps c of Some p \<Rightarrow> is_active p | None \<Rightarrow> False)) (members r)"

text \<open>\<open>selectNewHost\<close> (its broadcast is emitted by the caller's world step).\<close>

definition select_new_host :: "(conn_id \<rightharpoonup> player) \<Rightarrow> room \<Rightarrow> room" where
  "select_new_host ps r = r\<lparr>host := host_candidate ps r\<rparr>"

text \<open>\<open>resetMap\<close>: back to the level's starting layers.\<close>

definition reset_map :: "tilemap \<Rightarrow> room \<Rightarrow> room" where
  "reset_map lvl r = r\<lparr>rmap := lvl\<rparr>"

subsection \<open>Lemmas: roster\<close>

lemma set_members: "set (members r) = {c. Some c \<in> set (slots r)}"
  by (auto simp: members_def split: option.splits)

lemma in_members_iff: "c \<in> set (members r) \<longleftrightarrow> Some c \<in> set (slots r)"
  by (simp add: set_members)

lemma members_slots_eq: "slots r' = slots r \<Longrightarrow> members r' = members r"
  by (simp add: members_def)

lemma insert_player_Some_iff:
  "(\<exists>r' s. insert_player c r = Some (r', s)) \<longleftrightarrow> None \<in> set (slots r)"
  by (auto simp: insert_player_def find_idx_None_iff split: option.splits dest!: find_idx_SomeD)
     (metis nth_mem)

lemma insert_player_SomeD:
  assumes "insert_player c r = Some (r', s)"
  shows "s < length (slots r) \<and> slots r ! s = None \<and> (\<forall>j < s. slots r ! j \<noteq> None)
    \<and> r' = r\<lparr>slots := (slots r)[s := Some c]\<rparr>"
  using assms find_idx_SomeD[of "\<lambda>x. x = None" "slots r" s]
  by (auto simp: insert_player_def split: option.splits)

lemma not_full_has_free_slot:
  "length (slots r) = room_capacity \<Longrightarrow> \<not> is_full r \<Longrightarrow> None \<in> set (slots r)"
  using count_some_eq_length_iff[of "slots r"] by (simp add: is_full_def)

lemma host_candidate_SomeD:
  "host_candidate ps r = Some c \<Longrightarrow>
     c \<in> set (members r) \<and> host r \<noteq> Some c \<and> (\<exists>p. ps c = Some p \<and> is_active p)"
  by (auto simp: host_candidate_def find_Some_iff split: option.splits)

lemma host_candidate_None:
  "host_candidate ps r = None \<Longrightarrow> c \<in> set (members r) \<Longrightarrow> host r \<noteq> Some c \<Longrightarrow>
     ps c = Some p \<Longrightarrow> \<not> is_active p"
  by (auto simp: host_candidate_def find_None_iff)

end
