(* ===== verification/Registry.thy ===== *)
theory Registry
  imports Room
begin

text \<open>
  The process-wide registries of \<open>SocketEventHandler.js\<close>: the array \<open>players\<close> of
  connected players (here their socket ids) and the array \<open>rooms\<close> of live rooms (here
  their ids; the room objects are in the world's room store). The three registry
  operations of the handlers are modelled in their source form: removal of a player by
  \<open>findIndex\<close> and \<open>splice\<close>, removal of a room by \<open>indexOf\<close> and the
  swap-with-last-then-\<open>pop\<close> idiom, and the first-fit scan of \<open>onRoomRequest\<close>.
  Their abstract specifications are multiset operations: the refinement lemmas say that
  each source idiom removes exactly one occurrence, or finds the first open room.
\<close>

subsection \<open>Player registry\<close>

text \<open>
  \<open>var i = players.findIndex(p => p.id === this.id); if (i !== -1) players.splice(i, 1);\<close>
\<close>

definition player_unregister :: "conn_id \<Rightarrow> conn_id list \<Rightarrow> conn_id list" where
  "player_unregister c ps =
     (case find_idx (\<lambda>p. p = c) ps of None \<Rightarrow> ps | Some i \<Rightarrow> take i ps @ drop (Suc i) ps)"

subsection \<open>Room registry\<close>

text \<open>\<open>rooms.indexOf(room)\<close>: the first position, or \<open>-1\<close>.\<close>

definition js_index_of :: "'a \<Rightarrow> 'a list \<Rightarrow> int" where
  "js_index_of x xs = (case find_idx (\<lambda>y. y = x) xs of None \<Rightarrow> -1 | Some i \<Rightarrow> int i)"

text \<open>
  \<open>rooms[ri] = rooms.splice(rooms.length - 1, 1, rooms[ri])[0]; rooms.pop();\<close>
  For an index in range, the last room moves to position \<open>ri\<close> and the old last slot,
  which now holds the removed room, is popped. For \<open>ri = -1\<close>, \<open>splice\<close> puts
  \<open>undefined\<close> in the last position, the assignment \<open>rooms[-1] = \<dots>\<close> creates a property
  that is no element, and \<open>pop\<close> drops the last element.
\<close>

definition swap_remove :: "int \<Rightarrow> 'a list \<Rightarrow> 'a list" where
  "swap_remove ri xs =
     (if 0 \<le> ri \<and> ri < int (length xs) then butlast (xs[nat ri := last xs]) else butlast xs)"

text \<open>
  The first-fit scan: \<open>for (r ...) { if (rooms[r].isFull()) continue; else { t_room = rooms[r]; break; } }\<close>.
\<close>

definition room_open :: "(room_id \<rightharpoonup> room) \<Rightarrow> room_id \<Rightarrow> bool" where
  "room_open rs rid = (case rs rid of Some r \<Rightarrow> \<not> is_full r | None \<Rightarrow> False)"

definition find_room :: "(room_id \<rightharpoonup> room) \<Rightarrow> room_id list \<Rightarrow> room_id option" where
  "find_room rs ids = find (room_open rs) ids"

subsection \<open>Lemmas: the source idioms refine multiset removal\<close>

lemma player_unregister_eq_remove1: "player_unregister c ps = remove1 c ps"
proof (induction ps)
  case Nil
  then show ?case by (simp add: player_unregister_def)
next
  case (Cons p ps)
  then show ?case
    by (auto simp: player_unregister_def split: option.splits)
qed

lemma js_index_of_nonneg:
  "x \<in> set xs \<Longrightarrow> js_index_of x xs = int i \<longleftrightarrow> find_idx (\<lambda>y. y = x) xs = Some i"
  by (auto simp: js_index_of_def find_idx_None_iff split: option.splits)

lemma js_index_of_in_set:
  assumes "x \<in> set xs"
  obtains i where "js_index_of x xs = int i" "i < length xs" "xs ! i = x"
proof -
  from assms obtain i where i: "find_idx (\<lambda>y. y = x) xs = Some i"
    by (cases "find_idx (\<lambda>y. y = x) xs") (auto simp: find_idx_None_iff)
  then have "i < length xs" "xs ! i = x" by (auto dest: find_idx_SomeD)
  with i show ?thesis by (intro that) (simp_all add: js_index_of_def)
qed

lemma js_index_of_not_in_set:
  assumes "x \<notin> set xs" shows "js_index_of x xs = -1"
proof -
  from assms have "find_idx (\<lambda>y. y = x) xs = None" by (auto simp: find_idx_None_iff)
  then show ?thesis by (simp add: js_index_of_def)
qed

lemma mset_butlast_update_last:
  assumes "i < length xs"
  shows "mset (butlast (xs[i := last xs])) = mset xs - {#xs ! i#}"
proof -
  have ne: "xs \<noteq> []" using assms by auto
  have "mset (xs[i := last xs]) = mset xs - {#xs ! i#} + {#last xs#}"
    using assms by (simp add: mset_update)
  moreover have "last (xs[i := last xs]) = last xs"
    using assms ne by (cases "i = length xs - 1") (simp_all add: last_conv_nth)
  moreover have "mset (butlast ys) = mset ys - {#last ys#}" if "ys \<noteq> []" for ys :: "'a list"
    using that by (metis add_diff_cancel_right' append_butlast_last_id mset.simps(1,2) union_code)
  ultimately show ?thesis
    using ne by (metis add_diff_cancel_right' list_update_nonempty)
qed

lemma swap_remove_index_mset:
  assumes "x \<in> set xs"
  shows "mset (swap_remove (js_index_of x xs) xs) = mset xs - {#x#}"
proof -
  obtain i where "js_index_of x xs = int i" "i < length xs" "xs ! i = x"
    using assms by (rule js_index_of_in_set)
  then show ?thesis
    by (simp add: swap_remove_def mset_butlast_update_last)
qed

lemma swap_remove_index_other:
  assumes "js_index_of x xs = int i" "i < length xs" "j < length xs - 1" "j \<noteq> i"
  shows "swap_remove (js_index_of x xs) xs ! j = xs ! j"
  using assms by (simp add: swap_remove_def nth_butlast)

lemma swap_remove_index_distinct:
  assumes "distinct xs" "x \<in> set xs"
  shows "distinct (swap_remove (js_index_of x xs) xs) \<and> set (swap_remove (js_index_of x xs) xs) = set xs - {x}"
proof -
  let ?ys = "swap_remove (js_index_of x xs) xs"
  have e: "mset ?ys = mset (remove1 x xs)"
    using assms(2) by (simp add: swap_remove_index_mset)
  have "distinct ?ys = distinct (remove1 x xs)" using e by (rule mset_eq_imp_distinct_iff)
  moreover have "set ?ys = set (remove1 x xs)" using e by (rule mset_eq_setD)
  ultimately show ?thesis using assms(1) by simp
qed

lemma swap_remove_not_found: "swap_remove (-1) xs = butlast xs"
  by (simp add: swap_remove_def)

lemma find_room_SomeD:
  "find_room rs ids = Some rid \<Longrightarrow>
     \<exists>k < length ids. ids ! k = rid \<and> room_open rs rid \<and> (\<forall>j < k. \<not> room_open rs (ids ! j))"
  by (auto simp: find_room_def find_Some_iff)

lemma find_room_None_iff:
  "find_room rs ids = None \<longleftrightarrow> (\<forall>rid \<in> set ids. \<not> room_open rs rid)"
  by (auto simp: find_room_def find_None_iff)

end
