(* ===== verification/World.thy ===== *)
theory World
  imports Registry
begin

text \<open>
  The state the coordination engine owns, and the interface to the transport.
  \<^item> \<open>players\<close>, \<open>rooms\<close>: the global arrays of \<open>SocketEventHandler.js\<close>.
  \<^item> \<open>pstore\<close>, \<open>rstore\<close>: the heap of \<open>Player\<close> and \<open>Room\<close> objects, by identity.
    Objects are never freed: a room removed from \<open>rooms\<close> still exists for every
    socket whose \<open>this.room\<close> points at it, as in JavaScript.
  \<^item> \<open>sockets\<close>: the live sockets and their \<open>this.room\<close> binding (\<open>None\<close>: no room yet).
  \<^item> \<open>next_rid\<close>: the room id generator of \<open>new Room()\<close>; \<open>level\<close>: the map file a new
    room starts from and \<open>resetMap\<close> restores.
  \<^item> \<open>srv_rooms\<close>, \<open>srv_players\<close>: the arrays \<open>rooms\<close> and \<open>players\<close> of \<open>index.js\<close>
    (lines 92--93). \<open>SocketEventHandler.js\<close> is required (line 91) before they are
    published as \<open>global.rooms\<close>/\<open>global.players\<close> (lines 96--97), so its lines 5--6
    create arrays of their own: these two are separate, and no handler writes them.
  \<^item> \<open>outbox\<close>: every event emitted, in emission order, with its recipients resolved
    when it is emitted (\<open>client.emit\<close>, \<open>room.emitAll\<close>, \<open>room.emitBroadcast\<close>).
  A \<open>fault\<close> is an exception a handler throws (a property read on \<open>undefined\<close>).
\<close>

subsection \<open>Event payloads\<close>

record spawn_data =
  sd_x :: real
  sd_y :: real
  sd_nickname :: string

record move_data =
  mv_tag :: string
  mv_x :: real
  mv_y :: real
  mv_key :: string

record death_data =
  dd_victim_serial :: int
  dd_killer_serial :: int

record powerup_data =
  pu_col :: int
  pu_row :: int
  pu_type :: string

record bomb_data =
  bd_owner_serial :: int
  bd_col :: int
  bd_row :: int

datatype payload =
    P_player player
  | P_room room
  | P_chat conn_id string
  | P_spawn spawn_data timestamp
  | P_move move_data
  | P_death death_data conn_id int conn_id int
  | P_collect powerup_data timestamp nat
  | P_serial int
  | P_bomb bomb_data timestamp
  | P_explode "(int \<times> int) list" timestamp
  | P_tile powerup_data
  | P_host conn_id
  | P_login string
  | P_undefined

record msg =
  dest :: "conn_id list"
  event :: string
  body :: payload

datatype fault = TypeError string

subsection \<open>The world\<close>

record world =
  players :: "conn_id list"
  rooms :: "room_id list"
  pstore :: "conn_id \<rightharpoonup> player"
  rstore :: "room_id \<rightharpoonup> room"
  sockets :: "conn_id \<rightharpoonup> room_id option"
  next_rid :: room_id
  level :: tilemap
  srv_rooms :: "room_id list"
  srv_players :: "conn_id list"
  outbox :: "msg list"

definition init_world :: "tilemap \<Rightarrow> world" where
  "init_world lvl =
     \<lparr>players = [], rooms = [], pstore = Map.empty, rstore = Map.empty, sockets = Map.empty,
      next_rid = 0, level = lvl, srv_rooms = [], srv_players = [], outbox = []\<rparr>"

subsection \<open>Emission primitives\<close>

text \<open>\<open>client.emit(ev, p)\<close>.\<close>

definition emit_to :: "conn_id \<Rightarrow> string \<Rightarrow> payload \<Rightarrow> msg" where
  "emit_to c ev p = \<lparr>dest = [c], event = ev, body = p\<rparr>"

text \<open>\<open>room.emitAll(io, ev, p)\<close>: every member, the sender included.\<close>

definition emit_all :: "room \<Rightarrow> string \<Rightarrow> payload \<Rightarrow> msg" where
  "emit_all r ev p = \<lparr>dest = members r, event = ev, body = p\<rparr>"

text \<open>\<open>room.emitBroadcast(io, ev, p, id)\<close>: every member but \<open>id\<close>.\<close>

definition emit_broadcast :: "room \<Rightarrow> string \<Rightarrow> payload \<Rightarrow> conn_id \<Rightarrow> msg" where
  "emit_broadcast r ev p ex = \<lparr>dest = filter (\<lambda>d. d \<noteq> ex) (members r), event = ev, body = p\<rparr>"

definition emit :: "msg \<Rightarrow> world \<Rightarrow> world" where
  "emit m w = w\<lparr>outbox := outbox w @ [m]\<rparr>"

subsection \<open>Store access\<close>

definition upd_player :: "conn_id \<Rightarrow> (player \<Rightarrow> player) \<Rightarrow> world \<Rightarrow> world" where
  "upd_player c f w = w\<lparr>pstore := (pstore w)(c := map_option f (pstore w c))\<rparr>"

definition upd_room :: "room_id \<Rightarrow> (room \<Rightarrow> room) \<Rightarrow> world \<Rightarrow> world" where
  "upd_room rid f w = w\<lparr>rstore := (rstore w)(rid := map_option f (rstore w rid))\<rparr>"

text \<open>\<open>this.room\<close> of socket \<open>c\<close>.\<close>

definition this_room :: "world \<Rightarrow> conn_id \<Rightarrow> room_id option" where
  "this_room w c = (case sockets w c of Some (Some rid) \<Rightarrow> Some rid | _ \<Rightarrow> None)"

text \<open>\<open>room.selectNewHost(io)\<close> on the world: the new host is announced to the room.\<close>

definition select_host_w :: "room_id \<Rightarrow> world \<Rightarrow> world" where
  "select_host_w rid w =
     (case rstore w rid of
        None \<Rightarrow> w
      | Some r \<Rightarrow>
          (let r' = select_new_host (pstore w) r;
               w' = w\<lparr>rstore := (rstore w)(rid \<mapsto> r')\<rparr>
           in case host r' of None \<Rightarrow> w' | Some h \<Rightarrow> emit (emit_all r' ''new host'' (P_host h)) w'))"

subsection \<open>Lemmas: store access\<close>

lemma upd_player_simps [simp, world_simps]:
  "players (upd_player c f w) = players w" "rooms (upd_player c f w) = rooms w"
  "rstore (upd_player c f w) = rstore w" "sockets (upd_player c f w) = sockets w"
  "next_rid (upd_player c f w) = next_rid w" "level (upd_player c f w) = level w"
  "outbox (upd_player c f w) = outbox w"
  "pstore (upd_player c f w) c' = (if c' = c then map_option f (pstore w c) else pstore w c')"
  by (simp_all add: upd_player_def)

lemma upd_room_simps [simp, world_simps]:
  "players (upd_room rid f w) = players w" "rooms (upd_room rid f w) = rooms w"
  "pstore (upd_room rid f w) = pstore w" "sockets (upd_room rid f w) = sockets w"
  "next_rid (upd_room rid f w) = next_rid w" "level (upd_room rid f w) = level w"
  "outbox (upd_room rid f w) = outbox w"
  "rstore (upd_room rid f w) rid' = (if rid' = rid then map_option f (rstore w rid) else rstore w rid')"
  by (simp_all add: upd_room_def)

lemma emit_simps [simp, world_simps]:
  "players (emit m w) = players w" "rooms (emit m w) = rooms w"
  "pstore (emit m w) = pstore w" "rstore (emit m w) = rstore w"
  "sockets (emit m w) = sockets w" "next_rid (emit m w) = next_rid w"
  "level (emit m w) = level w" "outbox (emit m w) = outbox w @ [m]"
  by (simp_all add: emit_def)

lemma select_host_w_simps [simp, world_simps]:
  "players (select_host_w rid w) = players w" "rooms (select_host_w rid w) = rooms w"
  "pstore (select_host_w rid w) = pstore w" "sockets (select_host_w rid w) = sockets w"
  "next_rid (select_host_w rid w) = next_rid w" "level (select_host_w rid w) = level w"
  "rstore (select_host_w rid w) rid' =
     (if rid' = rid then map_option (select_new_host (pstore w)) (rstore w rid) else rstore w rid')"
  by (auto simp: select_host_w_def Let_def split: option.splits)

lemma srv_frame [simp, world_simps]:
  "srv_rooms (upd_player c f w) = srv_rooms w" "srv_players (upd_player c f w) = srv_players w"
  "srv_rooms (upd_room rid g w) = srv_rooms w" "srv_players (upd_room rid g w) = srv_players w"
  "srv_rooms (emit m w) = srv_rooms w" "srv_players (emit m w) = srv_players w"
  "srv_rooms (select_host_w rid w) = srv_rooms w" "srv_players (select_host_w rid w) = srv_players w"
  by (simp_all add: upd_player_def upd_room_def emit_def select_host_w_def Let_def split: option.splits)

lemma this_room_upd [simp]:
  "this_room (upd_player c f w) = this_room w" "this_room (upd_room rid g w) = this_room w"
  "this_room (emit m w) = this_room w" "this_room (select_host_w rid w) = this_room w"
  by (simp_all add: this_room_def fun_eq_iff)

end
