(* ===== verification/Handlers.thy ===== *)
theory Handlers
  imports World
begin

text \<open>
  The event handlers of \<open>SocketEventHandler.js\<close>, one definition each, in the order of
  the source. \<open>c\<close> is the socket the event came from (\<open>this\<close>), \<open>now\<close> the value of
  \<open>Date.now()\<close>. Every early \<open>return\<close> is a branch that leaves the world unchanged; a
  handler that can throw returns \<open>fault + world\<close>, the fault being the uncaught
  exception that ends the handler (and, uncaught in Node, the process).
  Handlers guarded by \<open>if (!this.room) return;\<close> share \<open>with_room\<close>; those guarded by
  \<open>if (!this.player || !this.room) return;\<close> share \<open>with_player_room\<close>.
\<close>

definition with_room :: "world \<Rightarrow> conn_id \<Rightarrow> (room_id \<Rightarrow> room \<Rightarrow> world) \<Rightarrow> world" where
  "with_room w c f =
     (case this_room w c of None \<Rightarrow> w | Some rid \<Rightarrow> (case rstore w rid of None \<Rightarrow> w | Some r \<Rightarrow> f rid r))"

definition with_player_room ::
  "world \<Rightarrow> conn_id \<Rightarrow> (player \<Rightarrow> room_id \<Rightarrow> room \<Rightarrow> world) \<Rightarrow> world" where
  "with_player_room w c f = (case pstore w c of None \<Rightarrow> w | Some p \<Rightarrow> with_room w c (f p))"

text \<open>\<open>this.room.players[s]\<close> and the object it refers to (\<open>!victim\<close>, \<open>!owner\<close>).\<close>

definition resolve :: "world \<Rightarrow> room \<Rightarrow> int \<Rightarrow> (conn_id \<times> player) option" where
  "resolve w r s =
     (case slot_at r s of None \<Rightarrow> None | Some t \<Rightarrow> map_option (\<lambda>p. (t, p)) (pstore w t))"

subsection \<open>Connection lifecycle\<close>

definition on_client_connect :: "conn_id \<Rightarrow> world \<Rightarrow> world" where
  "on_client_connect c w =
     (let p = new_player c;
          w1 = w\<lparr>pstore := (pstore w)(c \<mapsto> p), players := players w @ [c],
                 sockets := (sockets w)(c \<mapsto> None)\<rparr>
      in emit (emit_to c ''player connect'' (P_player p)) w1)"

text \<open>Teardown, lines 35--41: a leaving host loses focus and a new host is chosen.\<close>

definition dc_host_reset :: "conn_id \<Rightarrow> room_id \<Rightarrow> timestamp \<Rightarrow> world \<Rightarrow> world" where
  "dc_host_reset c rid now w =
     (case rstore w rid of
        None \<Rightarrow> w
      | Some r \<Rightarrow>
          if is_host c r
          then select_host_w rid
                 (upd_room rid (\<lambda>r. r\<lparr>rc_timestamp := now\<rparr>)
                   (upd_player c (\<lambda>p. p\<lparr>is_active := False\<rparr>) w))
          else w)"

text \<open>Teardown, lines 43--52: the bombs coded \<open>serial + 1\<close> are removed.\<close>

definition dc_scrub :: "nat \<Rightarrow> room_id \<Rightarrow> world \<Rightarrow> world" where
  "dc_scrub s rid w = upd_room rid (\<lambda>r. r\<lparr>rmap := scrub_bombs (int s + 1) (rmap r)\<rparr>) w"

text \<open>Teardown, lines 60--67: an empty room is swap-removed at the index taken on entry.\<close>

definition dc_remove_room :: "room_id \<Rightarrow> int \<Rightarrow> world \<Rightarrow> world" where
  "dc_remove_room rid ri w =
     (case rstore w rid of
        Some r \<Rightarrow> if is_empty r then w\<lparr>rooms := swap_remove ri (rooms w)\<rparr> else w
      | None \<Rightarrow> w)"

definition on_client_disconnect :: "conn_id \<Rightarrow> timestamp \<Rightarrow> world \<Rightarrow> fault + world" where
  "on_client_disconnect c now w =
     (let w1 = w\<lparr>players := player_unregister c (players w)\<rparr>
      in case this_room w1 c of
           None \<Rightarrow> Inr w1
         | Some rid \<Rightarrow>
             (case pstore w1 c of
                None \<Rightarrow> Inl (TypeError ''this.player is undefined'')
              | Some p \<Rightarrow>
                  (let ri = js_index_of rid (rooms w1);
                       w2 = dc_host_reset c rid now w1;
                       w3 = dc_scrub (serial p) rid w2;
                       w4 = (case (pstore w3 c, rstore w3 rid) of
                               (Some p3, Some r3) \<Rightarrow>
                                 emit (emit_broadcast r3 ''player exit room'' (P_player p3) c) w3
                             | _ \<Rightarrow> w3);
                       w5 = upd_room rid (exclude_player (serial p)) w4
                   in Inr (dc_remove_room rid ri w5))))"

subsection \<open>Matchmaking\<close>

text \<open>\<open>client_data.name || ("Guest" + Math.floor(Math.random() * 9999))\<close>; \<open>g\<close> is the random draw.\<close>

definition pick_name :: "string option \<Rightarrow> nat \<Rightarrow> string" where
  "pick_name n g =
     (case n of Some s \<Rightarrow> if s = [] then ''Guest'' @ dec_string g else s
              | None \<Rightarrow> ''Guest'' @ dec_string g)"

text \<open>Lines 75--93: the first room that is not full, else a new room appended to \<open>rooms\<close>.\<close>

definition rr_find_or_create :: "world \<Rightarrow> world \<times> room_id" where
  "rr_find_or_create w =
     (case find_room (rstore w) (rooms w) of
        Some rid \<Rightarrow> (w, rid)
      | None \<Rightarrow>
          (let rid = next_rid w
           in (w\<lparr>rstore := (rstore w)(rid \<mapsto> new_room rid (level w)), rooms := rooms w @ [rid],
                 next_rid := Suc rid\<rparr>, rid)))"

text \<open>
  \<open>data\<close> is the event's payload object (\<open>None\<close>: sent without one) and its \<open>name\<close>
  field.
\<close>

definition on_room_request ::
  "conn_id \<Rightarrow> string option option \<Rightarrow> nat \<Rightarrow> world \<Rightarrow> fault + world" where
  "on_room_request c data g w =
     (case pstore w c of
        None \<Rightarrow> Inl (TypeError ''this.player is undefined'')
      | Some _ \<Rightarrow>
          (let (w1, rid) = rr_find_or_create w
           in case data of
                None \<Rightarrow> Inl (TypeError ''client_data is undefined'')
              | Some cname \<Rightarrow>
                  (let w2 = upd_player c (\<lambda>p. p\<lparr>name := pick_name cname g\<rparr>) w1
                   in case rstore w2 rid of
                        None \<Rightarrow> Inr w2
                      | Some r \<Rightarrow>
                          (case insert_player c r of
                             None \<Rightarrow> Inr w2
                           | Some (r', s) \<Rightarrow>
                               (let w3 = upd_player c (\<lambda>p. p\<lparr>serial := s\<rparr>)
                                           (w2\<lparr>rstore := (rstore w2)(rid \<mapsto> r')\<rparr>);
                                    w4 = (if \<not> has_host r' then select_host_w rid w3 else w3)
                                in case (rstore w4 rid, pstore w4 c) of
                                     (Some r4, Some p4) \<Rightarrow>
                                       Inr ((emit (emit_broadcast r4 ''player join room'' (P_player p4) c)
                                              (emit (emit_to c ''room found'' (P_room r4)) w4))
                                            \<lparr>sockets := (sockets w4)(c \<mapsto> Some rid)\<rparr>)
                                   | _ \<Rightarrow> Inr w4)))))"

subsection \<open>Focus and host authority\<close>

definition on_player_unavailable :: "conn_id \<Rightarrow> timestamp \<Rightarrow> world \<Rightarrow> world" where
  "on_player_unavailable c now w =
     (case pstore w c of
        None \<Rightarrow> w
      | Some _ \<Rightarrow>
          (let w1 = upd_player c (\<lambda>p. p\<lparr>is_active := False\<rparr>) w
           in case this_room w1 c of
                None \<Rightarrow> w1
              | Some rid \<Rightarrow>
                  (case rstore w1 rid of
                     None \<Rightarrow> w1
                   | Some r \<Rightarrow>
                       if is_host c r
                       then select_host_w rid (upd_room rid (\<lambda>r. r\<lparr>rc_timestamp := now\<rparr>) w1)
                       else w1)))"

definition on_player_available :: "conn_id \<Rightarrow> world \<Rightarrow> world" where
  "on_player_available c w =
     (case pstore w c of
        None \<Rightarrow> w
      | Some _ \<Rightarrow>
          (let w1 = upd_player c (\<lambda>p. p\<lparr>is_active := True\<rparr>) w
           in case this_room w1 c of
                None \<Rightarrow> w1
              | Some rid \<Rightarrow>
                  (case rstore w1 rid of
                     None \<Rightarrow> w1
                   | Some r \<Rightarrow> if \<not> has_host r then select_host_w rid w1 else w1)))"

subsection \<open>Gameplay events\<close>

definition on_chat_message :: "conn_id \<Rightarrow> string \<Rightarrow> world \<Rightarrow> world" where
  "on_chat_message c text w =
     with_player_room w c (\<lambda>p rid r.
       emit (emit_all r ''chat message'' (P_chat c text))
         (upd_player c (\<lambda>p. p\<lparr>last_message := text\<rparr>) w))"

text \<open>
  Lines 158--173: \<open>data.x\<close> carries the tile size; the cursor wraps at the literal 7.
  Reading \<open>spawn_order[next_spawn_index].col\<close> beyond the spawn order throws.
\<close>

definition on_player_spawn ::
  "conn_id \<Rightarrow> spawn_data \<Rightarrow> timestamp \<Rightarrow> world \<Rightarrow> fault + world" where
  "on_player_spawn c d now w =
     (case (pstore w c, this_room w c) of
        (Some p, Some rid) \<Rightarrow>
          (case rstore w rid of
             None \<Rightarrow> Inr w
           | Some r \<Rightarrow>
               (let k = next_spawn_index r; so = spawn_order (rmap r)
                in if length so \<le> k then Inl (TypeError ''spawn_order[next_spawn_index] is undefined'')
                   else
                     (let tile = sd_x d;
                          x = (of_int (sp_col (so ! k)) + 1 / 2) * tile;
                          y = (of_int (sp_row (so ! k)) + 1 / 2) * tile;
                          w1 = upd_player c (\<lambda>p. p\<lparr>px := x, py := y\<rparr>) w;
                          w2 = upd_room rid (\<lambda>r. r\<lparr>next_spawn_index := (if k = 7 then 0 else Suc k)\<rparr>) w1;
                          w3 = upd_player c (\<lambda>p. p\<lparr>is_dead := False, is_invincible := True,
                                                   i_timestamp := now, nickname := sd_nickname d\<rparr>) w2
                      in Inr (emit (emit_all r ''player spawn'' (P_spawn (d\<lparr>sd_x := x, sd_y := y\<rparr>) now)) w3))))
      | _ \<Rightarrow> Inr w)"

definition on_player_move :: "conn_id \<Rightarrow> move_data \<Rightarrow> world \<Rightarrow> world" where
  "on_player_move c d w =
     with_player_room w c (\<lambda>p rid r.
       if is_dead p then w
       else emit (emit_broadcast r ''player move'' (P_move d) c)
              (upd_player c (\<lambda>p. p\<lparr>px := mv_x d, py := mv_y d, animation_key := mv_key d\<rparr>) w))"

text \<open>
  Lines 188--210. The self-kill test compares the reported serials; the frag increment
  compares the resolved objects.
\<close>

definition on_player_death :: "conn_id \<Rightarrow> death_data \<Rightarrow> world \<Rightarrow> world" where
  "on_player_death c d w =
     with_room w c (\<lambda>rid r.
       case (resolve w r (dd_victim_serial d), resolve w r (dd_killer_serial d)) of
         (Some (v, vp), Some (k, kp)) \<Rightarrow>
           if is_invincible vp \<or> is_dead vp then w
           else
             (let w1 = (if dd_victim_serial d = dd_killer_serial d
                        then upd_player v (\<lambda>p. p\<lparr>frags := frags p - 1\<rparr>) w else w);
                  w2 = (if v = k then w1 else upd_player k (\<lambda>p. p\<lparr>frags := frags p + 1\<rparr>) w1);
                  w3 = upd_player v (\<lambda>p. p\<lparr>is_dead := True\<rparr>) w2
              in case (pstore w3 v, pstore w3 k) of
                   (Some vp3, Some kp3) \<Rightarrow>
                     emit (emit_all r ''player death'' (P_death d v (frags vp3) k (frags kp3))) w3
                 | _ \<Rightarrow> w3)
       | _ \<Rightarrow> w)"

definition on_player_collect_powerup ::
  "conn_id \<Rightarrow> powerup_data \<Rightarrow> timestamp \<Rightarrow> world \<Rightarrow> world" where
  "on_player_collect_powerup c d now w =
     with_player_room w c (\<lambda>p rid r.
       (let pi = cell_index (rmap r) (pu_col d) (pu_row d);
            w1 = upd_room rid (\<lambda>r. r\<lparr>rmap := set_first_layer ''powerups'' pi 0 (rmap r)\<rparr>) w;
            w2 = (if pu_type d = ''protection''
                  then upd_player c (\<lambda>p. p\<lparr>is_invincible := True, i_timestamp := now\<rparr>) w1 else w1)
        in emit (emit_all r ''player collect powerup'' (P_collect d now (serial p))) w2))"

definition on_player_lost_invincibility :: "conn_id \<Rightarrow> int \<Rightarrow> world \<Rightarrow> world" where
  "on_player_lost_invincibility c s w =
     with_room w c (\<lambda>rid r.
       (let w1 = (case resolve w r s of
                    Some (t, _) \<Rightarrow> upd_player t (\<lambda>p. p\<lparr>is_invincible := False\<rparr>) w
                  | None \<Rightarrow> w)
        in emit (emit_all r ''player lost invincibility'' (P_serial s)) w1))"

text \<open>
  Lines 252--274: an occupied (truthy) cell of the first \<open>"bombs"\<close> layer rejects the
  bomb without a broadcast; without a \<open>"bombs"\<close> layer the bomb is only broadcast.
\<close>

definition on_player_plant_bomb :: "conn_id \<Rightarrow> bomb_data \<Rightarrow> timestamp \<Rightarrow> world \<Rightarrow> world" where
  "on_player_plant_bomb c d now w =
     with_room w c (\<lambda>rid r.
       case resolve w r (bd_owner_serial d) of
         None \<Rightarrow> w
       | Some _ \<Rightarrow>
           (let m = rmap r; ev = emit_all r ''player plant bomb'' (P_bomb d now)
            in case first_layer ''bombs'' m of
                 None \<Rightarrow> emit ev w
               | Some k \<Rightarrow>
                   (let bi = cell_index m (bd_col d) (bd_row d)
                    in if truthy (js_get (ldata (layers m ! k)) bi) then w
                       else emit ev (upd_room rid (\<lambda>r. r\<lparr>rmap :=
                              upd_layer k (\<lambda>a. js_set a bi (bd_owner_serial d + 1)) (rmap r)\<rparr>) w))))"

definition on_bomb_explode :: "conn_id \<Rightarrow> (int \<times> int) list \<Rightarrow> timestamp \<Rightarrow> world \<Rightarrow> world" where
  "on_bomb_explode c es now w =
     with_room w c (\<lambda>rid r.
       emit (emit_all r ''bomb explode'' (P_explode es now))
         (upd_room rid (\<lambda>r. r\<lparr>rmap := explode_cells es (rmap r)\<rparr>) w))"

definition on_powerup_blink :: "conn_id \<Rightarrow> powerup_data \<Rightarrow> world \<Rightarrow> world" where
  "on_powerup_blink c d w = with_room w c (\<lambda>rid r. emit (emit_all r ''powerup blink'' (P_tile d)) w)"

definition on_powerup_disappear :: "conn_id \<Rightarrow> powerup_data \<Rightarrow> world \<Rightarrow> world" where
  "on_powerup_disappear c d w =
     with_room w c (\<lambda>rid r.
       emit (emit_all r ''powerup disappear'' (P_tile d))
         (upd_room rid (\<lambda>r. r\<lparr>rmap :=
            set_all_layers ''powerups'' (cell_index (rmap r) (pu_col d) (pu_row d)) 0 (rmap r)\<rparr>) w))"

definition on_map_reset :: "conn_id \<Rightarrow> world \<Rightarrow> world" where
  "on_map_reset c w =
     with_room w c (\<lambda>rid r.
       (let r' = reset_map (level w) r
        in emit (emit_all r' ''map reset'' (P_room r')) (w\<lparr>rstore := (rstore w)(rid \<mapsto> r')\<rparr>)))"

end
