(* ===== verification/Server.thy ===== *)
theory Server
  imports Handlers
begin

text \<open>
  The wiring of \<open>index.js\<close>: each socket event name is bound to its handler, the
  \<open>"web login"\<close> stub answers every login, and \<open>/api/status\<close> reports the sizes of
  \<open>index.js\<close>'s own arrays. The transport (socket.io) is modelled by its contract: a connection arrives
  once with a fresh socket id, events arrive only from live sockets, one at a time,
  each handler running to completion, and a disconnected socket delivers nothing more.
  \<open>reach\<close> is the set of states of all such runs; \<open>reach_wb\<close> restricts the clients
  to the intended protocol, in which a socket asks for a room only while it has none.
\<close>

text \<open>
  The events a socket can send, with their payloads. A payload is \<open>None\<close> when the
  client sends the event without one (the listener's argument is \<open>undefined\<close>). The
  room request's payload is the object and its \<open>name\<close> field, and the random draw of
  the \<open>"Guest"\<close> fallback. A chat body is any string: a missing body is logged and
  relayed as \<open>undefined\<close> without an exception, which the model does not separate
  from a string.
\<close>

datatype event =
    Connect
  | Disconnect
  | RoomRequest "string option option" nat
  | ChatMessage string
  | PlayerAvailable
  | PlayerUnavailable
  | PlayerSpawn "spawn_data option"
  | PlayerMove "move_data option"
  | PlayerDeath "death_data option"
  | CollectPowerup "powerup_data option"
  | LostInvincibility "int option"
  | PlantBomb "bomb_data option"
  | BombExplode "(int \<times> int) list option"
  | PowerupBlink "powerup_data option"
  | PowerupDisappear "powerup_data option"
  | MapReset
  | WebLogin "string option"

text \<open>\<open>client.on("web login", ...)\<close>: every login is approved.\<close>

definition on_web_login :: "conn_id \<Rightarrow> string \<Rightarrow> world \<Rightarrow> world" where
  "on_web_login c n w = emit (emit_to c ''login result'' (P_login n)) w"

text \<open>The transport forgets a disconnected socket.\<close>

definition close_socket :: "conn_id \<Rightarrow> world \<Rightarrow> world" where
  "close_socket c w = w\<lparr>sockets := (sockets w)(c := None)\<rparr>"

text \<open>
  The guards the handlers test before they first read their payload: \<open>this.room\<close>
  alone (death, lost invincibility, bomb planting and explosion), or
  \<open>this.player\<close> and \<open>this.room\<close> (spawn, powerup collection).
\<close>

definition room_bound :: "world \<Rightarrow> conn_id \<Rightarrow> bool" where
  "room_bound w c \<longleftrightarrow> this_room w c \<noteq> None"

definition player_room_bound :: "world \<Rightarrow> conn_id \<Rightarrow> bool" where
  "player_room_bound w c \<longleftrightarrow> pstore w c \<noteq> None \<and> this_room w c \<noteq> None"

text \<open>
  \<open>io.on("connection", ...)\<close>, lines 101--165 of \<open>index.js\<close>: each event goes to its
  handler with \<open>this\<close> bound to the socket. A missing payload throws at the handler's
  first read of it once the guards pass: \<open>data.x\<close> (spawn, line 161),
  \<open>player_data[1]\<close> (move, line 180, after the \<open>is_dead\<close> test),
  \<open>death_data.victim_serial\<close> (line 191), \<open>powerup_data.timestamp = \<dots>\<close> (collect,
  line 225; the map loop reads \<open>powerup_data.row\<close> first only when there is a
  \<open>"powerups"\<close> layer), \<open>player_data.serial\<close> (line 242),
  \<open>bomb_data.owner_serial\<close> (line 255), \<open>bomb_data.e_indexes\<close> (line 279),
  \<open>powerup_data.row\<close> in the loop over \<open>"powerups"\<close> layers (disappear, line 325), and
  \<open>user_info.name\<close> (web login, \<open>index.js\<close> line 169). A blink, and a disappear in a
  map without a \<open>"powerups"\<close> layer, broadcast \<open>undefined\<close>.
\<close>

fun dispatch :: "conn_id \<Rightarrow> timestamp \<Rightarrow> event \<Rightarrow> world \<Rightarrow> fault + world" where
  "dispatch c now Connect w = Inr (on_client_connect c w)"
| "dispatch c now Disconnect w = map_sum id (close_socket c) (on_client_disconnect c now w)"
| "dispatch c now (RoomRequest d g) w = on_room_request c d g w"
| "dispatch c now (ChatMessage t) w = Inr (on_chat_message c t w)"
| "dispatch c now PlayerAvailable w = Inr (on_player_available c w)"
| "dispatch c now PlayerUnavailable w = Inr (on_player_unavailable c now w)"
| "dispatch c now (PlayerSpawn (Some d)) w = on_player_spawn c d now w"
| "dispatch c now (PlayerSpawn None) w =
     (if player_room_bound w c then Inl (TypeError ''data is undefined'') else Inr w)"
| "dispatch c now (PlayerMove (Some d)) w = Inr (on_player_move c d w)"
| "dispatch c now (PlayerMove None) w =
     (case pstore w c of
        Some p \<Rightarrow> if this_room w c \<noteq> None \<and> \<not> is_dead p
                  then Inl (TypeError ''player_data is undefined'') else Inr w
      | None \<Rightarrow> Inr w)"
| "dispatch c now (PlayerDeath (Some d)) w = Inr (on_player_death c d w)"
| "dispatch c now (PlayerDeath None) w =
     (if room_bound w c then Inl (TypeError ''death_data is undefined'') else Inr w)"
| "dispatch c now (CollectPowerup (Some d)) w = Inr (on_player_collect_powerup c d now w)"
| "dispatch c now (CollectPowerup None) w =
     (if player_room_bound w c then Inl (TypeError ''powerup_data is undefined'') else Inr w)"
| "dispatch c now (LostInvincibility (Some s)) w = Inr (on_player_lost_invincibility c s w)"
| "dispatch c now (LostInvincibility None) w =
     (if room_bound w c then Inl (TypeError ''player_data is undefined'') else Inr w)"
| "dispatch c now (PlantBomb (Some d)) w = Inr (on_player_plant_bomb c d now w)"
| "dispatch c now (PlantBomb None) w =
     (if room_bound w c then Inl (TypeError ''bomb_data is undefined'') else Inr w)"
| "dispatch c now (BombExplode (Some es)) w = Inr (on_bomb_explode c es now w)"
| "dispatch c now (BombExplode None) w =
     (if room_bound w c then Inl (TypeError ''bomb_data is undefined'') else Inr w)"
| "dispatch c now (PowerupBlink (Some d)) w = Inr (on_powerup_blink c d w)"
| "dispatch c now (PowerupBlink None) w =
     Inr (with_room w c (\<lambda>rid r. emit (emit_all r ''powerup blink'' P_undefined) w))"
| "dispatch c now (PowerupDisappear (Some d)) w = Inr (on_powerup_disappear c d w)"
| "dispatch c now (PowerupDisappear None) w =
     (case this_room w c of
        None \<Rightarrow> Inr w
      | Some rid \<Rightarrow>
          (case rstore w rid of
             None \<Rightarrow> Inr w
           | Some r \<Rightarrow>
               if first_layer ''powerups'' (rmap r) \<noteq> None
               then Inl (TypeError ''powerup_data is undefined'')
               else Inr (emit (emit_all r ''powerup disappear'' P_undefined) w)))"
| "dispatch c now MapReset w = Inr (on_map_reset c w)"
| "dispatch c now (WebLogin (Some n)) w = Inr (on_web_login c n w)"
| "dispatch c now (WebLogin None) w = Inl (TypeError ''user_info is undefined'')"

text \<open>Whether an event carries the payload its handler reads.\<close>

fun payload_present :: "event \<Rightarrow> bool" where
  "payload_present (RoomRequest d g) = (d \<noteq> None)"
| "payload_present (PlayerSpawn d) = (d \<noteq> None)"
| "payload_present (PlayerMove d) = (d \<noteq> None)"
| "payload_present (PlayerDeath d) = (d \<noteq> None)"
| "payload_present (CollectPowerup d) = (d \<noteq> None)"
| "payload_present (LostInvincibility d) = (d \<noteq> None)"
| "payload_present (PlantBomb d) = (d \<noteq> None)"
| "payload_present (BombExplode d) = (d \<noteq> None)"
| "payload_present (PowerupBlink d) = (d \<noteq> None)"
| "payload_present (PowerupDisappear d) = (d \<noteq> None)"
| "payload_present (WebLogin d) = (d \<noteq> None)"
| "payload_present _ = True"

text \<open>A run of events, stopping at the first fault.\<close>

fun run :: "world \<Rightarrow> (conn_id \<times> timestamp \<times> event) list \<Rightarrow> fault + world" where
  "run w [] = Inr w"
| "run w ((c, now, e) # es) = (case dispatch c now e w of Inl f \<Rightarrow> Inl f | Inr w' \<Rightarrow> run w' es)"

text \<open>
  \<open>/api/status\<close> (\<open>index.js\<close> lines 42--49): the lengths of \<open>index.js\<close>'s own
  \<open>rooms\<close> and \<open>players\<close> arrays.
\<close>

definition status :: "world \<Rightarrow> nat \<times> nat" where
  "status w = (length (srv_rooms w), length (srv_players w))"

subsection \<open>Runs the transport can produce\<close>

inductive step :: "world \<Rightarrow> world \<Rightarrow> bool" where
  connect: "c \<notin> dom (pstore w) \<Longrightarrow> step w (on_client_connect c w)"
| event: "sockets w c \<noteq> None \<Longrightarrow> e \<noteq> Connect \<Longrightarrow> dispatch c now e w = Inr w' \<Longrightarrow> step w w'"

inductive reach :: "tilemap \<Rightarrow> world \<Rightarrow> bool" for lvl where
  init: "reach lvl (init_world lvl)"
| step: "reach lvl w \<Longrightarrow> step w w' \<Longrightarrow> reach lvl w'"

text \<open>The intended protocol: a socket sends \<open>"room request"\<close> only while it has no room.\<close>

definition protocol_ok :: "world \<Rightarrow> conn_id \<Rightarrow> event \<Rightarrow> bool" where
  "protocol_ok w c e = (case e of RoomRequest _ _ \<Rightarrow> this_room w c = None | _ \<Rightarrow> True)"

inductive reach_wb :: "tilemap \<Rightarrow> world \<Rightarrow> bool" for lvl where
  init: "reach_wb lvl (init_world lvl)"
| connect: "reach_wb lvl w \<Longrightarrow> c \<notin> dom (pstore w) \<Longrightarrow> reach_wb lvl (on_client_connect c w)"
| event: "reach_wb lvl w \<Longrightarrow> sockets w c \<noteq> None \<Longrightarrow> e \<noteq> Connect \<Longrightarrow> protocol_ok w c e \<Longrightarrow>
    dispatch c now e w = Inr w' \<Longrightarrow> reach_wb lvl w'"

text \<open>
  A run the transport contract admits: each connection arrives with a fresh id, every
  other event comes from a live socket, and no handler throws.
\<close>

fun admissible :: "world \<Rightarrow> (conn_id \<times> timestamp \<times> event) list \<Rightarrow> bool" where
  "admissible w [] = True"
| "admissible w ((c, now, e) # es) =
     ((case e of Connect \<Rightarrow> pstore w c = None | _ \<Rightarrow> sockets w c \<noteq> None)
      \<and> (case dispatch c now e w of Inl _ \<Rightarrow> False | Inr w' \<Rightarrow> admissible w' es))"

inductive_cases step_cases: "step w w'"

lemma reach_run:
  "reach lvl w \<Longrightarrow> admissible w es \<Longrightarrow> reach lvl (case run w es of Inr w' \<Rightarrow> w' | Inl _ \<Rightarrow> w)"
proof (induction es arbitrary: w)
  case Nil
  then show ?case by simp
next
  case (Cons x es)
  obtain c now e where x: "x = (c, now, e)" by (cases x) auto
  from Cons.prems x obtain w' where d: "dispatch c now e w = Inr w'" and a: "admissible w' es"
    by (auto split: sum.splits)
  have "step w w'"
  proof (cases e)
    case Connect
    then show ?thesis using Cons.prems d x by (auto intro: step.connect)
  qed (use Cons.prems d x in \<open>auto intro: step.event\<close>)
  with Cons.prems(1) have "reach lvl w'" by (rule reach.step)
  from Cons.IH[OF this a] show ?case using x d Cons.prems(1)
    by (auto split: sum.splits)
qed

end
