(* ===== verification/HandlerProps.thy ===== *)
theory HandlerProps
  imports Server
begin

text \<open>
  The functional behaviour of the gameplay handlers of \<open>SocketEventHandler.js\<close>, branch
  by branch: the early returns on a missing binding, frag accounting in
  \<open>onPlayerDeath\<close>, bomb placement and its collision check, explosions, movement.
\<close>

subsection \<open>Shared facts\<close>

lemma resolve_SomeD: "resolve w r s = Some (t, p) \<Longrightarrow> slot_at r s = Some t \<and> pstore w t = Some p"
  by (auto simp: resolve_def split: option.splits)

lemma with_room_Some:
  "this_room w c = Some rid \<Longrightarrow> rstore w rid = Some r \<Longrightarrow> with_room w c f = f rid r"
  by (simp add: with_room_def)

lemma with_room_None: "this_room w c = None \<Longrightarrow> with_room w c f = w"
  by (simp add: with_room_def)

lemma with_player_room_Some:
  "pstore w c = Some p \<Longrightarrow> this_room w c = Some rid \<Longrightarrow> rstore w rid = Some r \<Longrightarrow>
   with_player_room w c f = f p rid r"
  by (simp add: with_player_room_def with_room_def)

lemma with_player_room_None:
  "pstore w c = None \<or> this_room w c = None \<Longrightarrow> with_player_room w c f = w"
  by (auto simp: with_player_room_def with_room_def split: option.splits)

lemmas handler_defs =
  on_player_death_def on_player_lost_invincibility_def on_player_plant_bomb_def
  on_bomb_explode_def on_powerup_blink_def on_powerup_disappear_def on_map_reset_def
  on_chat_message_def on_player_move_def on_player_collect_powerup_def

subsection \<open>Missing bindings\<close>

text \<open>C20: every handler that needs \<open>this.room\<close> returns without effect when the socket has none.\<close>

theorem handlers_ignore_roomless_socket:
  assumes "this_room w c = None"
  shows "on_player_death c d w = w \<and> on_player_lost_invincibility c s w = w
    \<and> on_player_plant_bomb c b now w = w \<and> on_bomb_explode c es now w = w
    \<and> on_powerup_blink c pu w = w \<and> on_powerup_disappear c pu w = w \<and> on_map_reset c w = w
    \<and> on_chat_message c t w = w \<and> on_player_move c m w = w
    \<and> on_player_collect_powerup c pc now w = w \<and> on_player_spawn c sd now w = Inr w"
  using assms
  by (simp add: handler_defs with_room_None with_player_room_None on_player_spawn_def
      split: option.splits)

subsection \<open>Frag accounting\<close>

text \<open>C5: a kill by another player adds exactly one frag to the killer and marks the victim dead.\<close>

theorem on_player_death_kill:
  assumes "this_room w c = Some rid" "rstore w rid = Some r"
    and "resolve w r vs = Some (v, vp)" "resolve w r ks = Some (k, kp)"
    and "vs \<noteq> ks" "v \<noteq> k" "\<not> is_invincible vp" "\<not> is_dead vp"
  shows "pstore (on_player_death c \<lparr>dd_victim_serial = vs, dd_killer_serial = ks\<rparr> w) k =
           Some (kp\<lparr>frags := frags kp + 1\<rparr>)
       \<and> pstore (on_player_death c \<lparr>dd_victim_serial = vs, dd_killer_serial = ks\<rparr> w) v =
           Some (vp\<lparr>is_dead := True\<rparr>)"
  using assms resolve_SomeD[OF assms(3)] resolve_SomeD[OF assms(4)]
  by (simp add: on_player_death_def with_room_Some)

text \<open>C6: a self-kill takes exactly one frag from the player and marks it dead.\<close>

theorem on_player_death_self:
  assumes "this_room w c = Some rid" "rstore w rid = Some r"
    and "resolve w r s = Some (v, vp)" "\<not> is_invincible vp" "\<not> is_dead vp"
  shows "pstore (on_player_death c \<lparr>dd_victim_serial = s, dd_killer_serial = s\<rparr> w) v =
           Some (vp\<lparr>frags := frags vp - 1, is_dead := True\<rparr>)"
  using assms resolve_SomeD[OF assms(3)]
  by (simp add: on_player_death_def with_room_Some)

text \<open>C7: an invincible or already dead victim cannot be killed: the event has no effect at all.\<close>

theorem on_player_death_protected:
  assumes "this_room w c = Some rid" "rstore w rid = Some r"
    and "resolve w r (dd_victim_serial d) = Some (v, vp)" "is_invincible vp \<or> is_dead vp"
  shows "on_player_death c d w = w"
  using assms by (auto simp: on_player_death_def with_room_Some split: option.splits)

subsection \<open>Bombs\<close>

lemma slot_at_nonneg: "slot_at r s = Some t \<Longrightarrow> 0 \<le> s"
  by (simp add: slot_at_def split: if_splits)

lemma resolve_nonneg: "resolve w r s = Some (t, p) \<Longrightarrow> 0 \<le> s"
  by (auto dest: resolve_SomeD slot_at_nonneg)

lemma plant_bomb_free_cell:
  assumes "this_room w c = Some rid" "rstore w rid = Some r"
    and "resolve w r (bd_owner_serial d) = Some (ow, op)" "first_layer ''bombs'' (rmap r) = Some k"
    and "\<not> truthy (js_get (ldata (layers (rmap r) ! k)) (cell_index (rmap r) (bd_col d) (bd_row d)))"
  shows "on_player_plant_bomb c d now w =
    emit (emit_all r ''player plant bomb'' (P_bomb d now))
      (upd_room rid (\<lambda>q. q\<lparr>rmap := upd_layer k
         (\<lambda>a. js_set a (cell_index (rmap r) (bd_col d) (bd_row d)) (bd_owner_serial d + 1)) (rmap q)\<rparr>) w)"
  using assms by (simp add: on_player_plant_bomb_def with_room_Some Let_def cell_index_def)

lemma plant_bomb_taken_cell:
  assumes "this_room w c = Some rid" "rstore w rid = Some r" "first_layer ''bombs'' (rmap r) = Some k"
    and "truthy (js_get (ldata (layers (rmap r) ! k)) (cell_index (rmap r) (bd_col d) (bd_row d)))"
  shows "on_player_plant_bomb c d now w = w"
  using assms by (simp add: on_player_plant_bomb_def with_room_Some Let_def split: option.splits)

text \<open>
  C9: planting on a free cell of the \<open>"bombs"\<close> layer writes \<open>owner_serial + 1\<close> into the
  cell \<open>row * width + col\<close> and broadcasts the bomb to the whole room.
\<close>

theorem plant_bomb_marks_cell:
  assumes "this_room w c = Some rid" "rstore w rid = Some r"
    and "resolve w r (bd_owner_serial d) = Some (ow, op)" "first_layer ''bombs'' (rmap r) = Some k"
    and "\<not> truthy (js_get (ldata (layers (rmap r) ! k)) (cell_index (rmap r) (bd_col d) (bd_row d)))"
  shows "\<exists>r'. rstore (on_player_plant_bomb c d now w) rid = Some r' \<and>
      js_get (ldata (layers (rmap r') ! k)) (bd_row d * width (rmap r) + bd_col d) = Some (bd_owner_serial d + 1) \<and>
      outbox (on_player_plant_bomb c d now w) = outbox w @ [emit_all r ''player plant bomb'' (P_bomb d now)]"
  using assms first_layer_SomeD[OF assms(4)]
  by (simp add: plant_bomb_free_cell ldata_upd_layer cell_index_def)

text \<open>
  C8: no double occupancy: once a bomb has been planted (or rejected) at a cell, a second
  plant request at the same cell, by anyone in the room, changes nothing.
\<close>

theorem plant_bomb_no_double_occupancy:
  assumes "this_room w c = Some rid" "this_room w c' = Some rid" "rstore w rid = Some r"
    and "resolve w r (bd_owner_serial d) = Some (ow, op)" "first_layer ''bombs'' (rmap r) = Some k"
    and "bd_col d' = bd_col d" "bd_row d' = bd_row d"
  shows "on_player_plant_bomb c' d' now' (on_player_plant_bomb c d now w) = on_player_plant_bomb c d now w"
proof -
  let ?i = "cell_index (rmap r) (bd_col d) (bd_row d)"
  have k: "k < length (layers (rmap r))" using first_layer_SomeD[OF assms(5)] by simp
  show ?thesis
  proof (cases "truthy (js_get (ldata (layers (rmap r) ! k)) ?i)")
    case True
    with assms show ?thesis by (simp add: plant_bomb_taken_cell cell_index_def)
  next
    case False
    let ?w' = "on_player_plant_bomb c d now w"
    obtain r' where r': "rstore ?w' rid = Some r'"
      and cell: "js_get (ldata (layers (rmap r') ! k)) ?i = Some (bd_owner_serial d + 1)"
      and m: "rmap r' = upd_layer k (\<lambda>a. js_set a ?i (bd_owner_serial d + 1)) (rmap r)"
      using assms False k by (simp add: plant_bomb_free_cell ldata_upd_layer)
    have "0 \<le> bd_owner_serial d" using assms(4) by (rule resolve_nonneg)
    then have "truthy (js_get (ldata (layers (rmap r') ! k)) (cell_index (rmap r') (bd_col d') (bd_row d')))"
      using cell m assms(6,7) by (simp add: cell_index_def)
    moreover have "this_room ?w' c' = Some rid" "first_layer ''bombs'' (rmap r') = Some k"
      using assms False m by (simp_all add: plant_bomb_free_cell)
    ultimately show ?thesis using r' by (simp add: plant_bomb_taken_cell)
  qed
qed

text \<open>
  C10: an explosion zeroes every reported cell in both the last \<open>"bombs"\<close> and the last
  \<open>"objects"\<close> layer, and is broadcast to the whole room with the server's timestamp.
\<close>

theorem bomb_explode_clears_cells:
  assumes "this_room w c = Some rid" "rstore w rid = Some r"
    and "last_layer ''objects'' (rmap r) = Some ok" "last_layer ''bombs'' (rmap r) = Some bk"
    and "(col, row) \<in> set es"
  shows "\<exists>r'. rstore (on_bomb_explode c es now w) rid = Some r'
    \<and> js_get (ldata (layers (rmap r') ! bk)) (row * width (rmap r) + col) = Some 0
    \<and> js_get (ldata (layers (rmap r') ! ok)) (row * width (rmap r) + col) = Some 0
    \<and> outbox (on_bomb_explode c es now w) = outbox w @ [emit_all r ''bomb explode'' (P_explode es now)]"
  using assms last_layer_SomeD[OF assms(3)] last_layer_SomeD[OF assms(4)]
    clear_cells_zero[of bk "rmap r" ok col row es]
  by (simp add: on_bomb_explode_def with_room_Some explode_cells_def cell_index_def)

subsection \<open>Movement\<close>

text \<open>
  C19: a dead player's movement is dropped; a live player's new position and animation are
  stored and echoed to every other member of the room, never back to the sender.
\<close>

theorem player_move_behaviour:
  assumes "pstore w c = Some p" "this_room w c = Some rid" "rstore w rid = Some r"
  shows "(is_dead p \<longrightarrow> on_player_move c d w = w)
    \<and> (\<not> is_dead p \<longrightarrow>
         pstore (on_player_move c d w) c = Some (p\<lparr>px := mv_x d, py := mv_y d, animation_key := mv_key d\<rparr>)
       \<and> outbox (on_player_move c d w) = outbox w @ [emit_broadcast r ''player move'' (P_move d) c]
       \<and> set (dest (emit_broadcast r ''player move'' (P_move d) c)) = set (members r) - {c})"
  using assms by (auto simp: on_player_move_def with_player_room_Some emit_broadcast_def)

end
