(* ===== verification/Session.thy ===== *)
theory Session
  imports HandlerProps
begin

text \<open>
  The session structure of the server, abstracted from the world: the registries, the
  socket bindings, and for each player object its serial and focus flag, for each room
  object its roster, host pointer, spawn cursor and spawn order. This is all the
  coordination invariants talk about. \<open>skel\<close> is the abstraction function; the
  gameplay handlers (chat, move, death, powerups, bombs, explosions, blink, disappear,
  web login) are shown to leave it unchanged, so every invariant of the session
  structure is preserved by them at once.
\<close>

record room_skel =
  k_slots :: "conn_id option list"
  k_host :: "conn_id option"
  k_cursor :: nat
  k_spawns :: "spawn_point list"

record player_skel =
  k_serial :: nat
  k_active :: bool

record session =
  s_players :: "conn_id list"
  s_rooms :: "room_id list"
  s_sockets :: "conn_id \<rightharpoonup> room_id option"
  s_next :: room_id
  s_pl :: "conn_id \<rightharpoonup> player_skel"
  s_rs :: "room_id \<rightharpoonup> room_skel"
  s_level :: "spawn_point list"

definition room_skel_of :: "room \<Rightarrow> room_skel" where
  "room_skel_of r =
     \<lparr>k_slots = slots r, k_host = host r, k_cursor = next_spawn_index r, k_spawns = spawn_order (rmap r)\<rparr>"

definition player_skel_of :: "player \<Rightarrow> player_skel" where
  "player_skel_of p = \<lparr>k_serial = serial p, k_active = is_active p\<rparr>"

definition skel :: "world \<Rightarrow> session" where
  "skel w =
     \<lparr>s_players = players w, s_rooms = rooms w, s_sockets = sockets w, s_next = next_rid w,
      s_pl = (\<lambda>c. map_option player_skel_of (pstore w c)),
      s_rs = (\<lambda>rid. map_option room_skel_of (rstore w rid)),
      s_level = spawn_order (level w)\<rparr>"

text \<open>
  The events that can change the session structure: connection lifecycle, matchmaking,
  focus changes, spawning (the spawn cursor) and map reset (the room's map).
\<close>

fun structural :: "event \<Rightarrow> bool" where
  "structural Connect = True"
| "structural Disconnect = True"
| "structural (RoomRequest _ _) = True"
| "structural PlayerAvailable = True"
| "structural PlayerUnavailable = True"
| "structural (PlayerSpawn _) = True"
| "structural MapReset = True"
| "structural _ = False"

subsection \<open>Frame lemmas\<close>

lemma skel_emit [simp]: "skel (emit m w) = skel w"
  by (simp add: skel_def)

lemma skel_upd_player:
  "(\<And>p. player_skel_of (f p) = player_skel_of p) \<Longrightarrow> skel (upd_player c f w) = skel w"
  by (auto simp: skel_def fun_eq_iff option.map_comp o_def intro!: option.map_cong0)

lemma skel_upd_room:
  "(\<And>r. room_skel_of (f r) = room_skel_of r) \<Longrightarrow> skel (upd_room rid f w) = skel w"
  by (auto simp: skel_def fun_eq_iff option.map_comp o_def intro!: option.map_cong0)

lemma player_skel_of_simps [simp]:
  "player_skel_of (p\<lparr>frags := x\<rparr>) = player_skel_of p"
  "player_skel_of (p\<lparr>is_dead := b\<rparr>) = player_skel_of p"
  "player_skel_of (p\<lparr>is_invincible := b\<rparr>) = player_skel_of p"
  "player_skel_of (p\<lparr>i_timestamp := t\<rparr>) = player_skel_of p"
  "player_skel_of (p\<lparr>px := x'\<rparr>) = player_skel_of p"
  "player_skel_of (p\<lparr>py := x'\<rparr>) = player_skel_of p"
  "player_skel_of (p\<lparr>animation_key := s\<rparr>) = player_skel_of p"
  "player_skel_of (p\<lparr>last_message := s\<rparr>) = player_skel_of p"
  "player_skel_of (p\<lparr>nickname := s\<rparr>) = player_skel_of p"
  "player_skel_of (p\<lparr>name := s\<rparr>) = player_skel_of p"
  by (simp_all add: player_skel_of_def)

lemma spawn_order_map_ops [simp]:
  "spawn_order (set_first_layer n i v m) = spawn_order m"
  "spawn_order (set_all_layers n i v m) = spawn_order m"
  "spawn_order (explode_cells es m) = spawn_order m"
  "spawn_order (scrub_bombs v m) = spawn_order m"
  by (simp_all add: set_first_layer_def set_all_layers_def explode_cells_def scrub_bombs_def
      split: option.splits prod.splits)

lemma room_skel_of_rmap [simp]:
  "spawn_order m = spawn_order (rmap r) \<Longrightarrow> room_skel_of (r\<lparr>rmap := m\<rparr>) = room_skel_of r"
  by (simp add: room_skel_of_def)

lemma skel_with_room:
  "(\<And>rid r. rstore w rid = Some r \<Longrightarrow> skel (f rid r) = skel w) \<Longrightarrow> skel (with_room w c f) = skel w"
  by (simp add: with_room_def split: option.splits)

lemma skel_with_player_room:
  "(\<And>p rid r. rstore w rid = Some r \<Longrightarrow> skel (f p rid r) = skel w) \<Longrightarrow>
   skel (with_player_room w c f) = skel w"
  by (simp add: with_player_room_def skel_with_room split: option.splits)

subsection \<open>Gameplay events leave the session structure alone\<close>

lemma skel_death: "skel (on_player_death c d w) = skel w"
  unfolding on_player_death_def
  by (rule skel_with_room) (auto simp: Let_def skel_upd_player split: option.splits prod.splits)

lemma skel_lost: "skel (on_player_lost_invincibility c s w) = skel w"
  unfolding on_player_lost_invincibility_def
  by (rule skel_with_room) (auto simp: Let_def skel_upd_player split: option.splits prod.splits)

lemma skel_plant: "skel (on_player_plant_bomb c d now w) = skel w"
  unfolding on_player_plant_bomb_def
  by (rule skel_with_room) (auto simp: Let_def skel_upd_room room_skel_of_def upd_layer_def split: option.splits prod.splits)

lemma skel_explode: "skel (on_bomb_explode c es now w) = skel w"
  unfolding on_bomb_explode_def
  by (rule skel_with_room) (simp add: skel_upd_room room_skel_of_def)

lemma skel_blink: "skel (on_powerup_blink c d w) = skel w"
  unfolding on_powerup_blink_def by (rule skel_with_room) simp

lemma skel_disappear: "skel (on_powerup_disappear c d w) = skel w"
  unfolding on_powerup_disappear_def
  by (rule skel_with_room) (simp add: skel_upd_room room_skel_of_def)

lemma skel_chat: "skel (on_chat_message c t w) = skel w"
  unfolding on_chat_message_def
  by (rule skel_with_player_room) (simp add: skel_upd_player)

lemma skel_move: "skel (on_player_move c d w) = skel w"
  unfolding on_player_move_def
  by (rule skel_with_player_room) (simp add: skel_upd_player)

lemma skel_collect: "skel (on_player_collect_powerup c d now w) = skel w"
  unfolding on_player_collect_powerup_def
  by (rule skel_with_player_room) (simp add: Let_def skel_upd_player skel_upd_room room_skel_of_def)

lemma skel_login: "skel (on_web_login c n w) = skel w"
  by (simp add: on_web_login_def)

lemma skel_dispatch_gameplay:
  assumes "\<not> structural e" and "dispatch c now e w = Inr w'"
  shows "skel w' = skel w"
proof (cases e)
  case (PlayerMove x)
  with assms show ?thesis by (cases x) (auto simp: skel_move split: option.splits if_splits)
next
  case (PlayerDeath x)
  with assms show ?thesis by (cases x) (auto simp: skel_death split: if_splits)
next
  case (CollectPowerup x)
  with assms show ?thesis by (cases x) (auto simp: skel_collect split: if_splits)
next
  case (LostInvincibility x)
  with assms show ?thesis by (cases x) (auto simp: skel_lost split: if_splits)
next
  case (PlantBomb x)
  with assms show ?thesis by (cases x) (auto simp: skel_plant split: if_splits)
next
  case (BombExplode x)
  with assms show ?thesis by (cases x) (auto simp: skel_explode split: if_splits)
next
  case (PowerupBlink x)
  with assms show ?thesis by (cases x) (auto simp: skel_blink skel_with_room)
next
  case (PowerupDisappear x)
  with assms show ?thesis by (cases x) (auto simp: skel_disappear split: option.splits if_splits)
next
  case (WebLogin x)
  with assms show ?thesis by (cases x) (auto simp: skel_login)
qed (use assms in \<open>auto simp: skel_chat\<close>)

text \<open>
  C18: every other event (chat, move, death, powerup collection, lost invincibility, bomb
  planting, explosion, powerup blink and disappearance, web login) changes no registry,
  no socket binding, no roster, no host pointer, no serial and no focus flag.
\<close>

theorem gameplay_events_preserve_session:
  assumes "\<not> structural e" and "dispatch c now e w = Inr w'"
  shows "skel w' = skel w"
  using assms by (rule skel_dispatch_gameplay)

end
