(* ===== verification/Invariants.thy ===== *)
theory Invariants
  imports Session
begin

text \<open>
  The coordination invariant, on the session structure: every room object has a full
  roster of \<open>room_capacity\<close> slots, a spawn cursor inside the roster, the level's spawn
  order and a host that is on its roster; every roster entry names a known player; room
  ids are fresh beyond the generator; the room registry is duplicate-free and holds only
  occupied rooms; the player registry lists exactly the live sockets; a socket bound to a
  room finds that room registered and its own id in the slot of its serial.
  The structural handlers act on the session structure through a handful of abstract
  operations (connect, join, leave, drop, host selection, cursor and spawn-order updates,
  focus changes); each keeps the invariant, and each handler refines one of them.
\<close>

subsection \<open>The invariant\<close>

definition occupied :: "conn_id option list \<Rightarrow> bool" where
  "occupied sl \<longleftrightarrow> (\<exists>x \<in> set sl. x \<noteq> None)"

definition k_members :: "room_skel \<Rightarrow> conn_id list" where
  "k_members k = concat (map (\<lambda>x. case x of None \<Rightarrow> [] | Some c \<Rightarrow> [c]) (k_slots k))"

definition room_ok :: "spawn_point list \<Rightarrow> room_skel \<Rightarrow> bool" where
  "room_ok lvl k \<longleftrightarrow>
     length (k_slots k) = room_capacity \<and> k_cursor k < room_capacity \<and> k_spawns k = lvl
     \<and> (\<forall>h. k_host k = Some h \<longrightarrow> Some h \<in> set (k_slots k))"

definition rooms_wf :: "session \<Rightarrow> bool" where
  "rooms_wf s \<longleftrightarrow>
     (\<forall>rid k. s_rs s rid = Some k \<longrightarrow>
        room_ok (s_level s) k \<and> (\<forall>c. Some c \<in> set (k_slots k) \<longrightarrow> s_pl s c \<noteq> None))"

definition ids_fresh :: "session \<Rightarrow> bool" where
  "ids_fresh s \<longleftrightarrow> (\<forall>rid. s_next s \<le> rid \<longrightarrow> s_rs s rid = None)"

definition registry_wf :: "session \<Rightarrow> bool" where
  "registry_wf s \<longleftrightarrow>
     distinct (s_rooms s) \<and>
     (\<forall>rid \<in> set (s_rooms s). case s_rs s rid of Some k \<Rightarrow> occupied (k_slots k) | None \<Rightarrow> False)"

definition sockets_wf :: "session \<Rightarrow> bool" where
  "sockets_wf s \<longleftrightarrow>
     distinct (s_players s) \<and> set (s_players s) = dom (s_sockets s)
     \<and> (\<forall>c. s_sockets s c \<noteq> None \<longrightarrow> s_pl s c \<noteq> None)"

definition bound_ok :: "session \<Rightarrow> conn_id \<Rightarrow> room_id \<Rightarrow> bool" where
  "bound_ok s c rid \<longleftrightarrow>
     rid \<in> set (s_rooms s) \<and>
     (case (s_rs s rid, s_pl s c) of
        (Some k, Some pk) \<Rightarrow> k_serial pk < length (k_slots k) \<and> k_slots k ! k_serial pk = Some c
      | _ \<Rightarrow> False)"

definition bindings_wf :: "session \<Rightarrow> bool" where
  "bindings_wf s \<longleftrightarrow> (\<forall>c rid. s_sockets s c = Some (Some rid) \<longrightarrow> bound_ok s c rid)"

definition session_inv :: "session \<Rightarrow> bool" where
  "session_inv s \<longleftrightarrow> rooms_wf s \<and> ids_fresh s \<and> registry_wf s \<and> sockets_wf s \<and> bindings_wf s"

subsection \<open>Abstract operations\<close>

definition upd_rs :: "room_id \<Rightarrow> (room_skel \<Rightarrow> room_skel) \<Rightarrow> session \<Rightarrow> session" where
  "upd_rs rid f s = s\<lparr>s_rs := (s_rs s)(rid := map_option f (s_rs s rid))\<rparr>"

definition upd_pl :: "conn_id \<Rightarrow> (player_skel \<Rightarrow> player_skel) \<Rightarrow> session \<Rightarrow> session" where
  "upd_pl c f s = s\<lparr>s_pl := (s_pl s)(c := map_option f (s_pl s c))\<rparr>"

text \<open>Host selection: the first member, in slot order, that is active and not the host.\<close>

definition s_candidate :: "session \<Rightarrow> room_skel \<Rightarrow> conn_id option" where
  "s_candidate s k =
     find (\<lambda>c. k_host k \<noteq> Some c \<and> (case s_pl s c of Some pk \<Rightarrow> k_active pk | None \<Rightarrow> False))
       (k_members k)"

definition s_select :: "room_id \<Rightarrow> session \<Rightarrow> session" where
  "s_select rid s = upd_rs rid (\<lambda>k. k\<lparr>k_host := s_candidate s k\<rparr>) s"

definition s_connect :: "conn_id \<Rightarrow> session \<Rightarrow> session" where
  "s_connect c s =
     s\<lparr>s_players := s_players s @ [c], s_sockets := (s_sockets s)(c \<mapsto> None),
       s_pl := (s_pl s)(c \<mapsto> \<lparr>k_serial = 0, k_active = True\<rparr>)\<rparr>"

text \<open>The skeleton of a new room of the level.\<close>

definition fresh_skel :: "spawn_point list \<Rightarrow> room_skel" where
  "fresh_skel lvl = \<lparr>k_slots = replicate room_capacity None, k_host = None, k_cursor = 0, k_spawns = lvl\<rparr>"

text \<open>Join: socket \<open>c\<close> takes slot \<open>i\<close> of room \<open>rid\<close> (skeleton \<open>k\<close> before), host \<open>hh\<close>.\<close>

definition s_join ::
  "conn_id \<Rightarrow> room_id \<Rightarrow> room_skel \<Rightarrow> nat \<Rightarrow> conn_id option \<Rightarrow> room_id list \<Rightarrow> room_id \<Rightarrow>
   session \<Rightarrow> session" where
  "s_join c rid k i hh rs nx s =
     s\<lparr>s_rooms := rs, s_next := nx,
       s_rs := (s_rs s)(rid \<mapsto> k\<lparr>k_slots := (k_slots k)[i := Some c], k_host := hh\<rparr>),
       s_pl := (s_pl s)(c := map_option (\<lambda>pk. pk\<lparr>k_serial := i\<rparr>) (s_pl s c)),
       s_sockets := (s_sockets s)(c \<mapsto> Some rid)\<rparr>"

text \<open>Leave: socket \<open>c\<close> gives up slot \<open>i\<close> of room \<open>rid\<close> and its socket closes.\<close>

definition s_leave ::
  "conn_id \<Rightarrow> room_id \<Rightarrow> room_skel \<Rightarrow> nat \<Rightarrow> conn_id option \<Rightarrow> room_id list \<Rightarrow>
   (player_skel \<Rightarrow> player_skel) \<Rightarrow> session \<Rightarrow> session" where
  "s_leave c rid k i hh rs g s =
     s\<lparr>s_players := remove1 c (s_players s), s_rooms := rs,
       s_rs := (s_rs s)(rid \<mapsto> k\<lparr>k_slots := (k_slots k)[i := None], k_host := hh\<rparr>),
       s_pl := (s_pl s)(c := map_option g (s_pl s c)),
       s_sockets := (s_sockets s)(c := None)\<rparr>"

text \<open>Drop: a socket without a room closes.\<close>

definition s_drop :: "conn_id \<Rightarrow> session \<Rightarrow> session" where
  "s_drop c s = s\<lparr>s_players := remove1 c (s_players s), s_sockets := (s_sockets s)(c := None)\<rparr>"

subsection \<open>List facts\<close>

lemma set_update_memD: "Some c \<in> set (xs[i := y]) \<Longrightarrow> Some c = y \<or> Some c \<in> set xs"
  using set_update_subset_insert[of xs i y] by blast

lemma set_update_keep:
  assumes "x \<in> set xs" "xs ! i \<noteq> x" shows "x \<in> set (xs[i := y])"
proof -
  obtain j where j: "j < length xs" "xs ! j = x" using assms(1) by (auto simp: in_set_conv_nth)
  with assms(2) have "j \<noteq> i" by auto
  with j show ?thesis by (auto simp: in_set_conv_nth intro!: exI[of _ j])
qed

lemma occupied_update_Some [simp]: "i < length xs \<Longrightarrow> occupied (xs[i := Some c])"
  using set_update_memI[of i xs "Some c"] unfolding occupied_def by blast

subsection \<open>The abstract operations keep the invariant\<close>

lemma session_inv_upd_rs:
  assumes "session_inv s"
    and "\<And>k. s_rs s rid = Some k \<Longrightarrow> k_slots (f k) = k_slots k \<and> room_ok (s_level s) (f k)"
  shows "session_inv (upd_rs rid f s)"
proof -
  have "bound_ok (upd_rs rid f s) c r = bound_ok s c r" for c r
    using assms(2) by (auto simp: bound_ok_def upd_rs_def split: option.splits)
  then show ?thesis
    using assms
    by (auto simp: session_inv_def rooms_wf_def ids_fresh_def registry_wf_def sockets_wf_def
        bindings_wf_def upd_rs_def split: option.splits if_splits)
qed

lemma session_inv_upd_pl:
  assumes "session_inv s" and "\<And>pk. k_serial (f pk) = k_serial pk"
  shows "session_inv (upd_pl c f s)"
proof -
  have "bound_ok (upd_pl c f s) c' r = bound_ok s c' r" for c' r
    using assms(2) by (auto simp: bound_ok_def upd_pl_def split: option.splits)
  then show ?thesis
    using assms
    by (auto simp: session_inv_def rooms_wf_def ids_fresh_def registry_wf_def sockets_wf_def
        bindings_wf_def upd_pl_def split: option.splits if_splits)
qed

lemma set_k_members: "set (k_members k) = {c. Some c \<in> set (k_slots k)}"
  by (auto simp: k_members_def split: option.splits)

lemma s_candidate_SomeD:
  assumes "s_candidate s k = Some h" shows "Some h \<in> set (k_slots k) \<and> k_host k \<noteq> Some h"
proof -
  have "h \<in> set (k_members k) \<and> k_host k \<noteq> Some h"
    using assms unfolding s_candidate_def by (auto simp: find_Some_iff nth_mem)
  then show ?thesis by (simp add: set_k_members)
qed

lemma session_inv_s_select: "session_inv s \<Longrightarrow> session_inv (s_select rid s)"
  unfolding s_select_def
  by (rule session_inv_upd_rs)
     (auto simp: session_inv_def rooms_wf_def room_ok_def dest: s_candidate_SomeD split: option.splits)

lemma session_inv_set_cursor:
  "session_inv s \<Longrightarrow> n < room_capacity \<Longrightarrow> session_inv (upd_rs rid (\<lambda>k. k\<lparr>k_cursor := n\<rparr>) s)"
  by (rule session_inv_upd_rs) (auto simp: session_inv_def rooms_wf_def room_ok_def)

lemma session_inv_set_spawns:
  "session_inv s \<Longrightarrow> session_inv (upd_rs rid (\<lambda>k. k\<lparr>k_spawns := s_level s\<rparr>) s)"
  by (rule session_inv_upd_rs) (auto simp: session_inv_def rooms_wf_def room_ok_def)

lemma session_inv_set_active: "session_inv s \<Longrightarrow> session_inv (upd_pl c (\<lambda>pk. pk\<lparr>k_active := b\<rparr>) s)"
  by (rule session_inv_upd_pl) simp_all

lemma session_inv_s_connect:
  assumes "session_inv s" "s_pl s c = None"
  shows "session_inv (s_connect c s)"
proof -
  have c: "c \<notin> set (s_players s)" "s_sockets s c = None"
    using assms by (auto simp: session_inv_def sockets_wf_def)
  have "bound_ok (s_connect c s) c' r = bound_ok s c' r" if "s_sockets s c' = Some (Some r)" for c' r
    using that c by (auto simp: bound_ok_def s_connect_def)
  then show ?thesis
    using assms c
    by (auto simp: session_inv_def rooms_wf_def ids_fresh_def registry_wf_def sockets_wf_def
        bindings_wf_def s_connect_def)
qed

lemma session_inv_s_drop:
  assumes "session_inv s" "s_sockets s c = Some None"
  shows "session_inv (s_drop c s)"
proof -
  have "bound_ok (s_drop c s) c' r = bound_ok s c' r" for c' r
    by (simp add: bound_ok_def s_drop_def)
  then show ?thesis
    using assms
    by (auto simp: session_inv_def rooms_wf_def ids_fresh_def registry_wf_def sockets_wf_def
        bindings_wf_def s_drop_def)
qed

text \<open>Where a join may put its socket: a registered room, or a fresh one appended.\<close>

definition join_target ::
  "session \<Rightarrow> room_id \<Rightarrow> room_skel \<Rightarrow> room_id list \<Rightarrow> room_id \<Rightarrow> bool" where
  "join_target s rid k rs nx \<longleftrightarrow>
     (s_rs s rid = Some k \<and> rid \<in> set (s_rooms s) \<and> rs = s_rooms s \<and> nx = s_next s)
   \<or> (rid = s_next s \<and> k = fresh_skel (s_level s) \<and> rs = s_rooms s @ [rid] \<and> nx = Suc rid)"

lemma join_target_facts:
  assumes "session_inv s" "join_target s rid k rs nx"
  shows "room_ok (s_level s) k" "distinct rs" "set rs = insert rid (set (s_rooms s))"
    "\<forall>r. nx \<le> r \<longrightarrow> r \<noteq> rid \<and> s_rs s r = None"
    "\<forall>k'. s_rs s rid = Some k' \<longrightarrow> k' = k"
    "\<forall>c. Some c \<in> set (k_slots k) \<longrightarrow> s_pl s c \<noteq> None"
proof -
  have fresh: "\<forall>r. s_next s \<le> r \<longrightarrow> s_rs s r = None" and dr: "distinct (s_rooms s)"
    and rok: "\<forall>r k. s_rs s r = Some k \<longrightarrow> room_ok (s_level s) k"
    and reg: "\<forall>r \<in> set (s_rooms s). s_rs s r \<noteq> None"
    using assms(1)
    by (auto simp: session_inv_def ids_fresh_def registry_wf_def rooms_wf_def split: option.splits)
  show "room_ok (s_level s) k" "\<forall>k'. s_rs s rid = Some k' \<longrightarrow> k' = k"
    using assms(2) rok fresh by (auto simp: join_target_def fresh_skel_def room_ok_def room_capacity_def)
  show "\<forall>c. Some c \<in> set (k_slots k) \<longrightarrow> s_pl s c \<noteq> None"
    using assms by (auto simp: join_target_def fresh_skel_def session_inv_def rooms_wf_def)
  have "rid \<notin> set (s_rooms s)" if "rid = s_next s"
    using that reg fresh by auto
  then show "distinct rs" "set rs = insert rid (set (s_rooms s))"
    using assms(2) dr by (auto simp: join_target_def)
  have "rid < s_next s" if "s_rs s rid = Some k"
    using that fresh by (cases "s_next s \<le> rid") auto
  then show "\<forall>r. nx \<le> r \<longrightarrow> r \<noteq> rid \<and> s_rs s r = None"
    using assms(2) fresh by (auto simp: join_target_def)
qed

lemma session_inv_s_join:
  assumes inv: "session_inv s" and live: "s_sockets s c \<noteq> None"
    and tgt: "join_target s rid k rs nx"
    and slot: "i < length (k_slots k)" "k_slots k ! i = None"
    and hh: "\<forall>h. hh = Some h \<longrightarrow> Some h \<in> set ((k_slots k)[i := Some c])"
  shows "session_inv (s_join c rid k i hh rs nx s)"
proof -
  note F = join_target_facts[OF inv tgt]
  let ?s = "s_join c rid k i hh rs nx s"
  have pl: "s_pl s c \<noteq> None" using inv live by (auto simp: session_inv_def sockets_wf_def)
  have "rooms_wf ?s"
    using inv F(1,5,6) pl hh
    by (auto simp: session_inv_def rooms_wf_def room_ok_def s_join_def dest: set_update_memD)
  moreover have "ids_fresh ?s"
    using F(4) by (auto simp: ids_fresh_def s_join_def)
  moreover have "registry_wf ?s"
    using inv F(2,3) slot by (auto simp: session_inv_def registry_wf_def s_join_def)
  moreover have "sockets_wf ?s"
    using inv live pl by (auto simp: session_inv_def sockets_wf_def s_join_def)
  moreover have "bound_ok ?s c' r" if b: "s_sockets ?s c' = Some (Some r)" for c' r
  proof (cases "c' = c")
    case True
    then show ?thesis using b F(3) slot pl by (auto simp: bound_ok_def s_join_def)
  next
    case False
    then have old: "bound_ok s c' r" using b inv by (simp add: s_join_def session_inv_def bindings_wf_def)
    show ?thesis
    proof (cases "r = rid")
      case True
      with old F(5) obtain pk where "s_pl s c' = Some pk" "k_serial pk < length (k_slots k)"
          "k_slots k ! k_serial pk = Some c'"
        by (auto simp: bound_ok_def split: option.splits)
      with slot False True show ?thesis using F(3) by (auto simp: bound_ok_def s_join_def nth_list_update)
    next
      case False
      with old \<open>c' \<noteq> c\<close> F(3) show ?thesis by (auto simp: bound_ok_def s_join_def split: option.splits)
    qed
  qed
  ultimately show ?thesis by (simp add: session_inv_def bindings_wf_def)
qed

text \<open>What a leave does to the room registry: keeps it, or swap-removes the emptied room.\<close>

definition leave_registry :: "session \<Rightarrow> room_id \<Rightarrow> conn_id option list \<Rightarrow> room_id list \<Rightarrow> bool" where
  "leave_registry s rid sl rs \<longleftrightarrow>
     (occupied sl \<and> rs = s_rooms s)
   \<or> (\<not> occupied sl \<and> rs = swap_remove (js_index_of rid (s_rooms s)) (s_rooms s))"

lemma session_inv_s_leave:
  assumes inv: "session_inv s" and b: "s_sockets s c = Some (Some rid)"
    and k: "s_rs s rid = Some k" and pk: "s_pl s c = Some pk" and i: "i = k_serial pk"
    and g: "\<And>pk. k_serial (g pk) = k_serial pk"
    and hh: "\<forall>h. hh = Some h \<longrightarrow> h \<noteq> c \<and> Some h \<in> set (k_slots k)"
    and rs: "leave_registry s rid ((k_slots k)[i := None]) rs"
  shows "session_inv (s_leave c rid k i hh rs g s)"
proof -
  let ?s = "s_leave c rid k i hh rs g s" and ?sl = "(k_slots k)[i := None]"
  have bo: "bound_ok s c rid" using inv b by (simp add: session_inv_def bindings_wf_def)
  then have ri: "rid \<in> set (s_rooms s)" and sl: "i < length (k_slots k)" "k_slots k ! i = Some c"
    using k pk i by (simp_all add: bound_ok_def)
  have dr: "distinct (s_rooms s)" using inv by (simp add: session_inv_def registry_wf_def)
  have rs_set: "distinct rs \<and> set rs - {rid} = set (s_rooms s) - {rid}
      \<and> (rid \<in> set rs \<longrightarrow> occupied ?sl)"
    using rs dr ri swap_remove_index_distinct[OF dr ri] by (auto simp: leave_registry_def)
  have "rooms_wf ?s"
  proof -
    have "Some h \<in> set ?sl" if "hh = Some h" for h
      using that hh sl by (auto intro: set_update_keep)
    then show ?thesis
      using inv k g by (auto simp: session_inv_def rooms_wf_def room_ok_def s_leave_def dest: set_update_memD)
  qed
  moreover have "ids_fresh ?s"
    using inv k by (auto simp: session_inv_def ids_fresh_def s_leave_def)
  moreover have "registry_wf ?s"
    using inv rs_set by (auto simp: session_inv_def registry_wf_def s_leave_def)
  moreover have "sockets_wf ?s"
    using inv by (auto simp: session_inv_def sockets_wf_def s_leave_def)
  moreover have "bound_ok ?s c' r" if b': "s_sockets ?s c' = Some (Some r)" for c' r
  proof -
    have c': "c' \<noteq> c" and old: "bound_ok s c' r"
      using b' inv by (auto simp: s_leave_def session_inv_def bindings_wf_def split: if_splits)
    show ?thesis
    proof (cases "r = rid")
      case True
      with old k obtain pk' where "s_pl s c' = Some pk'" "k_serial pk' < length (k_slots k)"
          "k_slots k ! k_serial pk' = Some c'"
        by (auto simp: bound_ok_def split: option.splits)
      moreover from this sl c' have "k_serial pk' \<noteq> i" by auto
      ultimately have "?sl ! k_serial pk' = Some c'" "k_serial pk' < length ?sl" by simp_all
      then have "Some c' \<in> set ?sl" by (metis nth_mem)
      then have "occupied ?sl" by (auto simp: occupied_def)
      then have "rid \<in> set rs" using rs ri by (simp add: leave_registry_def)
      then show ?thesis using True c' \<open>?sl ! k_serial pk' = Some c'\<close> \<open>k_serial pk' < length ?sl\<close>
          \<open>s_pl s c' = Some pk'\<close> by (simp add: bound_ok_def s_leave_def)
    next
      case False
      with old c' rs_set show ?thesis by (auto simp: bound_ok_def s_leave_def split: option.splits)
    qed
  qed
  ultimately show ?thesis by (simp add: session_inv_def bindings_wf_def)
qed

end
