(* ===== verification/Refinement.thy ===== *)
theory Refinement
  imports Invariants
begin

text \<open>
  Refinement of the abstract session operations by the structural handlers: the
  session structure of the world after each handler is the abstract operation applied to
  the session structure before it.
\<close>

subsection \<open>Primitive steps\<close>

lemma skel_upd_player_map:
  "(\<And>p. player_skel_of (f p) = h (player_skel_of p)) \<Longrightarrow> skel (upd_player c f w) = upd_pl c h (skel w)"
  by (auto simp: skel_def upd_pl_def fun_eq_iff option.map_comp o_def intro!: option.map_cong0)

lemma skel_upd_room_map:
  "(\<And>r. room_skel_of (f r) = h (room_skel_of r)) \<Longrightarrow> skel (upd_room rid f w) = upd_rs rid h (skel w)"
  by (auto simp: skel_def upd_rs_def fun_eq_iff option.map_comp o_def intro!: option.map_cong0)

lemma k_members_room_skel_of [simp]: "k_members (room_skel_of r) = members r"
  by (simp add: k_members_def members_def room_skel_of_def)

lemma s_candidate_skel: "s_candidate (skel w) (room_skel_of r) = host_candidate (pstore w) r"
proof -
  have "(\<lambda>c. k_host (room_skel_of r) \<noteq> Some c \<and>
          (case s_pl (skel w) c of Some pk \<Rightarrow> k_active pk | None \<Rightarrow> False))
      = (\<lambda>c. host r \<noteq> Some c \<and> (case pstore w c of Some p \<Rightarrow> is_active p | None \<Rightarrow> False))"
    by (auto simp: fun_eq_iff skel_def room_skel_of_def player_skel_of_def split: option.splits)
  then show ?thesis unfolding s_candidate_def host_candidate_def k_members_room_skel_of by (rule arg_cong)
qed

lemma skel_select_host_w: "skel (select_host_w rid w) = s_select rid (skel w)"
proof (cases "rstore w rid")
  case None
  then show ?thesis
    by (simp add: select_host_w_def s_select_def upd_rs_def skel_def fun_eq_iff)
next
  case (Some r)
  have "room_skel_of (select_new_host (pstore w) r) = (room_skel_of r)\<lparr>k_host := s_candidate (skel w) (room_skel_of r)\<rparr>"
    unfolding s_candidate_skel by (simp add: select_new_host_def room_skel_of_def)
  with Some show ?thesis
    by (auto simp: select_host_w_def s_select_def upd_rs_def skel_def fun_eq_iff Let_def
        split: option.splits)
qed

lemma skel_connect: "skel (on_client_connect c w) = s_connect c (skel w)"
  by (simp add: on_client_connect_def s_connect_def skel_def player_skel_of_def fun_eq_iff Let_def)

lemma inv_room:
  assumes "session_inv (skel w)" "rstore w rid = Some r"
  shows "length (slots r) = room_capacity" "next_spawn_index r < room_capacity"
    "spawn_order (rmap r) = spawn_order (level w)" "\<And>h. host r = Some h \<Longrightarrow> Some h \<in> set (slots r)"
proof -
  have "s_rs (skel w) rid = Some (room_skel_of r)" using assms(2) by (simp add: skel_def)
  with assms(1) have "room_ok (s_level (skel w)) (room_skel_of r)"
    unfolding session_inv_def rooms_wf_def by blast
  then show "length (slots r) = room_capacity" "next_spawn_index r < room_capacity"
    "spawn_order (rmap r) = spawn_order (level w)" "\<And>h. host r = Some h \<Longrightarrow> Some h \<in> set (slots r)"
    by (simp_all add: room_ok_def room_skel_of_def skel_def)
qed

lemma inv_set_active_w:
  "session_inv (skel w) \<Longrightarrow> session_inv (skel (upd_player c (\<lambda>p. p\<lparr>is_active := b\<rparr>) w))"
  by (simp add: skel_upd_player_map[where h = "\<lambda>pk. pk\<lparr>k_active := b\<rparr>"] player_skel_of_def
      session_inv_set_active)

lemma inv_select_host_w: "session_inv (skel w) \<Longrightarrow> session_inv (skel (select_host_w rid w))"
  by (simp add: skel_select_host_w session_inv_s_select)

lemma skel_rc_timestamp [simp]: "skel (upd_room rid (\<lambda>r. r\<lparr>rc_timestamp := t\<rparr>) w) = skel w"
  by (rule skel_upd_room) (simp add: room_skel_of_def)

lemma skel_set_cursor:
  "skel (upd_room rid (\<lambda>r. r\<lparr>next_spawn_index := n\<rparr>) w) = upd_rs rid (\<lambda>k. k\<lparr>k_cursor := n\<rparr>) (skel w)"
  by (rule skel_upd_room_map) (simp add: room_skel_of_def)

subsection \<open>Focus changes\<close>

lemma inv_player_unavailable:
  "session_inv (skel w) \<Longrightarrow> session_inv (skel (on_player_unavailable c now w))"
  by (auto simp: on_player_unavailable_def Let_def inv_set_active_w inv_select_host_w
      split: option.splits)

lemma inv_player_available:
  "session_inv (skel w) \<Longrightarrow> session_inv (skel (on_player_available c w))"
  by (auto simp: on_player_available_def Let_def inv_set_active_w inv_select_host_w
      split: option.splits)

subsection \<open>Spawning and map reset\<close>

lemma inv_player_spawn:
  assumes "session_inv (skel w)" "on_player_spawn c d now w = Inr w'"
  shows "session_inv (skel w')"
proof (cases "\<exists>p rid r. pstore w c = Some p \<and> this_room w c = Some rid \<and> rstore w rid = Some r")
  case True
  then obtain p rid r where st: "pstore w c = Some p" "this_room w c = Some rid" "rstore w rid = Some r"
    by blast
  let ?k = "next_spawn_index r"
  let ?n = "if ?k = 7 then 0 else Suc ?k"
  have "?k < room_capacity" using inv_room(2)[OF assms(1) st(3)] .
  then have n: "?n < room_capacity" by (simp add: room_capacity_def)
  have "skel w' = upd_rs rid (\<lambda>k. k\<lparr>k_cursor := ?n\<rparr>) (skel w)"
    using assms(2) st
    by (auto simp: on_player_spawn_def Let_def skel_upd_player skel_set_cursor split: if_splits)
  then show ?thesis using session_inv_set_cursor[OF assms(1) n] by simp
next
  case False
  then have "w' = w" using assms(2)
    by (auto simp: on_player_spawn_def split: option.splits)
  then show ?thesis using assms(1) by simp
qed

lemma inv_map_reset:
  assumes "session_inv (skel w)"
  shows "session_inv (skel (on_map_reset c w))"
proof -
  have "skel (w\<lparr>rstore := (rstore w)(rid \<mapsto> reset_map (level w) r)\<rparr>) =
        upd_rs rid (\<lambda>k. k\<lparr>k_spawns := s_level (skel w)\<rparr>) (skel w)" if "rstore w rid = Some r" for rid r
    using that by (auto simp: skel_def upd_rs_def reset_map_def room_skel_of_def fun_eq_iff)
  then show ?thesis
    using assms session_inv_set_spawns
    by (auto simp: on_map_reset_def with_room_def Let_def split: option.splits)
qed

subsection \<open>Matchmaking\<close>

lemma rr_target:
  assumes inv: "session_inv (skel w)" and rr: "rr_find_or_create w = (w1, rid)"
  shows "\<exists>r. rstore w1 rid = Some r \<and> None \<in> set (slots r)
    \<and> join_target (skel w) rid (room_skel_of r) (rooms w1) (next_rid w1)
    \<and> pstore w1 = pstore w \<and> sockets w1 = sockets w \<and> players w1 = players w
    \<and> level w1 = level w \<and> (\<forall>rid'. rid' \<noteq> rid \<longrightarrow> rstore w1 rid' = rstore w rid')"
proof (cases "find_room (rstore w) (rooms w)")
  case (Some rid0)
  then have w1: "w1 = w" "rid = rid0" using rr by (simp_all add: rr_find_or_create_def)
  from Some obtain r where r: "rstore w rid = Some r" "\<not> is_full r" "rid \<in> set (rooms w)"
    using w1 by (auto simp: room_open_def dest!: find_room_SomeD split: option.splits)
  then have "None \<in> set (slots r)"
    using inv_room(1)[OF inv r(1)] by (simp add: not_full_has_free_slot)
  with r w1 show ?thesis by (auto simp: join_target_def skel_def)
next
  case None
  then have w1: "w1 = w\<lparr>rstore := (rstore w)(next_rid w \<mapsto> new_room (next_rid w) (level w)),
      rooms := rooms w @ [next_rid w], next_rid := Suc (next_rid w)\<rparr>" "rid = next_rid w"
    using rr by (auto simp: rr_find_or_create_def Let_def)
  have "room_skel_of (new_room rid (level w)) = fresh_skel (s_level (skel w))"
    by (simp add: room_skel_of_def new_room_def fresh_skel_def skel_def)
  then show ?thesis using w1
    by (auto simp: join_target_def new_room_def room_capacity_def skel_def)
qed

lemma room_request_join:
  assumes inv: "session_inv (skel w)" and ok: "on_room_request c d g w = Inr w'"
    and rr: "rr_find_or_create w = (w1, rid)"
  shows "\<exists>k i hh. join_target (skel w) rid k (rooms w1) (next_rid w1) \<and> i < length (k_slots k)
    \<and> k_slots k ! i = None \<and> (\<forall>h. hh = Some h \<longrightarrow> Some h \<in> set ((k_slots k)[i := Some c]))
    \<and> skel w' = s_join c rid k i hh (rooms w1) (next_rid w1) (skel w)"
proof -
  obtain p where p: "pstore w c = Some p"
    using ok by (cases "pstore w c") (auto simp: on_room_request_def)
  obtain cn where dn: "d = Some cn"
    using ok p rr by (cases d) (auto simp: on_room_request_def)
  obtain r where r: "rstore w1 rid = Some r" "None \<in> set (slots r)"
      "join_target (skel w) rid (room_skel_of r) (rooms w1) (next_rid w1)"
    and w1: "pstore w1 = pstore w" "sockets w1 = sockets w" "players w1 = players w"
      "level w1 = level w" "\<forall>rid'. rid' \<noteq> rid \<longrightarrow> rstore w1 rid' = rstore w rid'"
    using rr_target[OF inv rr] by blast
  obtain r' i where ins: "insert_player c r = Some (r', i)"
    using r(2) insert_player_Some_iff by blast
  note insD = insert_player_SomeD[OF ins]
  have hr: "Some h \<in> set (slots r)" if "host r = Some h" for h
    using join_target_facts(1)[OF inv r(3)] that by (simp add: room_ok_def room_skel_of_def)
  have tgt: "join_target (skel w) rid (room_skel_of r) (rooms w1) (next_rid w1)"
    "i < length (k_slots (room_skel_of r))" "k_slots (room_skel_of r) ! i = None"
    using r(3) insD by (simp_all add: room_skel_of_def)
  let ?w3 = "upd_player c (\<lambda>p. p\<lparr>serial := i\<rparr>)
      ((upd_player c (\<lambda>p. p\<lparr>name := pick_name cn g\<rparr>) w1)\<lparr>rstore := (rstore w1)(rid \<mapsto> r')\<rparr>)"
  show ?thesis
  proof (cases "has_host r'")
    case True
    have "Some h \<in> set ((slots r)[i := Some c])" if "host r = Some h" for h
      using hr[OF that] insD by (auto intro: set_update_keep)
    then have "\<forall>h. host r' = Some h \<longrightarrow> Some h \<in> set ((k_slots (room_skel_of r))[i := Some c])"
      using insD by (simp add: room_skel_of_def)
    moreover have "skel w' = s_join c rid (room_skel_of r) i (host r') (rooms w1) (next_rid w1) (skel w)"
      using ok p dn rr r(1) ins w1 insD True
      by (auto simp: on_room_request_def Let_def skel_def s_join_def fun_eq_iff room_skel_of_def
          player_skel_of_def)
    ultimately show ?thesis using tgt by blast
  next
    case False
    let ?hc = "host_candidate (pstore ?w3) r'"
    have "Some h \<in> set ((k_slots (room_skel_of r))[i := Some c])" if "?hc = Some h" for h
      using host_candidate_SomeD[OF that] insD by (simp add: in_members_iff room_skel_of_def)
    moreover have "skel w' = s_join c rid (room_skel_of r) i ?hc (rooms w1) (next_rid w1) (skel w)"
      using ok p dn rr r(1) ins w1 insD False
      by (auto simp: on_room_request_def Let_def skel_def s_join_def fun_eq_iff room_skel_of_def
          player_skel_of_def select_new_host_def)
    ultimately show ?thesis using tgt by blast
  qed
qed

subsection \<open>Disconnection\<close>

lemma inv_bound:
  assumes "session_inv (skel w)" "sockets w c = Some (Some rid)"
  obtains r p where "rstore w rid = Some r" "pstore w c = Some p" "rid \<in> set (rooms w)"
    "serial p < length (slots r)" "slots r ! serial p = Some c"
proof -
  have "bound_ok (skel w) c rid"
    using assms by (simp add: session_inv_def bindings_wf_def skel_def)
  then show thesis
    using that by (auto simp: bound_ok_def skel_def room_skel_of_def player_skel_of_def
        split: option.splits)
qed

lemma disconnect_drop:
  assumes "sockets w c = Some None" "on_client_disconnect c now w = Inr w'"
  shows "skel (close_socket c w') = s_drop c (skel w)"
  using assms
  by (auto simp: on_client_disconnect_def this_room_def close_socket_def skel_def s_drop_def
      player_unregister_eq_remove1)

lemma disconnect_leave:
  assumes inv: "session_inv (skel w)" and b: "sockets w c = Some (Some rid)"
    and ok: "on_client_disconnect c now w = Inr w'"
  shows "\<exists>k pk hh rs g. s_rs (skel w) rid = Some k \<and> s_pl (skel w) c = Some pk
    \<and> (\<forall>pk. k_serial (g pk) = k_serial pk) \<and> (\<forall>h. hh = Some h \<longrightarrow> h \<noteq> c \<and> Some h \<in> set (k_slots k))
    \<and> leave_registry (skel w) rid ((k_slots k)[k_serial pk := None]) rs
    \<and> skel (close_socket c w') = s_leave c rid k (k_serial pk) hh rs g (skel w)"
proof -
  obtain r p where r: "rstore w rid = Some r" "pstore w c = Some p" "rid \<in> set (rooms w)"
      "serial p < length (slots r)" "slots r ! serial p = Some c"
    using inv b by (rule inv_bound)
  have hr: "Some h \<in> set (slots r)" if "host r = Some h" for h
    using inv_room(4)[OF inv r(1) that] .
  let ?rs = "if count_some ((slots r)[serial p := None]) = 0
    then swap_remove (js_index_of rid (rooms w)) (rooms w) else rooms w"
  have sk: "s_rs (skel w) rid = Some (room_skel_of r)" "s_pl (skel w) c = Some (player_skel_of p)"
    using r by (simp_all add: skel_def)
  have lr: "leave_registry (skel w) rid ((k_slots (room_skel_of r))[k_serial (player_skel_of p) := None]) ?rs"
    unfolding leave_registry_def occupied_def
    by (auto simp: skel_def room_skel_of_def player_skel_of_def count_some_zero_iff)
  show ?thesis
  proof (cases "is_host c r")
    case True
    let ?w1 = "upd_player c (\<lambda>p. p\<lparr>is_active := False\<rparr>) (w\<lparr>players := player_unregister c (players w)\<rparr>)"
    let ?hc = "host_candidate (pstore ?w1) (r\<lparr>rc_timestamp := now\<rparr>)"
    have "h \<noteq> c \<and> Some h \<in> set (k_slots (room_skel_of r))" if "?hc = Some h" for h
      using host_candidate_SomeD[OF that] True by (auto simp: is_host_def in_members_iff room_skel_of_def)
    moreover have "skel (close_socket c w') =
        s_leave c rid (room_skel_of r) (k_serial (player_skel_of p)) ?hc ?rs (\<lambda>pk. pk\<lparr>k_active := False\<rparr>) (skel w)"
      using ok b r True
      by (auto simp: on_client_disconnect_def this_room_def Let_def dc_host_reset_def dc_scrub_def
          dc_remove_room_def close_socket_def skel_def s_leave_def fun_eq_iff room_skel_of_def
          player_skel_of_def select_new_host_def exclude_player_def is_empty_def player_unregister_eq_remove1)
    ultimately show ?thesis using sk lr by (intro exI conjI) auto
  next
    case False
    have "h \<noteq> c \<and> Some h \<in> set (k_slots (room_skel_of r))" if "host r = Some h" for h
      using hr[OF that] False that by (auto simp: is_host_def room_skel_of_def)
    moreover have "skel (close_socket c w') =
        s_leave c rid (room_skel_of r) (k_serial (player_skel_of p)) (host r) ?rs id (skel w)"
      using ok b r False
      by (auto simp: on_client_disconnect_def this_room_def Let_def dc_host_reset_def dc_scrub_def
          dc_remove_room_def close_socket_def skel_def s_leave_def fun_eq_iff room_skel_of_def
          player_skel_of_def exclude_player_def is_empty_def player_unregister_eq_remove1
          option.map_ident)
    ultimately show ?thesis using sk lr by (intro exI conjI) (auto simp: room_skel_of_def)
  qed
qed

subsection \<open>Every transport step keeps the invariant\<close>

lemma session_inv_init: "session_inv (skel (init_world lvl))"
  by (simp add: session_inv_def rooms_wf_def ids_fresh_def registry_wf_def sockets_wf_def
      bindings_wf_def skel_def init_world_def)

lemma inv_disconnect:
  assumes inv: "session_inv (skel w)" and live: "sockets w c \<noteq> None"
    and ok: "on_client_disconnect c now w = Inr w'"
  shows "session_inv (skel (close_socket c w'))"
proof (cases "sockets w c")
  case (Some b)
  show ?thesis
  proof (cases b)
    case None
    with Some show ?thesis
      using disconnect_drop[OF _ ok] session_inv_s_drop[OF inv] by (simp add: skel_def)
  next
    case (Some rid)
    with \<open>sockets w c = Some b\<close> have b: "sockets w c = Some (Some rid)" by simp
    then have sb: "s_sockets (skel w) c = Some (Some rid)" by (simp add: skel_def)
    from disconnect_leave[OF inv b ok] obtain k pk hh rs g where
      k: "s_rs (skel w) rid = Some k" "s_pl (skel w) c = Some pk"
        "\<forall>pk. k_serial (g pk) = k_serial pk" "\<forall>h. hh = Some h \<longrightarrow> h \<noteq> c \<and> Some h \<in> set (k_slots k)"
        "leave_registry (skel w) rid ((k_slots k)[k_serial pk := None]) rs"
        "skel (close_socket c w') = s_leave c rid k (k_serial pk) hh rs g (skel w)"
      by blast
    show ?thesis
      unfolding k(6) by (rule session_inv_s_leave[OF inv sb k(1,2) refl]) (use k(3-5) in simp_all)
  qed
qed (use live in simp)

lemma inv_room_request:
  assumes inv: "session_inv (skel w)" and live: "sockets w c \<noteq> None"
    and ok: "on_room_request c d g w = Inr w'"
  shows "session_inv (skel w')"
proof -
  have l: "s_sockets (skel w) c \<noteq> None" using live by (simp add: skel_def)
  obtain w1 rid where rr: "rr_find_or_create w = (w1, rid)" by fastforce
  from room_request_join[OF inv ok rr] obtain k i hh where
    j: "join_target (skel w) rid k (rooms w1) (next_rid w1)" "i < length (k_slots k)" "k_slots k ! i = None"
      "\<forall>h. hh = Some h \<longrightarrow> Some h \<in> set ((k_slots k)[i := Some c])"
      "skel w' = s_join c rid k i hh (rooms w1) (next_rid w1) (skel w)"
    by blast
  show ?thesis unfolding j(5) by (rule session_inv_s_join[OF inv l j(1-4)])
qed

lemma dispatch_disconnect_Inr:
  "dispatch c now Disconnect w = Inr w' \<Longrightarrow> \<exists>w0. on_client_disconnect c now w = Inr w0 \<and> w' = close_socket c w0"
  by (cases "on_client_disconnect c now w") auto

lemma inv_event:
  assumes inv: "session_inv (skel w)" and live: "sockets w c \<noteq> None"
    and d: "dispatch c now e w = Inr w'" and nc: "e \<noteq> Connect"
  shows "session_inv (skel w')"
proof (cases e)
  case Disconnect
  with d obtain w0 where "on_client_disconnect c now w = Inr w0" "w' = close_socket c w0"
    using dispatch_disconnect_Inr by blast
  then show ?thesis using inv_disconnect[OF inv live] by simp
next
  case (RoomRequest x g)
  then show ?thesis using d inv_room_request[OF inv live] by simp
next
  case (PlayerSpawn x)
  then show ?thesis using d inv_player_spawn[OF inv] inv by (cases x) (auto split: if_splits)
qed (use d inv nc skel_dispatch_gameplay[of e c now w w'] in
  \<open>auto simp: inv_player_available inv_player_unavailable inv_map_reset\<close>)

lemma inv_step:
  assumes "session_inv (skel w)" "step w w'"
  shows "session_inv (skel w')"
  using assms(2)
proof (cases rule: step.cases)
  case (connect c)
  then have "s_pl (skel w) c = None" by (auto simp: skel_def)
  with connect show ?thesis using session_inv_s_connect[OF assms(1)] by (simp add: skel_connect)
next
  case (event c e now)
  then show ?thesis using inv_event[OF assms(1)] by blast
qed

lemma reach_inv: "reach lvl w \<Longrightarrow> session_inv (skel w)"
  by (induction rule: reach.induct) (auto intro: inv_step session_inv_init)

end
