(* ===== verification/Safety.thy ===== *)
theory Safety
  imports Refinement
begin

text \<open>
  The coordination invariant read back on the world, for every state the transport can
  produce (\<open>reach\<close>): rosters never exceed the capacity, a host is always on its room's
  roster, the registries hold exactly the occupied rooms and the live connections, a
  bound socket always finds its room and its slot, and no event from a live socket makes
  a handler throw, except a room request without a payload.
\<close>

subsection \<open>Reading the invariant on the world\<close>

lemma reach_room:
  assumes "reach lvl w" "rstore w rid = Some r"
  shows "length (slots r) = room_capacity" "next_spawn_index r < room_capacity"
    "spawn_order (rmap r) = spawn_order (level w)" "\<And>h. host r = Some h \<Longrightarrow> Some h \<in> set (slots r)"
  using inv_room[OF reach_inv[OF assms(1)] assms(2)] by simp_all

lemma reach_sockets:
  assumes "reach lvl w"
  shows "distinct (players w)" "set (players w) = dom (sockets w)"
    "\<And>c. sockets w c \<noteq> None \<Longrightarrow> pstore w c \<noteq> None"
  using reach_inv[OF assms] by (auto simp: session_inv_def sockets_wf_def skel_def)

lemma reach_registry:
  assumes "reach lvl w"
  shows "distinct (rooms w)" "\<And>rid. rid \<in> set (rooms w) \<Longrightarrow> \<exists>r. rstore w rid = Some r \<and> occupied (slots r)"
  using reach_inv[OF assms]
  by (auto simp: session_inv_def registry_wf_def skel_def room_skel_of_def split: option.splits)

lemma occupied_iff_not_empty: "occupied (slots r) \<longleftrightarrow> \<not> is_empty r"
  by (auto simp: occupied_def is_empty_def count_some_zero_iff)

lemma this_room_Some_iff: "this_room w c = Some rid \<longleftrightarrow> sockets w c = Some (Some rid)"
  by (auto simp: this_room_def split: option.splits)

subsection \<open>Rooms and registries\<close>

text \<open>
  C1: in every reachable state, a room object has exactly \<open>room_capacity\<close> slots (so no
  room ever holds more players than the capacity), its spawn cursor is inside the roster,
  and its host, if any, is one of its members; a room without members reports no host.
\<close>

theorem reach_room_wf:
  assumes "reach lvl w" "rstore w rid = Some r"
  shows "length (slots r) = room_capacity \<and> count_some (slots r) \<le> room_capacity
    \<and> next_spawn_index r < room_capacity
    \<and> (\<forall>h. host r = Some h \<longrightarrow> h \<in> set (members r)) \<and> (is_empty r \<longrightarrow> host r = None)"
proof -
  note R = reach_room[OF assms]
  have "h \<in> set (members r)" if "host r = Some h" for h
    using R(4)[OF that] by (simp add: in_members_iff)
  moreover have "host r = None" if "is_empty r"
    using that R(4) by (cases "host r") (auto simp: is_empty_def count_some_zero_iff)
  ultimately show ?thesis using R(1,2) count_some_le_length[of "slots r"] by auto
qed

text \<open>
  C12: in every reachable state, the room registry has no duplicates and holds only room
  objects with at least one member: a room whose last member left is no longer listed.
\<close>

theorem reach_registry_wf:
  assumes "reach lvl w"
  shows "distinct (rooms w) \<and> (\<forall>rid \<in> set (rooms w). \<exists>r. rstore w rid = Some r \<and> \<not> is_empty r)"
  using reach_registry[OF assms] by (auto simp: occupied_iff_not_empty)

text \<open>
  C17: in every reachable state, the handlers' player registry lists every live
  connection exactly once: its length is the number of live connections.
\<close>

theorem reach_player_registry_wf:
  assumes "reach lvl w"
  shows "distinct (players w) \<and> set (players w) = dom (sockets w) \<and> length (players w) = card (dom (sockets w))"
  using reach_sockets[OF assms] by (simp add: distinct_card[symmetric])

text \<open>
  C13: in every reachable state, a socket bound to a room finds that room in the registry
  (so \<open>rooms.indexOf(this.room)\<close> is never \<open>-1\<close>), and the roster slot of its serial
  holds the socket itself.
\<close>

theorem reach_binding_wf:
  assumes "reach lvl w" "this_room w c = Some rid"
  shows "rid \<in> set (rooms w) \<and>
    (\<exists>r p. rstore w rid = Some r \<and> pstore w c = Some p \<and> serial p < length (slots r)
       \<and> slots r ! serial p = Some c) \<and> js_index_of rid (rooms w) \<noteq> -1"
proof -
  obtain r p where "rstore w rid = Some r" "pstore w c = Some p" "rid \<in> set (rooms w)"
    "serial p < length (slots r)" "slots r ! serial p = Some c"
    using reach_inv[OF assms(1)] assms(2) unfolding this_room_Some_iff by (rule inv_bound)
  moreover have "js_index_of rid (rooms w) \<noteq> -1"
    using \<open>rid \<in> set (rooms w)\<close> by (auto elim: js_index_of_in_set)
  ultimately show ?thesis by blast
qed

subsection \<open>Faults\<close>

lemma room_request_Inr: "pstore w c \<noteq> None \<Longrightarrow> \<exists>w'. on_room_request c (Some n) g w = Inr w'"
  by (auto simp: on_room_request_def Let_def split: option.splits prod.splits)

lemma disconnect_Inr:
  assumes "reach lvl w" shows "\<exists>w'. on_client_disconnect c now w = Inr w'"
proof (cases "this_room w c")
  case (Some rid)
  then have "pstore w c \<noteq> None"
    using reach_sockets(3)[OF assms] by (auto simp: this_room_def split: option.splits)
  with Some show ?thesis by (auto simp: on_client_disconnect_def Let_def this_room_def)
qed (auto simp: on_client_disconnect_def this_room_def)

lemma spawn_Inr:
  assumes "reach lvl w" "room_capacity \<le> length (spawn_order (level w))"
  shows "\<exists>w'. on_player_spawn c d now w = Inr w'"
proof -
  have "next_spawn_index r < length (spawn_order (rmap r))" if "rstore w rid = Some r" for rid r
    using reach_room(2,3)[OF assms(1) that] assms(2) by simp
  note nl = this
  show ?thesis by (auto simp: on_player_spawn_def Let_def not_le split: option.splits dest: nl)
qed

text \<open>
  C14: in every reachable state whose level has at least \<open>room_capacity\<close> spawn points,
  every event from a live socket that carries the payload its handler reads is handled
  without an exception (the missing-payload faults are C23 and C22).
\<close>

theorem reach_no_fault:
  assumes "reach lvl w" "room_capacity \<le> length (spawn_order (level w))"
    and "sockets w c \<noteq> None" "e \<noteq> Connect" "payload_present e"
  shows "\<exists>w'. dispatch c now e w = Inr w'"
  using assms(4,5) disconnect_Inr[OF assms(1), of c now] spawn_Inr[OF assms(1,2), of c _ now]
    room_request_Inr[OF reach_sockets(3)[OF assms(1,3)]]
  by (cases "(c, now, e, w)" rule: dispatch.cases) fastforce+

subsection \<open>Matchmaking\<close>

lemma skel_eq_D:
  assumes "skel w' = s"
  shows "sockets w' = s_sockets s" "rooms w' = s_rooms s"
    "\<And>rid k. s_rs s rid = Some k \<Longrightarrow> \<exists>r. rstore w' rid = Some r \<and> room_skel_of r = k"
  using assms by (auto simp: skel_def)

lemma rr_first_fit:
  assumes "reach lvl w" and rr: "rr_find_or_create w = (w1, rid)"
  shows "(\<exists>k < length (rooms w). rooms w ! k = rid \<and> (\<exists>r. rstore w rid = Some r \<and> \<not> is_full r)
           \<and> (\<forall>j < k. \<exists>r. rstore w (rooms w ! j) = Some r \<and> is_full r) \<and> rooms w1 = rooms w)
       \<or> ((\<forall>rid0 \<in> set (rooms w). \<exists>r. rstore w rid0 = Some r \<and> is_full r)
           \<and> rid = next_rid w \<and> rid \<notin> set (rooms w) \<and> rooms w1 = rooms w @ [rid])"
proof -
  note inv = reach_inv[OF assms(1)]
  have full: "\<exists>r. rstore w rid0 = Some r \<and> is_full r" if "rid0 \<in> set (rooms w)" "\<not> room_open (rstore w) rid0" for rid0
    using that reach_registry(2)[OF assms(1) that(1)] by (auto simp: room_open_def)
  show ?thesis
  proof (cases "find_room (rstore w) (rooms w)")
    case None
    have "rid \<notin> set (rooms w)" if "rid = next_rid w"
      using that reach_registry(2)[OF assms(1), of rid] inv
      by (auto simp: session_inv_def ids_fresh_def skel_def)
    moreover have "\<forall>rid0 \<in> set (rooms w). \<not> room_open (rstore w) rid0"
      using None by (simp add: find_room_None_iff)
    ultimately show ?thesis using None rr full by (auto simp: rr_find_or_create_def Let_def)
  next
    case (Some rid0)
    then obtain k where k: "k < length (rooms w)" "rooms w ! k = rid0" "room_open (rstore w) rid0"
        "\<forall>j < k. \<not> room_open (rstore w) (rooms w ! j)"
      by (blast dest: find_room_SomeD)
    have "\<forall>j < k. \<exists>r. rstore w (rooms w ! j) = Some r \<and> is_full r"
      using k(1,4) full by (auto intro: nth_mem)
    moreover have "\<exists>r. rstore w rid0 = Some r \<and> \<not> is_full r"
      using k(3) by (auto simp: room_open_def split: option.splits)
    ultimately show ?thesis using Some rr k(1,2) by (auto simp: rr_find_or_create_def)
  qed
qed

text \<open>
  C2: first-fit matchmaking. A room request with a payload puts the requester into the
  registered room at the first position \<open>k\<close> whose room is not full, every room before
  position \<open>k\<close> being full, and leaves the registry as it is; only when every registered
  room is full does it open a new room, with a fresh id, appended to the registry.
  Either way the socket ends up bound to that room and on its roster.
\<close>

theorem reach_first_fit:
  assumes "reach lvl w" "on_room_request c (Some n) g w = Inr w'"
  shows "\<exists>rid r'. this_room w' c = Some rid \<and> rstore w' rid = Some r' \<and> c \<in> set (members r')
    \<and> ((\<exists>k < length (rooms w). rooms w ! k = rid \<and> (\<exists>r. rstore w rid = Some r \<and> \<not> is_full r)
           \<and> (\<forall>j < k. \<exists>r. rstore w (rooms w ! j) = Some r \<and> is_full r) \<and> rooms w' = rooms w)
       \<or> ((\<forall>rid0 \<in> set (rooms w). \<exists>r. rstore w rid0 = Some r \<and> is_full r)
           \<and> rid = next_rid w \<and> rid \<notin> set (rooms w) \<and> rooms w' = rooms w @ [rid]))"
proof -
  note inv = reach_inv[OF assms(1)]
  obtain w1 rid where rr: "rr_find_or_create w = (w1, rid)" by fastforce
  from room_request_join[OF inv assms(2) rr] obtain k i hh where
    j: "join_target (skel w) rid k (rooms w1) (next_rid w1)" "i < length (k_slots k)"
      "skel w' = s_join c rid k i hh (rooms w1) (next_rid w1) (skel w)"
    by blast
  note D = skel_eq_D[OF j(3)]
  obtain r' where r': "rstore w' rid = Some r'"
      "room_skel_of r' = k\<lparr>k_slots := (k_slots k)[i := Some c], k_host := hh\<rparr>"
    using D(3)[of rid] by (auto simp: s_join_def)
  have "slots r' = (k_slots k)[i := Some c]"
    using arg_cong[OF r'(2), of k_slots] by (simp add: room_skel_of_def)
  then have "c \<in> set (members r')"
    using j(2) by (simp add: in_members_iff set_update_memI)
  moreover have "this_room w' c = Some rid" "rooms w' = rooms w1"
    using D(1,2) by (simp_all add: s_join_def this_room_def)
  moreover have "(\<exists>k < length (rooms w). rooms w ! k = rid \<and> (\<exists>r. rstore w rid = Some r \<and> \<not> is_full r)
           \<and> (\<forall>j < k. \<exists>r. rstore w (rooms w ! j) = Some r \<and> is_full r) \<and> rooms w1 = rooms w)
       \<or> ((\<forall>rid0 \<in> set (rooms w). \<exists>r. rstore w rid0 = Some r \<and> is_full r)
           \<and> rid = next_rid w \<and> rid \<notin> set (rooms w) \<and> rooms w1 = rooms w @ [rid])"
    by (rule rr_first_fit[OF assms(1) rr])
  ultimately show ?thesis using r'(1) by auto
qed

subsection \<open>Disconnection\<close>

lemma disconnect_bound:
  assumes b: "sockets w c = Some (Some rid)" and r: "rstore w rid = Some r" and p: "pstore w c = Some p"
    and ok: "on_client_disconnect c now w = Inr w'"
  defines "ps \<equiv> (pstore w)(c \<mapsto> (if is_host c r then p\<lparr>is_active := False\<rparr> else p))"
  defines "r2 \<equiv> (if is_host c r then select_new_host ps (r\<lparr>rc_timestamp := now\<rparr>) else r)"
  defines "r3 \<equiv> r2\<lparr>rmap := scrub_bombs (int (serial p) + 1) (rmap r2)\<rparr>"
  shows "rstore w' rid = Some (exclude_player (serial p) r3)"
    and "\<forall>rid'. rid' \<noteq> rid \<longrightarrow> rstore w' rid' = rstore w rid'"
    and "pstore w' = ps" and "players w' = remove1 c (players w)"
    and "rooms w' = (if is_empty (exclude_player (serial p) r3)
                     then swap_remove (js_index_of rid (rooms w)) (rooms w) else rooms w)"
    and "\<exists>pre. outbox w' = outbox w @ pre @ [emit_broadcast r3 ''player exit room'' (P_player (the (ps c))) c]"
proof -
  define w1 where "w1 = w\<lparr>players := player_unregister c (players w)\<rparr>"
  define w2 where "w2 = dc_host_reset c rid now w1"
  have w2c: "rstore w2 rid = Some r2 \<and> pstore w2 = ps \<and> (\<forall>rid'. rid' \<noteq> rid \<longrightarrow> rstore w2 rid' = rstore w rid')
    \<and> rooms w2 = rooms w \<and> players w2 = remove1 c (players w) \<and> (\<exists>pre. outbox w2 = outbox w @ pre)"
  proof (cases "is_host c r")
    case True
    then show ?thesis
      using r p
      by (auto simp: w2_def w1_def dc_host_reset_def r2_def ps_def fun_eq_iff select_host_w_def Let_def
          player_unregister_eq_remove1 upd_player_def split: option.splits)
  next
    case False
    then show ?thesis
      using r p
      by (auto simp: w2_def w1_def dc_host_reset_def r2_def ps_def fun_eq_iff player_unregister_eq_remove1)
  qed
  then have w2: "rstore w2 rid = Some r2" "pstore w2 = ps" "\<forall>rid'. rid' \<noteq> rid \<longrightarrow> rstore w2 rid' = rstore w rid'"
    "rooms w2 = rooms w" "players w2 = remove1 c (players w)" "\<exists>pre. outbox w2 = outbox w @ pre"
    by simp_all
  define w4 where "w4 = emit (emit_broadcast r3 ''player exit room'' (P_player (the (ps c))) c)
    (dc_scrub (serial p) rid w2)"
  have pc: "ps c \<noteq> None" by (simp add: ps_def)
  have w1: "sockets w1 c = Some (Some rid)" "pstore w1 c = Some p" "rooms w1 = rooms w"
    by (simp_all add: w1_def b p)
  have w': "w' = dc_remove_room rid (js_index_of rid (rooms w)) (upd_room rid (exclude_player (serial p)) w4)"
    using ok w1 w2(1,2) pc
    by (auto simp: on_client_disconnect_def this_room_def Let_def w4_def dc_scrub_def r3_def
        simp flip: w1_def w2_def)
  show "rstore w' rid = Some (exclude_player (serial p) r3)"
    "\<forall>rid'. rid' \<noteq> rid \<longrightarrow> rstore w' rid' = rstore w rid'" "pstore w' = ps"
    "players w' = remove1 c (players w)"
    "rooms w' = (if is_empty (exclude_player (serial p) r3)
                 then swap_remove (js_index_of rid (rooms w)) (rooms w) else rooms w)"
    using w2 by (simp_all add: w' w4_def dc_remove_room_def dc_scrub_def r3_def)
  show "\<exists>pre. outbox w' = outbox w @ pre @ [emit_broadcast r3 ''player exit room'' (P_player (the (ps c))) c]"
    using w2(6) by (auto simp: w' w4_def dc_remove_room_def dc_scrub_def split: option.splits)
qed

lemma dispatch_disconnect_close:
  "dispatch c now Disconnect w = Inr w' \<Longrightarrow> \<exists>w0. on_client_disconnect c now w = Inr w0 \<and> w' = close_socket c w0"
  by (cases "on_client_disconnect c now w") auto

lemma close_socket_simps [simp]:
  "rstore (close_socket c w) = rstore w" "pstore (close_socket c w) = pstore w"
  "rooms (close_socket c w) = rooms w" "outbox (close_socket c w) = outbox w"
  "players (close_socket c w) = players w" "sockets (close_socket c w) c = None"
  by (simp_all add: close_socket_def)

text \<open>
  C4: host migration on disconnect. When the host of a room disconnects, the room's
  \<open>rc_timestamp\<close> becomes the disconnect time, the leaving socket is no longer host, a
  new host (if any) is an active member still on the roster, a new host exists whenever
  some other member is active, and the remaining members receive \<open>"player exit room"\<close>.
\<close>

theorem disconnect_host_handover:
  assumes "reach lvl w" "this_room w c = Some rid" "rstore w rid = Some r" "host r = Some c"
    and "dispatch c now Disconnect w = Inr w'"
  shows "\<exists>r'. rstore w' rid = Some r' \<and> rc_timestamp r' = now \<and> host r' \<noteq> Some c
    \<and> (\<forall>h. host r' = Some h \<longrightarrow> h \<in> set (members r') \<and> (\<exists>ph. pstore w' h = Some ph \<and> is_active ph))
    \<and> ((\<exists>h \<in> set (members r). h \<noteq> c \<and> (\<exists>ph. pstore w h = Some ph \<and> is_active ph)) \<longrightarrow> host r' \<noteq> None)
    \<and> sockets w' c = None
    \<and> (\<exists>m \<in> set (outbox w'). event m = ''player exit room'' \<and> set (dest m) = set (members r) - {c})"
proof -
  obtain w0 where w0: "on_client_disconnect c now w = Inr w0" "w' = close_socket c w0"
    using dispatch_disconnect_close[OF assms(5)] by blast
  obtain r0 p where bw: "rstore w rid = Some r0" "pstore w c = Some p" "slots r0 ! serial p = Some c"
    using reach_binding_wf[OF assms(1,2)] by blast
  have r0: "r0 = r" using bw(1) assms(3) by simp
  have b: "sockets w c = Some (Some rid)" using assms(2) by (simp add: this_room_Some_iff)
  have hc: "is_host c r" using assms(4) by (simp add: is_host_def)
  define ps where "ps = (pstore w)(c \<mapsto> p\<lparr>is_active := False\<rparr>)"
  define hc' where "hc' = host_candidate ps (r\<lparr>rc_timestamp := now\<rparr>)"
  note D = disconnect_bound[OF b assms(3) bw(2) w0(1)]
  let ?r' = "exclude_player (serial p) ((select_new_host ps (r\<lparr>rc_timestamp := now\<rparr>))
      \<lparr>rmap := scrub_bombs (int (serial p) + 1) (rmap (select_new_host ps (r\<lparr>rc_timestamp := now\<rparr>)))\<rparr>)"
  have r': "rstore w' rid = Some ?r'" "pstore w' = ps"
    using D(1,3) hc w0(2) by (simp_all add: ps_def)
  have sl: "slots ?r' = (slots r)[serial p := None]" "host ?r' = hc'"
    by (simp_all add: exclude_player_def select_new_host_def hc'_def)
  have mem: "members (r\<lparr>rc_timestamp := now\<rparr>) = members r" by (simp add: members_def)
  have new: "h \<in> set (members ?r') \<and> (\<exists>ph. ps h = Some ph \<and> is_active ph) \<and> h \<noteq> c" if "hc' = Some h" for h
  proof -
    from host_candidate_SomeD[OF that[unfolded hc'_def]] assms(4)
    have h: "Some h \<in> set (slots r)" "h \<noteq> c" "\<exists>ph. ps h = Some ph \<and> is_active ph"
      by (auto simp: in_members_iff mem)
    then have "Some h \<in> set ((slots r)[serial p := None])"
      using bw(3) r0 by (auto intro: set_update_keep)
    with h show ?thesis using sl by (simp add: in_members_iff)
  qed
  have some: "hc' \<noteq> None" if "h \<in> set (members r)" "h \<noteq> c" "pstore w h = Some ph" "is_active ph" for h ph
    using host_candidate_None[of ps "r\<lparr>rc_timestamp := now\<rparr>" h ph] that assms(4)
    by (auto simp: hc'_def mem ps_def)
  obtain pre where ob: "outbox w0 = outbox w @ pre @ [emit_broadcast ((select_new_host ps (r\<lparr>rc_timestamp := now\<rparr>))
      \<lparr>rmap := scrub_bombs (int (serial p) + 1) (rmap (select_new_host ps (r\<lparr>rc_timestamp := now\<rparr>)))\<rparr>)
      ''player exit room'' (P_player (the (ps c))) c]"
    using D(6) hc by (auto simp: ps_def)
  have "set (dest (emit_broadcast ((select_new_host ps (r\<lparr>rc_timestamp := now\<rparr>))
      \<lparr>rmap := scrub_bombs (int (serial p) + 1) (rmap (select_new_host ps (r\<lparr>rc_timestamp := now\<rparr>)))\<rparr>)
      ''player exit room'' (P_player (the (ps c))) c)) = set (members r) - {c}"
    by (auto simp: emit_broadcast_def select_new_host_def members_def)
  then show ?thesis
    using r' sl new some ob w0(2)
    by (intro exI[of _ ?r']) (auto simp: exclude_player_def select_new_host_def emit_broadcast_def)
qed

text \<open>
  C3: room removal is exact. After a member of a room disconnects, the registry is still
  duplicate-free; it loses exactly that room if the room is now empty and is otherwise
  unchanged as a set; and no other room object is touched (the swap-remove idiom does not
  corrupt another room).
\<close>

theorem disconnect_room_removal_exact:
  assumes "reach lvl w" "this_room w c = Some rid" "dispatch c now Disconnect w = Inr w'"
  shows "\<exists>r'. rstore w' rid = Some r' \<and> distinct (rooms w')
    \<and> set (rooms w') = (if is_empty r' then set (rooms w) - {rid} else set (rooms w))
    \<and> (\<forall>rid'. rid' \<noteq> rid \<longrightarrow> rstore w' rid' = rstore w rid')"
proof -
  obtain w0 where w0: "on_client_disconnect c now w = Inr w0" "w' = close_socket c w0"
    using dispatch_disconnect_close[OF assms(3)] by blast
  obtain r p where bw: "rstore w rid = Some r" "pstore w c = Some p" "rid \<in> set (rooms w)"
    using reach_binding_wf[OF assms(1,2)] by blast
  have b: "sockets w c = Some (Some rid)" using assms(2) by (simp add: this_room_Some_iff)
  note D = disconnect_bound[OF b bw(1,2) w0(1)]
  note SR = swap_remove_index_distinct[OF reach_registry(1)[OF assms(1)] bw(3)]
  show ?thesis
    using D(1,2,5) SR reach_registry(1)[OF assms(1)] w0(2) by auto
qed

text \<open>
  C11: a disconnecting player's bombs are scrubbed. The first \<open>"bombs"\<close> layer of the
  player's room afterwards is the reference \<open>scrub_spec\<close>: every element of the array
  (index in \<open>[0, length)\<close>) that held \<open>serial + 1\<close> is 0, every other cell is kept; the
  other layers are unchanged.
\<close>

theorem disconnect_scrubs_bombs:
  assumes "this_room w c = Some rid" "rstore w rid = Some r" "pstore w c = Some p"
    and "first_layer ''bombs'' (rmap r) = Some k"
  shows "\<exists>w' r'. on_client_disconnect c now w = Inr w' \<and> rstore w' rid = Some r'
    \<and> length (layers (rmap r')) = length (layers (rmap r))
    \<and> ldata (layers (rmap r') ! k) = scrub_spec (int (serial p) + 1) (ldata (layers (rmap r) ! k))
    \<and> (\<forall>j. j \<noteq> k \<longrightarrow> layers (rmap r') ! j = layers (rmap r) ! j)"
proof -
  have b: "sockets w c = Some (Some rid)" using assms(1) by (simp add: this_room_Some_iff)
  obtain w' where ok: "on_client_disconnect c now w = Inr w'"
    using assms(1,3) by (auto simp: on_client_disconnect_def Let_def this_room_def)
  note D = disconnect_bound[OF b assms(2,3) ok]
  have k: "k < length (layers (rmap r))" using first_layer_SomeD[OF assms(4)] by simp
  have m: "rmap (if is_host c r then select_new_host ps (r\<lparr>rc_timestamp := now\<rparr>) else r) = rmap r" for ps
    by (simp add: select_new_host_def)
  show ?thesis
    using D(1) ok k assms(4)
    by (auto simp: m exclude_player_def scrub_bombs_def upd_layer_def nth_list_update
        scrub_cells_eq_spec)
qed

subsection \<open>Spawning\<close>

lemma spawn_step:
  fixes d :: spawn_data
  assumes "pstore w c = Some p" "this_room w c = Some rid" "rstore w rid = Some r"
    and "next_spawn_index r < length (spawn_order (rmap r))" "next_spawn_index r < room_capacity"
  defines "sp \<equiv> spawn_order (rmap r) ! next_spawn_index r"
  defines "x \<equiv> (of_int (sp_col sp) + 1 / 2) * sd_x d"
  defines "y \<equiv> (of_int (sp_row sp) + 1 / 2) * sd_x d"
  shows "on_player_spawn c d now w = Inr (emit (emit_all r ''player spawn'' (P_spawn (d\<lparr>sd_x := x, sd_y := y\<rparr>) now))
      (upd_player c (\<lambda>p. p\<lparr>is_dead := False, is_invincible := True, i_timestamp := now, nickname := sd_nickname d\<rparr>)
        (upd_room rid (\<lambda>r. r\<lparr>next_spawn_index := Suc (next_spawn_index r) mod room_capacity\<rparr>)
          (upd_player c (\<lambda>p. p\<lparr>px := x, py := y\<rparr>) w))))"
proof -
  have "(if next_spawn_index r = 7 then 0 else Suc (next_spawn_index r)) = Suc (next_spawn_index r) mod room_capacity"
    using assms(5) by (simp add: room_capacity_def)
  then show ?thesis
    using assms(1-4) by (simp add: on_player_spawn_def Let_def sp_def x_def y_def upd_room_def)
qed

text \<open>
  C16: a spawn in a room whose cursor is inside the spawn order places the player at the
  centre of the cursor's spawn tile (\<open>(col + 1/2) * tile\<close>), revives it invincible with
  the server time and its nickname, advances the cursor by one modulo the capacity, and
  announces the spawn to the whole room.
\<close>

theorem spawn_behaviour:
  assumes "pstore w c = Some p" "this_room w c = Some rid" "rstore w rid = Some r"
    and "next_spawn_index r < length (spawn_order (rmap r))" "next_spawn_index r < room_capacity"
  shows "\<exists>w'. on_player_spawn c d now w = Inr w' \<and>
    (let sp = spawn_order (rmap r) ! next_spawn_index r;
         x = (of_int (sp_col sp) + 1 / 2) * sd_x d; y = (of_int (sp_row sp) + 1 / 2) * sd_x d
     in pstore w' c = Some (p\<lparr>px := x, py := y, is_dead := False, is_invincible := True,
                             i_timestamp := now, nickname := sd_nickname d\<rparr>)
      \<and> rstore w' rid = Some (r\<lparr>next_spawn_index := Suc (next_spawn_index r) mod room_capacity\<rparr>)
      \<and> outbox w' = outbox w @ [emit_all r ''player spawn'' (P_spawn (d\<lparr>sd_x := x, sd_y := y\<rparr>) now)])"
  using assms by (simp add: spawn_step Let_def)

text \<open>
  C15: the spawn cursor cycles. In a room whose spawn order has at least \<open>room_capacity\<close>
  points, \<open>n\<close> consecutive spawns never throw and move the cursor from \<open>k\<close> to
  \<open>(k + n) mod room_capacity\<close>: nine spawns from a fresh room use all eight points and
  bring the ninth back to point 0.
\<close>

theorem spawn_cursor_cycles:
  assumes "pstore w c = Some p" "this_room w c = Some rid" "rstore w rid = Some r"
    and "room_capacity \<le> length (spawn_order (rmap r))" "next_spawn_index r < room_capacity"
  shows "\<exists>w' r'. run w (replicate n (c, now, PlayerSpawn (Some d))) = Inr w' \<and> rstore w' rid = Some r'
    \<and> next_spawn_index r' = (next_spawn_index r + n) mod room_capacity
    \<and> rmap r' = rmap r \<and> this_room w' c = Some rid \<and> pstore w' c \<noteq> None"
  using assms
proof (induction n arbitrary: w p r)
  case 0
  then show ?case by simp
next
  case (Suc n)
  let ?r1 = "r\<lparr>next_spawn_index := Suc (next_spawn_index r) mod room_capacity\<rparr>"
  have lt: "next_spawn_index r < length (spawn_order (rmap r))" using Suc.prems(4,5) by simp
  obtain w1 where w1: "on_player_spawn c d now w = Inr w1" "rstore w1 rid = Some ?r1"
      "this_room w1 c = Some rid" "pstore w1 c \<noteq> None"
    using spawn_step[OF Suc.prems(1-3) lt Suc.prems(5), of d now] Suc.prems(1-3) by simp
  then obtain p1 where p1: "pstore w1 c = Some p1" by blast
  have "next_spawn_index ?r1 < room_capacity" by (simp add: room_capacity_def)
  from Suc.IH[OF p1 w1(3) w1(2) _ this] Suc.prems(4) obtain w' r' where
    "run w1 (replicate n (c, now, PlayerSpawn (Some d))) = Inr w'" "rstore w' rid = Some r'"
    "next_spawn_index r' = (next_spawn_index ?r1 + n) mod room_capacity" "rmap r' = rmap r"
    "this_room w' c = Some rid" "pstore w' c \<noteq> None"
    by auto
  moreover have "(Suc (next_spawn_index r) mod room_capacity + n) mod room_capacity =
      (next_spawn_index r + Suc n) mod room_capacity"
    by (simp add: mod_add_left_eq)
  ultimately show ?case using w1(1) by auto
qed

lemma spawn_run_below:
  assumes "pstore w c = Some p" "this_room w c = Some rid" "rstore w rid = Some r"
    and "next_spawn_index r + n \<le> length (spawn_order (rmap r))" "next_spawn_index r + n < room_capacity"
  shows "\<exists>w' r'. run w (replicate n (c, now, PlayerSpawn (Some d))) = Inr w' \<and> rstore w' rid = Some r'
    \<and> next_spawn_index r' = next_spawn_index r + n \<and> rmap r' = rmap r \<and> this_room w' c = Some rid
    \<and> pstore w' c \<noteq> None"
  using assms
proof (induction n arbitrary: w p r)
  case 0
  then show ?case by simp
next
  case (Suc n)
  let ?r1 = "r\<lparr>next_spawn_index := Suc (next_spawn_index r) mod room_capacity\<rparr>"
  have lt: "next_spawn_index r < length (spawn_order (rmap r))" "next_spawn_index r < room_capacity"
    using Suc.prems(4,5) by simp_all
  have r1: "next_spawn_index ?r1 = Suc (next_spawn_index r)" using Suc.prems(5) by simp
  obtain w1 where w1: "on_player_spawn c d now w = Inr w1" "rstore w1 rid = Some ?r1"
      "this_room w1 c = Some rid" "pstore w1 c \<noteq> None"
    using spawn_step[OF Suc.prems(1-3) lt, of d now] Suc.prems(1-3) by simp
  then obtain p1 where p1: "pstore w1 c = Some p1" by blast
  from Suc.IH[OF p1 w1(3) w1(2)] Suc.prems(4,5) r1 obtain w' r' where
    "run w1 (replicate n (c, now, PlayerSpawn (Some d))) = Inr w'" "rstore w' rid = Some r'"
    "next_spawn_index r' = next_spawn_index ?r1 + n" "rmap r' = rmap r"
    "this_room w' c = Some rid" "pstore w' c \<noteq> None"
    by auto
  then show ?case using w1(1) r1 by auto
qed

lemma spawn_fault:
  assumes "pstore w c = Some p" "this_room w c = Some rid" "rstore w rid = Some r"
    and "length (spawn_order (rmap r)) \<le> next_spawn_index r"
  shows "on_player_spawn c d now w = Inl (TypeError ''spawn_order[next_spawn_index] is undefined'')"
  using assms by (simp add: on_player_spawn_def Let_def)

subsection \<open>Faults\<close>

text \<open>
  C21: the spawn cursor wraps at the literal 7, not at the length of the spawn order. In
  a room whose spawn order has \<open>L\<close> points, \<open>0 < L < room_capacity\<close>, and whose cursor
  is 0, \<open>L\<close> spawns succeed and the next one throws, because the cursor has reached
  \<open>L\<close> instead of wrapping to 0.
\<close>

theorem spawn_wraps_at_seven:
  assumes "pstore w c = Some p" "this_room w c = Some rid" "rstore w rid = Some r"
    and "next_spawn_index r = 0" "0 < length (spawn_order (rmap r))"
    and "length (spawn_order (rmap r)) < room_capacity"
  shows "\<exists>w'. run w (replicate (length (spawn_order (rmap r))) (c, now, PlayerSpawn (Some d))) = Inr w'
    \<and> dispatch c now (PlayerSpawn (Some d)) w' = Inl (TypeError ''spawn_order[next_spawn_index] is undefined'')"
proof -
  let ?L = "length (spawn_order (rmap r))"
  obtain w' r' where w': "run w (replicate ?L (c, now, PlayerSpawn (Some d))) = Inr w'"
      "rstore w' rid = Some r'" "next_spawn_index r' = ?L" "rmap r' = rmap r"
      "this_room w' c = Some rid" "pstore w' c \<noteq> None"
    using spawn_run_below[OF assms(1-3), of ?L now d] assms(4,6) by auto
  then obtain p' where "pstore w' c = Some p'" by blast
  with w' show ?thesis using spawn_fault[of w' c p' rid r' d now] by auto
qed

text \<open>
  C23: an event sent without its payload throws once the handler's guards pass, although
  the specification requires a malformed event to be a no-op: spawn, move (of a live
  player), death, powerup collection, lost invincibility, bomb planting and explosion,
  powerup disappearance (in a map with a \<open>"powerups"\<close> layer), and web login.
\<close>

theorem missing_payload_faults:
  assumes "pstore w c = Some p" "\<not> is_dead p" "this_room w c = Some rid" "rstore w rid = Some r"
    and "first_layer ''powerups'' (rmap r) \<noteq> None"
  shows "dispatch c now (PlayerSpawn None) w = Inl (TypeError ''data is undefined'')
    \<and> dispatch c now (PlayerMove None) w = Inl (TypeError ''player_data is undefined'')
    \<and> dispatch c now (PlayerDeath None) w = Inl (TypeError ''death_data is undefined'')
    \<and> dispatch c now (CollectPowerup None) w = Inl (TypeError ''powerup_data is undefined'')
    \<and> dispatch c now (LostInvincibility None) w = Inl (TypeError ''player_data is undefined'')
    \<and> dispatch c now (PlantBomb None) w = Inl (TypeError ''bomb_data is undefined'')
    \<and> dispatch c now (BombExplode None) w = Inl (TypeError ''bomb_data is undefined'')
    \<and> dispatch c now (PowerupDisappear None) w = Inl (TypeError ''powerup_data is undefined'')
    \<and> dispatch c now (WebLogin None) w = Inl (TypeError ''user_info is undefined'')"
  using assms by (simp add: room_bound_def player_room_bound_def)

text \<open>
  C22: a \<open>"room request"\<close> without a payload object throws (\<open>client_data.name\<close> on
  \<open>undefined\<close>), although the specification requires malformed events to be no-ops.
\<close>

theorem room_request_without_payload_faults:
  assumes "pstore w c \<noteq> None"
  shows "on_room_request c None g w = Inl (TypeError ''client_data is undefined'')"
  using assms by (auto simp: on_room_request_def Let_def split: prod.splits)

subsection \<open>The status endpoint\<close>

lemma srv_with_room:
  "(\<And>rid r. srv_rooms (f rid r) = srv_rooms w \<and> srv_players (f rid r) = srv_players w) \<Longrightarrow>
   srv_rooms (with_room w c f) = srv_rooms w \<and> srv_players (with_room w c f) = srv_players w"
  by (simp add: with_room_def split: option.splits)

lemma srv_with_player_room:
  "(\<And>p rid r. srv_rooms (f p rid r) = srv_rooms w \<and> srv_players (f p rid r) = srv_players w) \<Longrightarrow>
   srv_rooms (with_player_room w c f) = srv_rooms w \<and> srv_players (with_player_room w c f) = srv_players w"
  by (simp add: with_player_room_def srv_with_room split: option.splits)

lemma srv_dispatch:
  assumes "dispatch c now e w = Inr w'"
  shows "srv_rooms w' = srv_rooms w \<and> srv_players w' = srv_players w"
  using assms
  by (induction c now e w rule: dispatch.induct)
     (auto simp: on_client_disconnect_def Let_def dc_host_reset_def dc_scrub_def dc_remove_room_def
        close_socket_def on_room_request_def rr_find_or_create_def on_player_spawn_def
        on_client_connect_def handler_defs srv_with_room srv_with_player_room on_player_available_def
        on_player_unavailable_def on_web_login_def
        split: option.splits if_splits prod.splits sum.splits)

lemma reach_srv: "reach lvl w \<Longrightarrow> srv_rooms w = [] \<and> srv_players w = []"
proof (induction rule: reach.induct)
  case init
  then show ?case by (simp add: init_world_def)
next
  case (step w w')
  from step.hyps(2) show ?case
  proof (cases rule: step.cases)
    case (connect c)
    then show ?thesis using step.IH by (simp add: on_client_connect_def Let_def)
  next
    case (event c e now)
    then show ?thesis using step.IH srv_dispatch by metis
  qed
qed

text \<open>
  C24: \<open>/api/status\<close> always reports no rooms and no players. The handlers register
  rooms and players in the arrays of \<open>SocketEventHandler.js\<close>, which are not the arrays
  the endpoint reads (the module is required before \<open>global.rooms\<close> and
  \<open>global.players\<close> are set), and no handler writes the endpoint's arrays.
\<close>

theorem reach_status_zero:
  assumes "reach lvl w"
  shows "status w = (0, 0)"
  using reach_srv[OF assms] by (simp add: status_def)

end
