(* ===== verification/Spec2Isabelle.thy ===== *)
theory Spec2Isabelle
  imports Safety
begin

text \<open>
  \<^bold>\<open>Verification development of the Bomberworld game server\<close>
  (\<open>src/SocketEventHandler.js\<close>, \<open>src/index.js\<close>).

  \<^bold>\<open>The program.\<close> \<open>index.js\<close> accepts socket.io connections and binds each event
  name to a handler of \<open>SocketEventHandler.js\<close> with \<open>this\<close> bound to the socket. The
  handlers own two module arrays, \<open>rooms\<close> and \<open>players\<close>; each socket carries
  \<open>this.player\<close> (a \<open>Player\<close>) and, once matched, \<open>this.room\<close> (a \<open>Room\<close>, with a
  roster indexed by serial, a host pointer, a map of named layers and a spawn cursor).
  \<open>Room.js\<close> and \<open>Player.js\<close> are not among the sources and are modelled from the
  specification. \<open>/api/status\<close> reads the arrays of \<open>index.js\<close>.

  \<^bold>\<open>Theories and correspondence.\<close>
  \<^item> \<open>Prelude\<close>: JavaScript truthiness of a cell, \<open>findIndex\<close>/last-index scans
    (\<open>find_idx\<close>, \<open>last_idx\<close>), \<open>Math.floor\<close> name suffixes, slot counting.
  \<^item> \<open>MapState\<close>: a JavaScript array as a finite map from integer keys with a length
    (\<open>js_array\<close>: reads of absent keys are \<open>undefined\<close>, writes past the end extend
    the length, negative keys are properties); tile maps, the layer scans and loops of
    the handlers (\<open>first_layer\<close>, \<open>last_layer\<close>, \<open>scrub_cells\<close>, \<open>clear_cells\<close>,
    \<open>set_first_layer\<close>, \<open>set_all_layers\<close>) and the reference \<open>scrub_spec\<close>.
  \<^item> \<open>Player\<close>, \<open>Room\<close> (from the specification): records and \<open>new_player\<close>,
    \<open>new_room\<close>, \<open>insert_player\<close> (first free slot), \<open>exclude_player\<close>,
    \<open>select_new_host\<close> (first active member in slot order that is not the outgoing
    host), \<open>reset_map\<close>, with \<open>room_capacity = 8\<close> slots.
  \<^item> \<open>Registry\<close>: the source idioms on the arrays: \<open>player_unregister\<close>
    (\<open>findIndex\<close> + \<open>splice\<close>, lines 25--29), \<open>js_index_of\<close>, \<open>swap_remove\<close>
    (lines 61--66, including index \<open>-1\<close>), \<open>find_room\<close> (the scan of lines 77--86).
  \<^item> \<open>World\<close>: the state: the handler registries \<open>players\<close>/\<open>rooms\<close> (ids), the
    object heaps \<open>pstore\<close>/\<open>rstore\<close> (objects are shared by reference and never
    freed), the socket bindings, the room id generator, the level, \<open>index.js\<close>'s own
    arrays \<open>srv_rooms\<close>/\<open>srv_players\<close>, and the outbox of emitted messages with their
    recipients.
  \<^item> \<open>Handlers\<close>: one definition per handler, in source order, each guard and early
    return a branch; handlers that can throw return \<open>fault + world\<close>.
  \<^item> \<open>Server\<close>: the \<open>event\<close> datatype (payloads optional: a missing payload throws where
    the handler first reads it), \<open>dispatch\<close>, \<open>run\<close>, \<open>status\<close>, and the transport
    contract as the inductive \<open>step\<close>/\<open>reach\<close> (fresh connection ids, events only from
    live sockets, one handler at a time); \<open>reach_wb\<close> adds the intended client protocol.
  \<^item> \<open>HandlerProps\<close>: functional behaviour of the gameplay handlers (C5--C10, C19, C20).
  \<^item> \<open>Session\<close>: the abstraction \<open>skel\<close> of a world to its session structure
    (registries, bindings, rosters, hosts, cursors, serials, focus flags) and the frame
    theorem for gameplay events (C18).
  \<^item> \<open>Invariants\<close>: the coordination invariant \<open>session_inv\<close> on the session
    structure and abstract operations (join, leave, drop, connect, host selection,
    cursor and spawn-order updates, focus changes) that preserve it.
  \<^item> \<open>Refinement\<close>: each structural handler refines an abstract operation
    (\<open>skel (handler w) = op (skel w)\<close>, e.g. \<open>room_request_join\<close>,
    \<open>disconnect_leave\<close>), hence \<open>reach_inv\<close>: every reachable world satisfies the
    invariant, by rule induction over \<open>reach\<close>.
  \<^item> \<open>Safety\<close>: the invariant read back on worlds (C1, C12--C14, C17), first-fit
    matchmaking (C2), disconnect teardown (C3, C4, C11), spawning (C15, C16, C21),
    faults on missing payloads (C22, C23) and the status endpoint (C24).
  \<^item> this theory: a concrete level and event runs, evaluated by the simplifier on the
    code equations (\<open>code_simp\<close>), to which every theorem with hypotheses is applied;
    and C25, a reachable run that leaves a closed socket on a roster.

  \<^bold>\<open>Bounds.\<close> No loop of the program can run forever: every loop is over a finite
  list (layers, cells below the array length, reported coordinates, rooms), so every
  definition is total (\<open>fun\<close>/\<open>primrec\<close>/\<open>fold\<close>) and needs no fuel. Runs are finite
  event lists; \<open>reach\<close> quantifies over all of them. The capacity 8 is the spec's
  reference map; the results that involve spawning assume a level with at least 8
  spawn points (C14, C15) or exhibit what happens with fewer (C21).

  \<^bold>\<open>Not modelled.\<close> The socket.io transport and express HTTP surface (only their
  contract and \<open>/api/status\<close>'s counts), console output, process start-up and
  shutdown; JavaScript doubles (positions are reals); a chat message without a body
  (relayed as \<open>undefined\<close> without an exception); the state left behind by a handler
  that throws (a fault ends the run, as an uncaught exception ends the process).

  \<^bold>\<open>Findings.\<close> \<open>/api/status\<close> always reports zero (C24); a second room request
  leaves a ghost roster entry after disconnect (C25); the spawn cursor wraps at 7, not
  at the spawn order's length (C21); missing payloads throw instead of being ignored
  (C22, C23).

  \<^bold>\<open>Plan.\<close> Still to do: the no-ghost invariant under the intended protocol
  (\<open>reach_wb\<close>: every roster entry is a live socket bound to that room, exactly once);
  the bomb-layer invariant (a non-zero cell at a non-negative index codes a member's
  serial); host recovery on \<open>"player available"\<close>; the remaining handlers' broadcasts.
\<close>

section \<open>A concrete level and a concrete session\<close>

text \<open>
  A 10-wide level with the three layers the handlers use and eight spawn points, and the
  world reached by a real run of the server: sockets \<open>a\<close>, \<open>b\<close>, \<open>c\<close> connect,
  \<open>a\<close> and \<open>b\<close> ask for a room (\<open>b\<close> without a name, so it is named \<open>Guest42\<close>).
  The witnesses below apply the theorems to this world.
\<close>

definition demo_level :: tilemap where
  "demo_level =
     \<lparr>width = 10,
      layers = [\<lparr>lname = ''objects'', ldata = js_of_list (replicate 100 0)\<rparr>,
                \<lparr>lname = ''bombs'', ldata = js_of_list (replicate 100 0)\<rparr>,
                \<lparr>lname = ''powerups'', ldata = js_of_list (replicate 100 0)\<rparr>],
      spawn_order = map (\<lambda>(c, r). \<lparr>sp_col = c, sp_row = r\<rparr>)
        [(1, 1), (8, 1), (1, 8), (8, 8), (4, 1), (4, 8), (1, 4), (8, 4)]\<rparr>"

definition demo_session :: "(conn_id \<times> timestamp \<times> event) list" where
  "demo_session =
     [(''a'', 1, Connect), (''b'', 2, Connect), (''c'', 3, Connect),
      (''a'', 4, RoomRequest (Some (Some ''ann'')) 5), (''b'', 5, RoomRequest (Some None) 42)]"

definition demo_world :: world where
  "demo_world =
     (case run (init_world demo_level) demo_session of Inr w \<Rightarrow> w | Inl _ \<Rightarrow> init_world demo_level)"

definition demo_room :: room where
  "demo_room = the (rstore demo_world 0)"

text \<open>The same session after \<open>b\<close> spawned (and so is invincible).\<close>

definition demo_spawned :: world where
  "demo_spawned =
     (case run demo_world [(''b'', 6, PlayerSpawn (Some \<lparr>sd_x = 32, sd_y = 0, sd_nickname = ''bee''\<rparr>))]
      of Inr w \<Rightarrow> w | Inl _ \<Rightarrow> demo_world)"

text \<open>The spawn payload the witnesses use (the client sends the tile size in \<open>x\<close>).\<close>

definition demo_spawn :: spawn_data where
  "demo_spawn = \<lparr>sd_x = 32, sd_y = 0, sd_nickname = ''bee''\<rparr>"

text \<open>A level with only four spawn points, and a player who has just joined a room of it.\<close>

definition short_level :: tilemap where
  "short_level = demo_level\<lparr>spawn_order := take 4 (spawn_order demo_level)\<rparr>"

definition short_world :: world where
  "short_world =
     (case run (init_world short_level)
        [(''a'', 1, Connect), (''a'', 2, RoomRequest (Some (Some ''ann'')) 5)]
      of Inr w \<Rightarrow> w | Inl _ \<Rightarrow> init_world short_level)"



section \<open>Witnesses\<close>

lemma demo_reach: "reach demo_level demo_world"
  unfolding demo_world_def by (rule reach_run[OF reach.init]) code_simp

lemma demo_session_facts:
  "host demo_room = Some ''a''" "rooms demo_world = [0]"
  "find_room (rstore demo_world) (rooms demo_world) = Some 0"
  "length (spawn_order (level demo_world)) = 8" "length (spawn_order (rmap demo_room)) = 8"
  "next_spawn_index demo_room = 0" "''b'' \<in> set (members demo_room)"
  "is_active (the (pstore demo_world ''b''))" "serial (the (pstore demo_world ''a''))= 0"
  "sockets demo_world ''b'' \<noteq> None" "sockets demo_world ''c'' \<noteq> None"
  "pstore demo_world ''b'' = Some (the (pstore demo_world ''b''))"
  "pstore demo_world ''c'' = Some (the (pstore demo_world ''c''))"
  "length (players demo_world) = 3" "\<not> is_full demo_room"
  by code_simp+

lemma short_world_facts:
  "pstore short_world ''a'' = Some (the (pstore short_world ''a''))"
  "this_room short_world ''a'' = Some 0"
  "rstore short_world 0 = Some (the (rstore short_world 0))"
  "next_spawn_index (the (rstore short_world 0)) = 0"
  "length (spawn_order (rmap (the (rstore short_world 0)))) = 4"
  by code_simp+

lemma demo_roomless: "this_room demo_world ''c'' = None"
  by code_simp

text \<open>Facts of the concrete session, evaluated by the simplifier on the code equations.\<close>

lemma demo_bound: "this_room demo_world ''a'' = Some 0" "this_room demo_world ''b'' = Some 0"
  by code_simp+

lemma demo_room_stored: "rstore demo_world 0 = Some demo_room"
  by code_simp

lemma demo_resolve:
  "resolve demo_world demo_room 0 = Some (''a'', the (pstore demo_world ''a''))"
  "resolve demo_world demo_room 1 = Some (''b'', the (pstore demo_world ''b''))"
  by code_simp+

lemma demo_alive:
  "\<not> is_invincible (the (pstore demo_world ''a''))" "\<not> is_dead (the (pstore demo_world ''a''))"
  "\<not> is_invincible (the (pstore demo_world ''b''))" "\<not> is_dead (the (pstore demo_world ''b''))"
  by code_simp+

lemma demo_layers:
  "first_layer ''bombs'' (rmap demo_room) = Some 1"
  "last_layer ''bombs'' (rmap demo_room) = Some 1"
  "last_layer ''objects'' (rmap demo_room) = Some 0"
  "first_layer ''powerups'' (rmap demo_room) = Some 2"
  by code_simp+

lemma demo_cell_free:
  "\<not> truthy (js_get (ldata (layers (rmap demo_room) ! 1)) (cell_index (rmap demo_room) 2 3))"
  by code_simp

lemma demo_spawned_facts:
  "this_room demo_spawned ''a'' = Some 0"
  "rstore demo_spawned 0 = Some (the (rstore demo_spawned 0))"
  "resolve demo_spawned (the (rstore demo_spawned 0)) 1 = Some (''b'', the (pstore demo_spawned ''b''))"
  "is_invincible (the (pstore demo_spawned ''b''))"
  by code_simp+

lemma demo_player_a: "pstore demo_world ''a'' = Some (the (pstore demo_world ''a''))"
  by code_simp

theorem handlers_ignore_roomless_socket_witness:
  "on_player_death ''c'' \<lparr>dd_victim_serial = 1, dd_killer_serial = 0\<rparr> demo_world = demo_world
   \<and> on_player_lost_invincibility ''c'' 0 demo_world = demo_world
   \<and> on_player_plant_bomb ''c'' \<lparr>bd_owner_serial = 0, bd_col = 2, bd_row = 3\<rparr> 7 demo_world = demo_world
   \<and> on_bomb_explode ''c'' [(2, 3)] 7 demo_world = demo_world
   \<and> on_powerup_blink ''c'' \<lparr>pu_col = 1, pu_row = 1, pu_type = ''speed''\<rparr> demo_world = demo_world
   \<and> on_powerup_disappear ''c'' \<lparr>pu_col = 1, pu_row = 1, pu_type = ''speed''\<rparr> demo_world = demo_world
   \<and> on_map_reset ''c'' demo_world = demo_world
   \<and> on_chat_message ''c'' ''hi'' demo_world = demo_world
   \<and> on_player_move ''c'' \<lparr>mv_tag = ''c'', mv_x = 1, mv_y = 2, mv_key = ''left''\<rparr> demo_world = demo_world
   \<and> on_player_collect_powerup ''c'' \<lparr>pu_col = 1, pu_row = 1, pu_type = ''protection''\<rparr> 7 demo_world
       = demo_world
   \<and> on_player_spawn ''c'' \<lparr>sd_x = 32, sd_y = 0, sd_nickname = ''c''\<rparr> 7 demo_world = Inr demo_world"
  by (rule handlers_ignore_roomless_socket [OF demo_roomless])

theorem on_player_death_kill_witness:
  "pstore (on_player_death ''a'' \<lparr>dd_victim_serial = 1, dd_killer_serial = 0\<rparr> demo_world) ''a'' =
     Some ((the (pstore demo_world ''a''))\<lparr>frags := frags (the (pstore demo_world ''a'')) + 1\<rparr>)
   \<and> pstore (on_player_death ''a'' \<lparr>dd_victim_serial = 1, dd_killer_serial = 0\<rparr> demo_world) ''b'' =
     Some ((the (pstore demo_world ''b''))\<lparr>is_dead := True\<rparr>)"
  by (rule on_player_death_kill [OF demo_bound(1) demo_room_stored demo_resolve(2) demo_resolve(1)
        _ _ demo_alive(3) demo_alive(4)]) simp_all

theorem on_player_death_self_witness:
  "pstore (on_player_death ''a'' \<lparr>dd_victim_serial = 0, dd_killer_serial = 0\<rparr> demo_world) ''a'' =
     Some ((the (pstore demo_world ''a''))\<lparr>frags := frags (the (pstore demo_world ''a'')) - 1, is_dead := True\<rparr>)"
  by (rule on_player_death_self [OF demo_bound(1) demo_room_stored demo_resolve(1) demo_alive(1) demo_alive(2)])

theorem on_player_death_protected_witness:
  "on_player_death ''a'' \<lparr>dd_victim_serial = 1, dd_killer_serial = 0\<rparr> demo_spawned = demo_spawned"
  by (rule on_player_death_protected [OF demo_spawned_facts(1) demo_spawned_facts(2),
        where v = "''b''" and vp = "the (pstore demo_spawned ''b'')"])
     (simp_all add: demo_spawned_facts(3,4))

theorem plant_bomb_marks_cell_witness:
  "\<exists>r'. rstore (on_player_plant_bomb ''a'' \<lparr>bd_owner_serial = 0, bd_col = 2, bd_row = 3\<rparr> 9 demo_world) 0 = Some r' \<and>
      js_get (ldata (layers (rmap r') ! 1)) (3 * width (rmap demo_room) + 2) = Some 1 \<and>
      outbox (on_player_plant_bomb ''a'' \<lparr>bd_owner_serial = 0, bd_col = 2, bd_row = 3\<rparr> 9 demo_world) =
        outbox demo_world @ [emit_all demo_room ''player plant bomb''
          (P_bomb \<lparr>bd_owner_serial = 0, bd_col = 2, bd_row = 3\<rparr> 9)]"
  using plant_bomb_marks_cell [OF demo_bound(1) demo_room_stored _ demo_layers(1),
      of "\<lparr>bd_owner_serial = 0, bd_col = 2, bd_row = 3\<rparr>" "''a''" "the (pstore demo_world ''a'')" 9]
    demo_resolve(1) demo_cell_free
  by simp

theorem plant_bomb_no_double_occupancy_witness:
  "on_player_plant_bomb ''b'' \<lparr>bd_owner_serial = 1, bd_col = 2, bd_row = 3\<rparr> 10
     (on_player_plant_bomb ''a'' \<lparr>bd_owner_serial = 0, bd_col = 2, bd_row = 3\<rparr> 9 demo_world)
   = on_player_plant_bomb ''a'' \<lparr>bd_owner_serial = 0, bd_col = 2, bd_row = 3\<rparr> 9 demo_world"
  by (rule plant_bomb_no_double_occupancy [OF demo_bound(1) demo_bound(2) demo_room_stored _ demo_layers(1)])
     (simp_all add: demo_resolve(1))

theorem bomb_explode_clears_cells_witness:
  "\<exists>r'. rstore (on_bomb_explode ''a'' [(2, 3), (2, 4)] 11 demo_world) 0 = Some r'
    \<and> js_get (ldata (layers (rmap r') ! 1)) (3 * width (rmap demo_room) + 2) = Some 0
    \<and> js_get (ldata (layers (rmap r') ! 0)) (3 * width (rmap demo_room) + 2) = Some 0
    \<and> outbox (on_bomb_explode ''a'' [(2, 3), (2, 4)] 11 demo_world) =
        outbox demo_world @ [emit_all demo_room ''bomb explode'' (P_explode [(2, 3), (2, 4)] 11)]"
  by (rule bomb_explode_clears_cells [OF demo_bound(1) demo_room_stored demo_layers(3) demo_layers(2)]) simp

theorem player_move_behaviour_witness:
  "\<not> is_dead (the (pstore demo_world ''a''))
   \<and> pstore (on_player_move ''a'' \<lparr>mv_tag = ''a'', mv_x = 5, mv_y = 6, mv_key = ''up''\<rparr> demo_world) ''a'' =
        Some ((the (pstore demo_world ''a''))\<lparr>px := 5, py := 6, animation_key := ''up''\<rparr>)
   \<and> outbox (on_player_move ''a'' \<lparr>mv_tag = ''a'', mv_x = 5, mv_y = 6, mv_key = ''up''\<rparr> demo_world) =
        outbox demo_world @ [emit_broadcast demo_room ''player move''
          (P_move \<lparr>mv_tag = ''a'', mv_x = 5, mv_y = 6, mv_key = ''up''\<rparr>) ''a'']
   \<and> set (dest (emit_broadcast demo_room ''player move''
          (P_move \<lparr>mv_tag = ''a'', mv_x = 5, mv_y = 6, mv_key = ''up''\<rparr>) ''a'')) =
        set (members demo_room) - {''a''}"
  using player_move_behaviour [OF demo_player_a demo_bound(1) demo_room_stored] demo_alive(2) by simp

theorem reach_room_wf_witness:
  "length (slots demo_room) = room_capacity \<and> count_some (slots demo_room) \<le> room_capacity
   \<and> next_spawn_index demo_room < room_capacity \<and> ''a'' \<in> set (members demo_room)"
  using Safety.reach_room_wf[OF demo_reach demo_room_stored] demo_session_facts(1) by simp

theorem reach_registry_wf_witness:
  "distinct (rooms demo_world) \<and> 0 \<in> set (rooms demo_world) \<and> \<not> is_empty demo_room"
  using Safety.reach_registry_wf[OF demo_reach] demo_session_facts(2) demo_room_stored by auto

theorem reach_player_registry_wf_witness:
  "distinct (players demo_world) \<and> length (players demo_world) = card (dom (sockets demo_world))"
  using Safety.reach_player_registry_wf[OF demo_reach] by simp

theorem reach_binding_wf_witness:
  "0 \<in> set (rooms demo_world) \<and> js_index_of 0 (rooms demo_world) \<noteq> -1
   \<and> slots demo_room ! serial (the (pstore demo_world ''a'')) = Some ''a''"
  using Safety.reach_binding_wf[OF demo_reach demo_bound(1)] demo_room_stored by auto

theorem reach_no_fault_witness:
  "\<exists>w'. dispatch ''b'' 7 (PlayerSpawn (Some demo_spawn)) demo_world = Inr w'"
  by (rule Safety.reach_no_fault[OF demo_reach]) (simp_all add: demo_session_facts room_capacity_def)

theorem reach_first_fit_witness:
  "\<exists>w' r'. on_room_request ''c'' (Some (Some ''cy'')) 7 demo_world = Inr w'
     \<and> this_room w' ''c'' = Some 0 \<and> rstore w' 0 = Some r' \<and> ''c'' \<in> set (members r')
     \<and> rooms w' = rooms demo_world"
proof -
  obtain w' where ok: "on_room_request ''c'' (Some (Some ''cy'')) 7 demo_world = Inr w'"
    using room_request_Inr[of demo_world "''c''"] demo_session_facts(13) by blast
  show ?thesis
    using Safety.reach_first_fit[OF demo_reach ok] demo_session_facts(2,15) demo_room_stored ok
    by (auto simp: less_Suc_eq)
qed

theorem disconnect_host_handover_witness:
  "\<exists>w' r'. dispatch ''a'' 9 Disconnect demo_world = Inr w' \<and> rstore w' 0 = Some r'
     \<and> rc_timestamp r' = 9 \<and> host r' \<noteq> Some ''a'' \<and> host r' \<noteq> None \<and> sockets w' ''a'' = None"
proof -
  obtain w0 where "on_client_disconnect ''a'' 9 demo_world = Inr w0"
    using disconnect_Inr[OF demo_reach] by blast
  then have ok: "dispatch ''a'' 9 Disconnect demo_world = Inr (close_socket ''a'' w0)" by simp
  have "\<exists>h \<in> set (members demo_room). h \<noteq> ''a'' \<and> (\<exists>ph. pstore demo_world h = Some ph \<and> is_active ph)"
    using demo_session_facts(7,8,12) by (intro bexI[of _ "''b''"]) auto
  then show ?thesis
    using Safety.disconnect_host_handover[OF demo_reach demo_bound(1) demo_room_stored demo_session_facts(1) ok] ok
    by auto
qed

theorem disconnect_room_removal_exact_witness:
  "\<exists>w' r'. dispatch ''a'' 9 Disconnect demo_world = Inr w' \<and> rstore w' 0 = Some r' \<and> distinct (rooms w')
     \<and> set (rooms w') = (if is_empty r' then {} else {0}) \<and> rstore w' 1 = rstore demo_world 1"
proof -
  obtain w0 where "on_client_disconnect ''a'' 9 demo_world = Inr w0"
    using disconnect_Inr[OF demo_reach] by blast
  then have ok: "dispatch ''a'' 9 Disconnect demo_world = Inr (close_socket ''a'' w0)" by simp
  show ?thesis
    using Safety.disconnect_room_removal_exact[OF demo_reach demo_bound(1) ok] ok demo_session_facts(2)
    by auto
qed

theorem disconnect_scrubs_bombs_witness:
  "\<exists>w' r'. on_client_disconnect ''a'' 9 demo_world = Inr w' \<and> rstore w' 0 = Some r'
     \<and> ldata (layers (rmap r') ! 1) = scrub_spec 1 (ldata (layers (rmap demo_room) ! 1))
     \<and> layers (rmap r') ! 0 = layers (rmap demo_room) ! 0"
  using Safety.disconnect_scrubs_bombs[OF demo_bound(1) demo_room_stored demo_player_a demo_layers(1), of 9]
    demo_session_facts(9) by auto

theorem spawn_behaviour_witness:
  "\<exists>w'. on_player_spawn ''b'' demo_spawn 7 demo_world = Inr w'
     \<and> rstore w' 0 = Some (demo_room\<lparr>next_spawn_index := 1\<rparr>)
     \<and> pstore w' ''b'' = Some ((the (pstore demo_world ''b''))\<lparr>px := 48, py := 48, is_dead := False,
          is_invincible := True, i_timestamp := 7, nickname := ''bee''\<rparr>)"
proof -
  have sp: "spawn_order (rmap demo_room) ! 0 = \<lparr>sp_col = 1, sp_row = 1\<rparr>" by code_simp
  show ?thesis
    using Safety.spawn_behaviour[OF demo_session_facts(12) demo_bound(2) demo_room_stored, of demo_spawn 7]
      demo_session_facts(5,6) sp
    by (auto simp: Let_def room_capacity_def demo_spawn_def)
qed

theorem spawn_cursor_cycles_witness:
  "\<exists>w' r'. run demo_world (replicate 9 (''b'', 7, PlayerSpawn (Some demo_spawn))) = Inr w'
     \<and> rstore w' 0 = Some r' \<and> next_spawn_index r' = 1"
  using Safety.spawn_cursor_cycles[OF demo_session_facts(12) demo_bound(2) demo_room_stored, of 9 7 demo_spawn]
    demo_session_facts(5,6) by (auto simp: room_capacity_def)

theorem spawn_wraps_at_seven_witness:
  "\<exists>w'. run short_world (replicate 4 (''a'', 8, PlayerSpawn (Some demo_spawn))) = Inr w'
     \<and> dispatch ''a'' 8 (PlayerSpawn (Some demo_spawn)) w' = Inl (TypeError ''spawn_order[next_spawn_index] is undefined'')"
  using Safety.spawn_wraps_at_seven[OF short_world_facts(1-4), of 8 demo_spawn] short_world_facts(5)
  by (simp add: room_capacity_def)

theorem missing_payload_faults_witness:
  "dispatch ''a'' 9 (PlayerDeath None) demo_world = Inl (TypeError ''death_data is undefined'')
   \<and> dispatch ''a'' 9 (PlantBomb None) demo_world = Inl (TypeError ''bomb_data is undefined'')
   \<and> dispatch ''a'' 9 (WebLogin None) demo_world = Inl (TypeError ''user_info is undefined'')"
  using Safety.missing_payload_faults[OF demo_player_a _ demo_bound(1) demo_room_stored, of 9]
    demo_alive(2) demo_layers(4) by simp

theorem reach_status_zero_witness:
  "status demo_world = (0, 0) \<and> length (players demo_world) = 3"
  using Safety.reach_status_zero[OF demo_reach] demo_session_facts(14) by simp

theorem room_request_without_payload_faults_witness:
  "on_room_request ''c'' None 7 demo_world = Inl (TypeError ''client_data is undefined'')"
  by (rule Safety.room_request_without_payload_faults) (metis demo_session_facts(13) option.distinct(1))

theorem gameplay_events_preserve_session_witness:
  "skel (on_player_plant_bomb ''a'' \<lparr>bd_owner_serial = 0, bd_col = 2, bd_row = 3\<rparr> 9 demo_world) = skel demo_world"
  by (rule Session.gameplay_events_preserve_session[of "PlantBomb (Some \<lparr>bd_owner_serial = 0, bd_col = 2, bd_row = 3\<rparr>)"
        "''a''" 9 demo_world]) simp_all


end
